theory Spec2Isabelle
  imports Main
begin

section \<open>The parsed document and Python's failures\<close>

text \<open>
  The transport layer hands every operation of \<open>evelink/char.py\<close> a parsed XML tree
  (an ElementTree element): a tag, the attribute dictionary \<open>attrib\<close>, the text \<open>elem_text\<close>
  (\<open>None\<close> when the element has none) and the child elements in document order.
\<close>

datatype elem =
  Elem (tag: string) (attrib: "(string \<times> string) list") (elem_text: "string option")
    (children: "elem list")

text \<open>
  Every way an operation can raise: \<open>d[k]\<close> on a missing key (a string, or for
  \<open>event_attendees\<close> an integer), \<open>int\<close>/\<open>float\<close> on a string that is no number, a
  method called on \<open>None\<close>, \<open>int(None)\<close>.
\<close>

datatype error = KeyError string | ValueError | AttributeError | TypeError | IntKeyError int

definition bindE :: "error + 'a \<Rightarrow> ('a \<Rightarrow> error + 'b) \<Rightarrow> error + 'b" where
  "bindE m f = (case m of Inl e \<Rightarrow> Inl e | Inr x \<Rightarrow> f x)"

text \<open>\<open>[f(x) for x in xs]\<close>, stopping at the first element on which \<open>f\<close> raises.\<close>

fun mapE :: "('a \<Rightarrow> error + 'b) \<Rightarrow> 'a list \<Rightarrow> error + 'b list" where
  "mapE f [] = Inr []"
| "mapE f (x # xs) = bindE (f x) (\<lambda>y. bindE (mapE f xs) (\<lambda>ys. Inr (y # ys)))"

text \<open>\<open>for x in xs: state = body(x, state)\<close>, stopping at the first raise.\<close>

fun foldE :: "('a \<Rightarrow> 's \<Rightarrow> error + 's) \<Rightarrow> 'a list \<Rightarrow> 's \<Rightarrow> error + 's" where
  "foldE f [] s = Inr s"
| "foldE f (x # xs) s = bindE (f x s) (foldE f xs)"

text \<open>\<open>elem.find(t)\<close>: the first child with tag \<open>t\<close>, or \<open>None\<close>.\<close>

definition elem_find :: "string \<Rightarrow> elem \<Rightarrow> elem option" where
  "elem_find t e = List.find (\<lambda>c. tag c = t) (children e)"

text \<open>\<open>elem.findall(t)\<close>: the children with tag \<open>t\<close>, in document order.\<close>

definition elem_findall :: "string \<Rightarrow> elem \<Rightarrow> elem list" where
  "elem_findall t e = filter (\<lambda>c. tag c = t) (children e)"

text \<open>Calling a method on the value of \<open>find\<close>: an \<open>AttributeError\<close> on \<open>None\<close>.\<close>

definition deref :: "elem option \<Rightarrow> error + elem" where
  "deref r = (case r of None \<Rightarrow> Inl AttributeError | Some e \<Rightarrow> Inr e)"

text \<open>\<open>a[k]\<close> on an attribute dictionary.\<close>

definition getitem :: "(string \<times> string) list \<Rightarrow> string \<Rightarrow> error + string" where
  "getitem a k = (case map_of a k of None \<Rightarrow> Inl (KeyError k) | Some v \<Rightarrow> Inr v)"

subsection \<open>\<open>int\<close> on a string\<close>

text \<open>
  Python's \<open>int(s)\<close> on a string, in base ten: surrounding whitespace is dropped, one sign
  is allowed, and at least one decimal digit must follow and nothing else; anything else
  raises \<open>ValueError\<close>.
\<close>

definition is_space :: "char \<Rightarrow> bool" where
  "is_space c = (c \<in> set [CHR '' '', CHR 0x09, CHR 0x0A, CHR 0x0B, CHR 0x0C, CHR 0x0D])"

definition strip :: "string \<Rightarrow> string" where
  "strip s = rev (dropWhile is_space (rev (dropWhile is_space s)))"

definition is_digit :: "char \<Rightarrow> bool" where
  "is_digit c = (c \<in> set ''0123456789'')"

fun digits_value :: "nat \<Rightarrow> string \<Rightarrow> nat option" where
  "digits_value acc [] = Some acc"
| "digits_value acc (c # cs) =
     (if is_digit c then digits_value (10 * acc + (of_char c - 48)) cs else None)"

definition unsigned_value :: "string \<Rightarrow> int option" where
  "unsigned_value s = (if s = [] then None else map_option int (digits_value 0 s))"

definition py_int :: "string \<Rightarrow> int option" where
  "py_int s =
     (case strip s of
        [] \<Rightarrow> None
      | c # cs \<Rightarrow>
          if c = CHR ''-'' then map_option uminus (unsigned_value cs)
          else if c = CHR ''+'' then unsigned_value cs
          else unsigned_value (c # cs))"

definition to_int :: "string \<Rightarrow> error + int" where
  "to_int s = (case py_int s of None \<Rightarrow> Inl ValueError | Some n \<Rightarrow> Inr n)"

text \<open>
  \<open>float(s)\<close>: the float type and its reader are Python's own, so the operations take them
  as a parameter \<open>flt\<close> (\<open>None\<close> where \<open>float\<close> raises \<open>ValueError\<close>).
\<close>

definition to_float :: "(string \<Rightarrow> 'f option) \<Rightarrow> string \<Rightarrow> error + 'f" where
  "to_float flt s = (case flt s of None \<Rightarrow> Inl ValueError | Some v \<Rightarrow> Inr v)"

subsection \<open>The response envelope\<close>

text \<open>
  \<open>api.APIResult(result, timestamp, expires)\<close>. The transport layer passes each operation
  an envelope around the parsed document; the operation returns one around its result.
\<close>

record ('r, 't) api_result =
  result :: 'r
  timestamp :: 't
  expires :: 't

definition APIResult :: "'r \<Rightarrow> 't \<Rightarrow> 't \<Rightarrow> ('r, 't) api_result" where
  "APIResult r ts ex = \<lparr>result = r, timestamp = ts, expires = ex\<rparr>"

section \<open>The wallet\<close>

record 'f wallet =
  w_balance :: 'f
  w_id :: int
  w_key :: int

definition wallet_info ::
  "(string \<Rightarrow> 'f option) \<Rightarrow> (elem, 't) api_result \<Rightarrow> error + ('f wallet, 't) api_result" where
  "wallet_info flt api_res =
     bindE (deref (elem_find ''rowset'' (result api_res))) (\<lambda>rowset.
     bindE (deref (elem_find ''row'' rowset)) (\<lambda>row.
     bindE (bindE (getitem (attrib row) ''balance'') (to_float flt)) (\<lambda>b.
     bindE (bindE (getitem (attrib row) ''accountID'') to_int) (\<lambda>i.
     bindE (bindE (getitem (attrib row) ''accountKey'') to_int) (\<lambda>k.
     Inr (APIResult \<lparr>w_balance = b, w_id = i, w_key = k\<rparr>
            (timestamp api_res) (expires api_res)))))))"

text \<open>
  \<open>wallet_balance\<close> calls \<open>self.wallet_info()\<close>, which the dispatch decorator runs on the
  transport's response; the response is the argument here.
\<close>

definition wallet_balance ::
  "(string \<Rightarrow> 'f option) \<Rightarrow> (elem, 't) api_result \<Rightarrow> error + ('f, 't) api_result" where
  "wallet_balance flt api_res =
     bindE (wallet_info flt api_res) (\<lambda>info.
     Inr (APIResult (w_balance (result info)) (timestamp info) (expires info)))"

section \<open>Notifications\<close>

text \<open>
  \<open>api.parse_ts\<close> lives in a module that is not part of these sources; the operations that
  call it take it as the parameter \<open>parse_ts\<close> (a string to a timestamp, or a raise).
\<close>

record 'ts notification =
  nt_id :: int
  nt_type_id :: int
  nt_sender_id :: int
  nt_timestamp :: 'ts
  nt_read :: bool

definition notification_row ::
  "(string \<Rightarrow> error + 'ts) \<Rightarrow> elem \<Rightarrow> (int \<rightharpoonup> 'ts notification)
     \<Rightarrow> error + (int \<rightharpoonup> 'ts notification)" where
  "notification_row parse_ts row res =
     (let a = attrib row in
      bindE (bindE (getitem a ''notificationID'') to_int) (\<lambda>notification_id.
      bindE (bindE (getitem a ''typeID'') to_int) (\<lambda>type_id.
      bindE (bindE (getitem a ''senderID'') to_int) (\<lambda>sender_id.
      bindE (bindE (getitem a ''sentDate'') parse_ts) (\<lambda>ts.
      bindE (getitem a ''read'') (\<lambda>read.
      Inr (res(notification_id \<mapsto>
        \<lparr>nt_id = notification_id, nt_type_id = type_id, nt_sender_id = sender_id,
         nt_timestamp = ts, nt_read = (read = ''1'')\<rparr>))))))))"

definition notifications ::
  "(string \<Rightarrow> error + 'ts) \<Rightarrow> (elem, 't) api_result
     \<Rightarrow> error + (int \<rightharpoonup> 'ts notification, 't) api_result" where
  "notifications parse_ts api_res =
     bindE (deref (elem_find ''rowset'' (result api_res))) (\<lambda>rowset.
     bindE (foldE (notification_row parse_ts) (elem_findall ''row'' rowset) Map.empty) (\<lambda>res.
     Inr (APIResult res (timestamp api_res) (expires api_res))))"

subsection \<open>Notification texts\<close>

text \<open>
  \<open>s.split(sep)\<close> with a one-character separator; the empty string splits into one
  piece, the empty string.
\<close>

fun split_on :: "char \<Rightarrow> string \<Rightarrow> string list" where
  "split_on sep [] = [[]]"
| "split_on sep (c # cs) =
     (if c = sep then [] # split_on sep cs
      else (case split_on sep cs of [] \<Rightarrow> [[c]] | w # ws \<Rightarrow> (c # w) # ws))"

text \<open>
  The keys of the result of \<open>notification_texts\<close> are Python values of two types: the
  \<open>int\<close> of a row's \<open>notificationID\<close>, and the pieces of the \<open>missingIDs\<close> text as they
  stand, which are strings. In Python \<open>5\<close> and \<open>'5'\<close> are different keys.
\<close>

datatype pykey = IntKey int | StrKey string

text \<open>
  A notification's dictionary holds \<open>'id'\<close> and whatever \<open>api.parse_keyval_data\<close> makes of
  the row's text (the parameter \<open>parse_keyval_data\<close>; that module is not part of these
  sources). \<open>dict.update\<close> lets the parsed data overwrite \<open>'id'\<close>.
\<close>

datatype 'd field = IntField int | DataField 'd

definition notification_text_row ::
  "(string option \<Rightarrow> error + (string \<rightharpoonup> 'd)) \<Rightarrow> elem
     \<Rightarrow> (pykey \<rightharpoonup> (string \<rightharpoonup> 'd field) option)
     \<Rightarrow> error + (pykey \<rightharpoonup> (string \<rightharpoonup> 'd field) option)" where
  "notification_text_row parse_keyval_data row res =
     bindE (bindE (getitem (attrib row) ''notificationID'') to_int) (\<lambda>notification_id.
     bindE (parse_keyval_data (elem_text row)) (\<lambda>kv.
     Inr (res(IntKey notification_id \<mapsto>
       Some ([''id'' \<mapsto> IntField notification_id] ++ (map_option DataField \<circ> kv))))))"

definition notification_texts ::
  "(string option \<Rightarrow> error + (string \<rightharpoonup> 'd)) \<Rightarrow> int list \<Rightarrow> (elem, 't) api_result
     \<Rightarrow> error + (pykey \<rightharpoonup> (string \<rightharpoonup> 'd field) option, 't) api_result" where
  "notification_texts parse_keyval_data notification_ids api_res =
     bindE (deref (elem_find ''rowset'' (result api_res))) (\<lambda>rowset.
     bindE (foldE (notification_text_row parse_keyval_data) (elem_findall ''row'' rowset)
              Map.empty) (\<lambda>res.
     bindE (case elem_find ''missingIDs'' (result api_res) of
              None \<Rightarrow> Inr res
            | Some missing_ids \<Rightarrow>
                (case elem_text missing_ids of
                   None \<Rightarrow> Inl AttributeError
                 | Some t \<Rightarrow>
                     Inr (fold (\<lambda>missing_id r. r(StrKey missing_id \<mapsto> None))
                            (split_on CHR '','' t) res))) (\<lambda>res'.
     Inr (APIResult res' (timestamp api_res) (expires api_res)))))"

section \<open>Mail\<close>

definition message_body_row ::
  "elem \<Rightarrow> (int \<rightharpoonup> string option) \<Rightarrow> error + (int \<rightharpoonup> string option)" where
  "message_body_row row results =
     bindE (bindE (getitem (attrib row) ''messageID'') to_int) (\<lambda>message_id.
     Inr (results(message_id \<mapsto> elem_text row)))"

definition message_bodies ::
  "int list \<Rightarrow> (elem, 't) api_result \<Rightarrow> error + (int \<rightharpoonup> string option, 't) api_result" where
  "message_bodies message_ids api_res =
     bindE (deref (elem_find ''rowset'' (result api_res))) (\<lambda>rowset.
     bindE (foldE message_body_row (elem_findall ''row'' rowset) Map.empty) (\<lambda>results.
     bindE (case elem_find ''missingMessageIDs'' (result api_res) of
              None \<Rightarrow> Inr results
            | Some missing_set \<Rightarrow>
                (case elem_text missing_set of
                   None \<Rightarrow> Inl AttributeError
                 | Some t \<Rightarrow>
                     bindE (mapE to_int (split_on CHR '','' t)) (\<lambda>missing_ids.
                     Inr (fold (\<lambda>missing_id r. r(missing_id \<mapsto> None)) missing_ids
                            results)))) (\<lambda>results'.
     Inr (APIResult results' (timestamp api_res) (expires api_res)))))"

record message_to =
  to_org_id :: "int option"
  to_char_ids :: "int list option"
  to_list_ids :: "int list option"

record 'ts message =
  msg_id :: int
  msg_sender_id :: int
  msg_timestamp :: 'ts
  msg_title :: string
  msg_to :: message_to

text \<open>\<open>[int(i) for i in s.split(',')] if s else None\<close>: the empty string is falsy.\<close>

definition id_list :: "string \<Rightarrow> error + int list option" where
  "id_list s =
     (if s \<noteq> [] then bindE (mapE to_int (split_on CHR '','' s)) (\<lambda>ids. Inr (Some ids))
      else Inr None)"

definition message_row :: "(string \<Rightarrow> error + 'ts) \<Rightarrow> elem \<Rightarrow> error + 'ts message" where
  "message_row parse_ts row =
     (let a = attrib row in
      bindE (bindE (getitem a ''messageID'') to_int) (\<lambda>message_id.
      bindE (bindE (getitem a ''senderID'') to_int) (\<lambda>sender_id.
      bindE (bindE (getitem a ''sentDate'') parse_ts) (\<lambda>ts.
      bindE (getitem a ''title'') (\<lambda>title.
      bindE (getitem a ''toCorpOrAllianceID'') (\<lambda>org_id.
      bindE (if org_id \<noteq> [] then bindE (to_int org_id) (\<lambda>n. Inr (Some n)) else Inr None)
        (\<lambda>org.
      bindE (getitem a ''toCharacterIDs'') (\<lambda>char_ids.
      bindE (id_list char_ids) (\<lambda>chars.
      bindE (getitem a ''toListID'') (\<lambda>list_ids.
      bindE (id_list list_ids) (\<lambda>lists.
      Inr \<lparr>msg_id = message_id, msg_sender_id = sender_id, msg_timestamp = ts,
           msg_title = title,
           msg_to = \<lparr>to_org_id = org, to_char_ids = chars, to_list_ids = lists\<rparr>\<rparr>)))))))))))"

definition messages ::
  "(string \<Rightarrow> error + 'ts) \<Rightarrow> (elem, 't) api_result
     \<Rightarrow> error + ('ts message list, 't) api_result" where
  "messages parse_ts api_res =
     bindE (deref (elem_find ''rowset'' (result api_res))) (\<lambda>rowset.
     bindE (mapE (message_row parse_ts) (elem_findall ''row'' rowset)) (\<lambda>results.
     Inr (APIResult results (timestamp api_res) (expires api_res))))"

section \<open>Standings\<close>

record 'f standing =
  st_id :: int
  st_name :: string
  st_standing :: 'f

text \<open>\<open>rowsets[rowset.attrib['name']] = rowset\<close> for every rowset given.\<close>

definition index_rowset :: "elem \<Rightarrow> (string \<rightharpoonup> elem) \<Rightarrow> error + (string \<rightharpoonup> elem)" where
  "index_rowset rowset rowsets =
     bindE (getitem (attrib rowset) ''name'') (\<lambda>n. Inr (rowsets(n \<mapsto> rowset)))"

definition index_rowsets :: "elem list \<Rightarrow> error + (string \<rightharpoonup> elem)" where
  "index_rowsets rs = foldE index_rowset rs Map.empty"

text \<open>\<open>d[k]\<close> on a dictionary built by the operation.\<close>

definition lookup :: "(string \<rightharpoonup> 'a) \<Rightarrow> string \<Rightarrow> error + 'a" where
  "lookup d k = (case d k of None \<Rightarrow> Inl (KeyError k) | Some v \<Rightarrow> Inr v)"

definition standing_row ::
  "(string \<Rightarrow> 'f option) \<Rightarrow> elem \<Rightarrow> (int \<rightharpoonup> 'f standing) \<Rightarrow> error + (int \<rightharpoonup> 'f standing)" where
  "standing_row flt row m =
     (let a = attrib row in
      bindE (bindE (getitem a ''fromID'') to_int) (\<lambda>from_id.
      bindE (getitem a ''fromName'') (\<lambda>name.
      bindE (bindE (getitem a ''standing'') (to_float flt)) (\<lambda>s.
      Inr (m(from_id \<mapsto> \<lparr>st_id = from_id, st_name = name, st_standing = s\<rparr>))))))"

definition name_map :: "(string \<times> string) list" where
  "name_map =
     [(''agents'', ''agents''), (''corps'', ''NPCCorporations''), (''factions'', ''factions'')]"

definition standings_group ::
  "(string \<Rightarrow> 'f option) \<Rightarrow> (string \<rightharpoonup> elem) \<Rightarrow> string \<times> string
     \<Rightarrow> (string \<rightharpoonup> (int \<rightharpoonup> 'f standing)) \<Rightarrow> error + (string \<rightharpoonup> (int \<rightharpoonup> 'f standing))" where
  "standings_group flt rowsets item res =
     (case item of (key, rowset_name) \<Rightarrow>
        bindE (lookup rowsets rowset_name) (\<lambda>rowset.
        bindE (foldE (standing_row flt) (elem_findall ''row'' rowset) Map.empty) (\<lambda>m.
        Inr (res(key \<mapsto> m)))))"

text \<open>
  The loop over \<open>_name_map.iteritems()\<close> runs in the order the dictionary yields its items,
  which Python leaves open: \<open>items\<close> is that order, a rearrangement of \<open>name_map\<close>.
\<close>

definition standings ::
  "(string \<Rightarrow> 'f option) \<Rightarrow> (string \<times> string) list \<Rightarrow> (elem, 't) api_result
     \<Rightarrow> error + (string \<rightharpoonup> (int \<rightharpoonup> 'f standing), 't) api_result" where
  "standings flt items api_res =
     bindE (deref (elem_find ''characterNPCStandings'' (result api_res))) (\<lambda>container.
     bindE (index_rowsets (elem_findall ''rowset'' container)) (\<lambda>rowsets.
     bindE (foldE (standings_group flt rowsets) items Map.empty) (\<lambda>res.
     Inr (APIResult res (timestamp api_res) (expires api_res)))))"

section \<open>Medals\<close>

record medal =
  md_id :: int
  md_reason :: string
  md_public :: bool
  md_issuer_id :: int
  md_corp_id :: int
  md_title :: string
  md_description :: string

definition medal_map :: "string \<rightharpoonup> string" where
  "medal_map = [''currentCorporation'' \<mapsto> ''current'', ''otherCorporations'' \<mapsto> ''other'']"

definition medal_row ::
  "string \<Rightarrow> elem \<Rightarrow> (string \<rightharpoonup> (int \<rightharpoonup> medal)) \<Rightarrow> error + (string \<rightharpoonup> (int \<rightharpoonup> medal))" where
  "medal_row name row res =
     (let a = attrib row in
      bindE (bindE (getitem a ''medalID'') to_int) (\<lambda>medal_id.
      bindE (getitem a ''reason'') (\<lambda>reason.
      bindE (getitem a ''status'') (\<lambda>status.
      bindE (bindE (getitem a ''issuerID'') to_int) (\<lambda>issuer_id.
      bindE (bindE (getitem a ''corporationID'') to_int) (\<lambda>corp_id.
      bindE (getitem a ''title'') (\<lambda>title.
      bindE (getitem a ''description'') (\<lambda>description.
      bindE (lookup res name) (\<lambda>group.
      Inr (res(name \<mapsto> group(medal_id \<mapsto>
        \<lparr>md_id = medal_id, md_reason = reason, md_public = (status = ''public''),
         md_issuer_id = issuer_id, md_corp_id = corp_id, md_title = title,
         md_description = description\<rparr>))))))))))))"

definition medal_rowset ::
  "elem \<Rightarrow> (string \<rightharpoonup> (int \<rightharpoonup> medal)) \<Rightarrow> error + (string \<rightharpoonup> (int \<rightharpoonup> medal))" where
  "medal_rowset rowset res =
     bindE (bindE (getitem (attrib rowset) ''name'') (lookup medal_map)) (\<lambda>name.
     foldE (medal_row name) (elem_findall ''row'' rowset) res)"

definition medals ::
  "(elem, 't) api_result \<Rightarrow> error + (string \<rightharpoonup> (int \<rightharpoonup> medal), 't) api_result" where
  "medals api_res =
     bindE (foldE medal_rowset (elem_findall ''rowset'' (result api_res))
              [''current'' \<mapsto> Map.empty, ''other'' \<mapsto> Map.empty]) (\<lambda>res.
     Inr (APIResult res (timestamp api_res) (expires api_res)))"

section \<open>The calendar\<close>

record event_owner =
  eo_id :: int
  eo_name :: "string option"

record 'ts event =
  ev_id :: int
  ev_owner :: event_owner
  ev_start_ts :: 'ts
  ev_title :: string
  ev_duration :: int
  ev_important :: bool
  ev_description :: string
  ev_response :: string

definition calendar_event_row ::
  "(string \<Rightarrow> error + 'ts) \<Rightarrow> elem \<Rightarrow> (int \<rightharpoonup> 'ts event) \<Rightarrow> error + (int \<rightharpoonup> 'ts event)" where
  "calendar_event_row parse_ts row results =
     (let a = attrib row in
      bindE (bindE (getitem a ''eventID'') to_int) (\<lambda>event_id.
      bindE (bindE (getitem a ''ownerID'') to_int) (\<lambda>owner_id.
      bindE (getitem a ''ownerName'') (\<lambda>owner_name.
      bindE (bindE (getitem a ''eventDate'') parse_ts) (\<lambda>ts.
      bindE (getitem a ''eventTitle'') (\<lambda>title.
      bindE (bindE (getitem a ''duration'') to_int) (\<lambda>duration.
      bindE (getitem a ''importance'') (\<lambda>importance.
      bindE (getitem a ''eventText'') (\<lambda>description.
      bindE (getitem a ''response'') (\<lambda>response.
      Inr (results(event_id \<mapsto>
        \<lparr>ev_id = event_id,
         ev_owner = \<lparr>eo_id = owner_id,
                      eo_name = (if owner_name \<noteq> [] then Some owner_name else None)\<rparr>,
         ev_start_ts = ts, ev_title = title, ev_duration = duration,
         ev_important = (importance = ''1''), ev_description = description,
         ev_response = response\<rparr>))))))))))))"

definition calendar_events ::
  "(string \<Rightarrow> error + 'ts) \<Rightarrow> (elem, 't) api_result
     \<Rightarrow> error + (int \<rightharpoonup> 'ts event, 't) api_result" where
  "calendar_events parse_ts api_res =
     bindE (deref (elem_find ''rowset'' (result api_res))) (\<lambda>rowset.
     bindE (foldE (calendar_event_row parse_ts) (elem_findall ''row'' rowset) Map.empty)
       (\<lambda>results.
     Inr (APIResult results (timestamp api_res) (expires api_res))))"

record attendee =
  at_id :: int
  at_name :: string
  at_response :: string

text \<open>
  \<open>results\<close> is a \<open>defaultdict(dict)\<close>: reading a key that is not there stores an empty
  dictionary under it first. The requested ids are keys as the caller gave them; a row's
  key is the \<open>int\<close> of its \<open>eventID\<close>.
\<close>

definition attendee_row ::
  "elem \<Rightarrow> (pykey \<rightharpoonup> (int \<rightharpoonup> attendee)) \<Rightarrow> error + (pykey \<rightharpoonup> (int \<rightharpoonup> attendee))" where
  "attendee_row row results =
     (let a = attrib row in
      bindE (bindE (getitem a ''characterID'') to_int) (\<lambda>character_id.
      bindE (getitem a ''characterName'') (\<lambda>name.
      bindE (getitem a ''response'') (\<lambda>response.
      bindE (bindE (getitem a ''eventID'') to_int) (\<lambda>event_id.
      Inr (results(IntKey event_id \<mapsto>
        (case results (IntKey event_id) of None \<Rightarrow> Map.empty | Some d \<Rightarrow> d)
          (character_id \<mapsto>
             \<lparr>at_id = character_id, at_name = name, at_response = response\<rparr>))))))))"

definition calendar_attendees ::
  "pykey list \<Rightarrow> (elem, 't) api_result
     \<Rightarrow> error + (pykey \<rightharpoonup> (int \<rightharpoonup> attendee), 't) api_result" where
  "calendar_attendees event_ids api_res =
     (let results0 = fold (\<lambda>event_id r. r(event_id \<mapsto> Map.empty)) event_ids Map.empty in
      bindE (deref (elem_find ''rowset'' (result api_res))) (\<lambda>rowset.
      bindE (foldE attendee_row (elem_findall ''row'' rowset) results0) (\<lambda>results.
      Inr (APIResult results (timestamp api_res) (expires api_res)))))"

section \<open>Locations\<close>

record 'f location =
  loc_name :: "string option"
  loc_id :: "int option"
  loc_x :: "'f option"
  loc_y :: "'f option"
  loc_z :: "'f option"

text \<open>
  \<open>v or None\<close>: the value when it is truthy, else \<open>None\<close>. A number, \<open>int\<close> or \<open>float\<close>,
  is truthy when it is not equal to zero, a string when it is not empty. The float type
  is a parameter of the operations; all that is used of it is its zero.
\<close>

definition or_None :: "('a \<Rightarrow> bool) \<Rightarrow> 'a \<Rightarrow> 'a option" where
  "or_None truthy v = (if truthy v then Some v else None)"

definition location_row ::
  "(string \<Rightarrow> 'f option) \<Rightarrow> elem \<Rightarrow> (int option \<rightharpoonup> ('f :: zero) location)
     \<Rightarrow> error + (int option \<rightharpoonup> 'f location)" where
  "location_row flt row results =
     (let a = attrib row in
      bindE (getitem a ''itemName'') (\<lambda>name.
      bindE (bindE (getitem a ''itemID'') to_int) (\<lambda>item_id.
      bindE (bindE (getitem a ''x'') (to_float flt)) (\<lambda>x.
      bindE (bindE (getitem a ''y'') (to_float flt)) (\<lambda>y.
      bindE (bindE (getitem a ''z'') (to_float flt)) (\<lambda>z.
      Inr (results(or_None (\<lambda>n. n \<noteq> 0) item_id \<mapsto>
        \<lparr>loc_name = or_None (\<lambda>s. s \<noteq> []) name,
         loc_id = or_None (\<lambda>n. n \<noteq> 0) item_id,
         loc_x = or_None (\<lambda>v. v \<noteq> 0) x, loc_y = or_None (\<lambda>v. v \<noteq> 0) y,
         loc_z = or_None (\<lambda>v. v \<noteq> 0) z\<rparr>))))))))"

definition locations ::
  "(string \<Rightarrow> 'f option) \<Rightarrow> int list \<Rightarrow> (elem, 't) api_result
     \<Rightarrow> error + (int option \<rightharpoonup> ('f :: zero) location, 't) api_result" where
  "locations flt location_list api_res =
     bindE (deref (elem_find ''rowset'' (result api_res))) (\<lambda>rowset.
     bindE (foldE (location_row flt) (elem_findall ''row'' rowset) Map.empty)
       (\<lambda>results.
     Inr (APIResult results (timestamp api_res) (expires api_res))))"

section \<open>The character sheet\<close>

text \<open>
  \<open>api.elem_getters(elem)\<close> returns the five typed readers \<open>_str\<close>, \<open>_int\<close>, \<open>_float\<close>,
  \<open>_bool\<close>, \<open>_ts\<close> of a named child of \<open>elem\<close>. Their module is not part of these sources,
  so \<open>character_sheet\<close> takes \<open>elem_getters\<close> as a parameter: each reader gives a value,
  \<open>None\<close>, or raises.
\<close>

record ('f, 'ts) getters =
  get_str :: "string \<Rightarrow> error + string option"
  get_int :: "string \<Rightarrow> error + int option"
  get_float :: "string \<Rightarrow> error + 'f option"
  get_bool :: "string \<Rightarrow> error + bool option"
  get_ts :: "string \<Rightarrow> error + 'ts option"

record org =
  org_id :: "int option"
  org_name :: "string option"

record clone =
  clone_name :: "string option"
  clone_skillpoints :: "int option"

record bonus =
  bonus_name :: "string option"
  bonus_value :: int

record attribute =
  attr_base :: int
  attr_total :: int
  attr_bonus :: "bonus option"

record skill =
  skill_id :: int
  skill_skillpoints :: int
  skill_level :: int
  skill_published :: bool

record named =
  named_id :: int
  named_name :: string

record ('f, 'ts) sheet =
  sh_id :: "int option"
  sh_name :: "string option"
  sh_create_ts :: "'ts option"
  sh_race :: "string option"
  sh_bloodline :: "string option"
  sh_ancestry :: "string option"
  sh_gender :: "string option"
  sh_corp :: org
  sh_alliance :: org
  sh_clone :: clone
  sh_balance :: "'f option"
  sh_attributes :: "string \<rightharpoonup> attribute"
  sh_skills :: "skill list"
  sh_skillpoints :: int
  sh_certificates :: "int set"
  sh_roles :: "string \<rightharpoonup> (int \<rightharpoonup> named)"
  sh_titles :: "int \<rightharpoonup> named"

text \<open>
  \<open>elem.findall(path)\<close> for a path \<open>t1/t2/...\<close> of tags, given as the list of its tags:
  the matches in document order. \<open>find\<close> is the first match, \<open>findtext\<close> its text, with
  \<open>''\<close> for an element without text and \<open>None\<close> when nothing matches.
\<close>

fun findall_path :: "string list \<Rightarrow> elem \<Rightarrow> elem list" where
  "findall_path [] e = [e]"
| "findall_path (t # ts) e = concat (map (findall_path ts) (elem_findall t e))"

definition find_path :: "string list \<Rightarrow> elem \<Rightarrow> elem option" where
  "find_path p e = (case findall_path p e of [] \<Rightarrow> None | x # _ \<Rightarrow> Some x)"

definition findtext :: "string list \<Rightarrow> elem \<Rightarrow> string option" where
  "findtext p e =
     map_option (\<lambda>x. case elem_text x of None \<Rightarrow> [] | Some t \<Rightarrow> t) (find_path p e)"

text \<open>\<open>int(v)\<close> for \<open>v\<close> a string or \<open>None\<close>: \<open>int(None)\<close> is a \<open>TypeError\<close>.\<close>

definition int_of :: "string option \<Rightarrow> error + int" where
  "int_of v = (case v of None \<Rightarrow> Inl TypeError | Some s \<Rightarrow> to_int s)"

definition sheet_attribute ::
  "elem \<Rightarrow> string \<Rightarrow> (string \<rightharpoonup> attribute) \<Rightarrow> error + (string \<rightharpoonup> attribute)" where
  "sheet_attribute doc attr attrs =
     bindE (int_of (findtext [''attributes'', attr] doc)) (\<lambda>base.
     case find_path [''attributeEnhancers'', attr @ ''Bonus''] doc of
       None \<Rightarrow> Inr (attrs(attr \<mapsto> \<lparr>attr_base = base, attr_total = base, attr_bonus = None\<rparr>))
     | Some bonus \<Rightarrow>
         bindE (int_of (findtext [''augmentatorValue''] bonus)) (\<lambda>mod'.
         Inr (attrs(attr \<mapsto>
           \<lparr>attr_base = base, attr_total = base + mod',
            attr_bonus = Some \<lparr>bonus_name = findtext [''augmentatorName''] bonus,
                               bonus_value = mod'\<rparr>\<rparr>))))"

definition skill_row :: "elem \<Rightarrow> skill list \<times> int \<Rightarrow> error + skill list \<times> int" where
  "skill_row skill acc =
     (case acc of (skills, skillpoints) \<Rightarrow>
        let a = attrib skill in
        bindE (bindE (getitem a ''skillpoints'') to_int) (\<lambda>sp.
        bindE (bindE (getitem a ''typeID'') to_int) (\<lambda>type_id.
        bindE (bindE (getitem a ''level'') to_int) (\<lambda>level.
        bindE (getitem a ''published'') (\<lambda>published.
        Inr (skills @ [\<lparr>skill_id = type_id, skill_skillpoints = sp, skill_level = level,
                        skill_published = (published = ''1'')\<rparr>],
             skillpoints + sp))))))"

definition certificate_row :: "elem \<Rightarrow> int set \<Rightarrow> error + int set" where
  "certificate_row cert certificates =
     bindE (bindE (getitem (attrib cert) ''certificateID'') to_int) (\<lambda>c.
     Inr (insert c certificates))"

definition named_row ::
  "string \<Rightarrow> string \<Rightarrow> elem \<Rightarrow> (int \<rightharpoonup> named) \<Rightarrow> error + (int \<rightharpoonup> named)" where
  "named_row id_attr name_attr row m =
     (let a = attrib row in
      bindE (bindE (getitem a id_attr) to_int) (\<lambda>i.
      bindE (getitem a name_attr) (\<lambda>n.
      Inr (m(i \<mapsto> \<lparr>named_id = i, named_name = n\<rparr>)))))"

definition sheet_role ::
  "(string \<rightharpoonup> elem) \<Rightarrow> string \<times> string \<Rightarrow> (string \<rightharpoonup> (int \<rightharpoonup> named))
     \<Rightarrow> error + (string \<rightharpoonup> (int \<rightharpoonup> named))" where
  "sheet_role rowsets item roles =
     (case item of (our_role, ccp_role) \<Rightarrow>
        bindE (lookup rowsets ccp_role) (\<lambda>rowset.
        bindE (foldE (named_row ''roleID'' ''roleName'') (children rowset) Map.empty) (\<lambda>m.
        Inr (roles(our_role \<mapsto> m)))))"

text \<open>
  \<open>corp_roles\<close> are the items of \<open>constants.Char().corp_roles\<close> (a module that is not part
  of these sources) in the order \<open>iteritems()\<close> yields them. The loops over the rowsets
  \<open>skills\<close>, \<open>certificates\<close>, the role rowsets and \<open>corporationTitles\<close> iterate the rowset
  element itself, that is, all its children.
\<close>

definition character_sheet ::
  "(elem \<Rightarrow> ('f, 'ts) getters) \<Rightarrow> (string \<times> string) list \<Rightarrow> (elem, 't) api_result
     \<Rightarrow> error + (('f, 'ts) sheet, 't) api_result" where
  "character_sheet elem_getters corp_roles api_res =
     (let doc = result api_res; g = elem_getters doc in
      bindE (get_int g ''characterID'') (\<lambda>char_id.
      bindE (get_str g ''name'') (\<lambda>name.
      bindE (get_ts g ''DoB'') (\<lambda>create_ts.
      bindE (get_str g ''race'') (\<lambda>race.
      bindE (get_str g ''bloodLine'') (\<lambda>bloodline.
      bindE (get_str g ''ancestry'') (\<lambda>ancestry.
      bindE (get_str g ''gender'') (\<lambda>gender.
      bindE (get_int g ''corporationID'') (\<lambda>corp_id.
      bindE (get_str g ''corporationName'') (\<lambda>corp_name.
      bindE (get_int g ''allianceID'') (\<lambda>alliance_id.
      bindE (get_str g ''allianceName'') (\<lambda>alliance_name.
      bindE (get_str g ''cloneName'') (\<lambda>clone_nm.
      bindE (get_int g ''cloneSkillPoints'') (\<lambda>clone_sp.
      bindE (get_float g ''balance'') (\<lambda>balance.
      bindE (foldE (sheet_attribute doc)
               [''intelligence'', ''memory'', ''charisma'', ''perception'', ''willpower'']
               Map.empty) (\<lambda>attributes.
      bindE (index_rowsets (elem_findall ''rowset'' doc)) (\<lambda>rowsets.
      bindE (lookup rowsets ''skills'') (\<lambda>skills_rowset.
      bindE (foldE skill_row (children skills_rowset) ([], 0)) (\<lambda>skills_sp.
      bindE (lookup rowsets ''certificates'') (\<lambda>certs_rowset.
      bindE (foldE certificate_row (children certs_rowset) {}) (\<lambda>certificates.
      bindE (foldE (sheet_role rowsets) corp_roles Map.empty) (\<lambda>roles.
      bindE (lookup rowsets ''corporationTitles'') (\<lambda>titles_rowset.
      bindE (foldE (named_row ''titleID'' ''titleName'') (children titles_rowset) Map.empty)
        (\<lambda>titles.
      Inr (APIResult
        \<lparr>sh_id = char_id, sh_name = name, sh_create_ts = create_ts, sh_race = race,
         sh_bloodline = bloodline, sh_ancestry = ancestry, sh_gender = gender,
         sh_corp = \<lparr>org_id = corp_id, org_name = corp_name\<rparr>,
         sh_alliance =
           \<lparr>org_id = (case alliance_id of None \<Rightarrow> None | Some n \<Rightarrow> or_None (\<lambda>n. n \<noteq> 0) n),
            org_name = alliance_name\<rparr>,
         sh_clone = \<lparr>clone_name = clone_nm, clone_skillpoints = clone_sp\<rparr>,
         sh_balance = balance, sh_attributes = attributes, sh_skills = fst skills_sp,
         sh_skillpoints = snd skills_sp, sh_certificates = certificates,
         sh_roles = roles, sh_titles = titles\<rparr>
        (timestamp api_res) (expires api_res))))))))))))))))))))))))))"

section \<open>Assets\<close>

text \<open>
  \<open>assets\<close> wraps \<open>parse_assets(api_result.result)\<close>; \<open>evelink.parsing.assets\<close> is not part
  of these sources. The input is taken as the specification describes it: top-level
  location groups, each a location id with a sequence of item elements, each item with
  its attributes, its own location id when it has one, and its nested contents rowset
  when it has one.
\<close>

datatype item_elem =
  ItemElem (itemID: int) (typeID: int) (quantity: int) (locationID: "int option")
    (flag: int) (unpackaged: bool) (nested: "item_elem list option")

datatype asset =
  Asset (asset_id: int) (item_type_id: int) (asset_quantity: int) (location_id: int)
    (location_flag: int) (packaged: bool) (contents: "asset list option")

record container =
  container_location_id :: int
  container_contents :: "asset list"

text \<open>
  Modelled from the spec: the recursive normalizer of \<open>evelink.parsing.assets\<close>, section
  4.3 step 2. An item takes its own location id if present, else the inherited one; it is
  packaged unless marked unpackaged; a nested contents rowset is normalized with the
  item's resolved location id as the inherited value, and an item without one has no
  \<open>contents\<close>.
\<close>

fun normalize_item :: "int \<Rightarrow> item_elem \<Rightarrow> asset" where
  "normalize_item parent_location_id (ItemElem i t q l f u n) =
     (let loc = (case l of Some own \<Rightarrow> own | None \<Rightarrow> parent_location_id) in
      Asset i t q loc f (\<not> u) (map_option (map (normalize_item loc)) n))"

definition normalize_items :: "int \<Rightarrow> item_elem list \<Rightarrow> asset list" where
  "normalize_items parent_location_id items = map (normalize_item parent_location_id) items"

text \<open>
  Modelled from the spec: \<open>parse_assets\<close>, section 4.3 step 1. Each top-level location
  group gives a container keyed by the group's id, holding that id and the normalized
  items of the group.
\<close>

definition add_group ::
  "int \<times> item_elem list \<Rightarrow> (int \<rightharpoonup> container) \<Rightarrow> (int \<rightharpoonup> container)" where
  "add_group location_group res =
     res(fst location_group \<mapsto>
       \<lparr>container_location_id = fst location_group,
        container_contents =
          normalize_items (fst location_group) (snd location_group)\<rparr>)"

definition parse_assets :: "(int \<times> item_elem list) list \<Rightarrow> (int \<rightharpoonup> container)" where
  "parse_assets groups = fold add_group groups Map.empty"

definition assets ::
  "((int \<times> item_elem list) list, 't) api_result \<Rightarrow> (int \<rightharpoonup> container, 't) api_result" where
  "assets api_res =
     APIResult (parse_assets (result api_res)) (timestamp api_res) (expires api_res)"

text \<open>
  Positions in a tree of items: the item at path \<open>[i, j, ...]\<close> is the \<open>j\<close>-th child of the
  \<open>i\<close>-th item, and so on. The parent of the item at \<open>p @ [i]\<close> is the item at \<open>p\<close>; an
  item at a one-element path is top-level in its location group.
\<close>

fun item_at :: "item_elem list \<Rightarrow> nat list \<Rightarrow> item_elem option" where
  "item_at xs [] = None"
| "item_at xs [i] = (if i < length xs then Some (xs ! i) else None)"
| "item_at xs (i # j # p) =
     (if i < length xs
      then (case nested (xs ! i) of None \<Rightarrow> None | Some cs \<Rightarrow> item_at cs (j # p))
      else None)"

fun asset_at :: "asset list \<Rightarrow> nat list \<Rightarrow> asset option" where
  "asset_at xs [] = None"
| "asset_at xs [i] = (if i < length xs then Some (xs ! i) else None)"
| "asset_at xs (i # j # p) =
     (if i < length xs
      then (case contents (xs ! i) of None \<Rightarrow> None | Some cs \<Rightarrow> asset_at cs (j # p))
      else None)"

section \<open>Research, training and the skill queue\<close>

record ('f, 'ts) research_entry =
  rs_id :: int
  rs_skill_id :: int
  rs_timestamp :: 'ts
  rs_per_day :: 'f
  rs_remaining :: 'f

definition research_row ::
  "(string \<Rightarrow> 'f option) \<Rightarrow> (string \<Rightarrow> error + 'ts) \<Rightarrow> elem
     \<Rightarrow> (int \<rightharpoonup> ('f, 'ts) research_entry) \<Rightarrow> error + (int \<rightharpoonup> ('f, 'ts) research_entry)" where
  "research_row flt parse_ts row res =
     (let a = attrib row in
      bindE (bindE (getitem a ''agentID'') to_int) (\<lambda>agent_id.
      bindE (bindE (getitem a ''skillTypeID'') to_int) (\<lambda>skill_id.
      bindE (bindE (getitem a ''researchStartDate'') parse_ts) (\<lambda>ts.
      bindE (bindE (getitem a ''pointsPerDay'') (to_float flt)) (\<lambda>per_day.
      bindE (bindE (getitem a ''remainderPoints'') (to_float flt)) (\<lambda>remaining.
      Inr (res(agent_id \<mapsto>
        \<lparr>rs_id = agent_id, rs_skill_id = skill_id, rs_timestamp = ts,
         rs_per_day = per_day, rs_remaining = remaining\<rparr>))))))))"

definition research ::
  "(string \<Rightarrow> 'f option) \<Rightarrow> (string \<Rightarrow> error + 'ts) \<Rightarrow> (elem, 't) api_result
     \<Rightarrow> error + (int \<rightharpoonup> ('f, 'ts) research_entry, 't) api_result" where
  "research flt parse_ts api_res =
     bindE (deref (elem_find ''rowset'' (result api_res))) (\<lambda>rowset.
     bindE (foldE (research_row flt parse_ts) (elem_findall ''row'' rowset) Map.empty) (\<lambda>res.
     Inr (APIResult res (timestamp api_res) (expires api_res))))"

record 'ts training =
  tr_start_ts :: "'ts option"
  tr_end_ts :: "'ts option"
  tr_type_id :: "int option"
  tr_start_sp :: "int option"
  tr_end_sp :: "int option"
  tr_current_ts :: "'ts option"
  tr_level :: "int option"
  tr_active :: "bool option"

definition current_training ::
  "(elem \<Rightarrow> ('f, 'ts) getters) \<Rightarrow> (elem, 't) api_result
     \<Rightarrow> error + ('ts training, 't) api_result" where
  "current_training elem_getters api_res =
     (let g = elem_getters (result api_res) in
      bindE (get_ts g ''trainingStartTime'') (\<lambda>start_ts.
      bindE (get_ts g ''trainingEndTime'') (\<lambda>end_ts.
      bindE (get_int g ''trainingTypeID'') (\<lambda>type_id.
      bindE (get_int g ''trainingStartSP'') (\<lambda>start_sp.
      bindE (get_int g ''trainingDestinationSP'') (\<lambda>end_sp.
      bindE (get_ts g ''currentTQTime'') (\<lambda>current_ts.
      bindE (get_int g ''trainingToLevel'') (\<lambda>level.
      bindE (get_bool g ''skillInTraining'') (\<lambda>active.
      Inr (APIResult
        \<lparr>tr_start_ts = start_ts, tr_end_ts = end_ts, tr_type_id = type_id,
         tr_start_sp = start_sp, tr_end_sp = end_sp, tr_current_ts = current_ts,
         tr_level = level, tr_active = active\<rparr>
        (timestamp api_res) (expires api_res)))))))))))"

record 'ts queue_line =
  ql_position :: int
  ql_type_id :: int
  ql_level :: int
  ql_start_sp :: int
  ql_end_sp :: int
  ql_start_ts :: 'ts
  ql_end_ts :: 'ts

definition skill_queue_row :: "(string \<Rightarrow> error + 'ts) \<Rightarrow> elem \<Rightarrow> error + 'ts queue_line" where
  "skill_queue_row parse_ts row =
     (let a = attrib row in
      bindE (bindE (getitem a ''queuePosition'') to_int) (\<lambda>position.
      bindE (bindE (getitem a ''typeID'') to_int) (\<lambda>type_id.
      bindE (bindE (getitem a ''level'') to_int) (\<lambda>level.
      bindE (bindE (getitem a ''startSP'') to_int) (\<lambda>start_sp.
      bindE (bindE (getitem a ''endSP'') to_int) (\<lambda>end_sp.
      bindE (bindE (getitem a ''startTime'') parse_ts) (\<lambda>start_ts.
      bindE (bindE (getitem a ''endTime'') parse_ts) (\<lambda>end_ts.
      Inr \<lparr>ql_position = position, ql_type_id = type_id, ql_level = level,
           ql_start_sp = start_sp, ql_end_sp = end_sp, ql_start_ts = start_ts,
           ql_end_ts = end_ts\<rparr>))))))))"

definition skill_queue ::
  "(string \<Rightarrow> error + 'ts) \<Rightarrow> (elem, 't) api_result
     \<Rightarrow> error + ('ts queue_line list, 't) api_result" where
  "skill_queue parse_ts api_res =
     bindE (deref (elem_find ''rowset'' (result api_res))) (\<lambda>rowset.
     bindE (mapE (skill_queue_row parse_ts) (elem_findall ''row'' rowset)) (\<lambda>res.
     Inr (APIResult res (timestamp api_res) (expires api_res))))"

section \<open>Mailing lists and contact notifications\<close>

text \<open>
  \<open>results[int(a['listID'])] = a['displayName']\<close>: Python evaluates the right-hand side of
  an assignment before the subscript of its target.
\<close>

definition mailing_list_row :: "elem \<Rightarrow> (int \<rightharpoonup> string) \<Rightarrow> error + (int \<rightharpoonup> string)" where
  "mailing_list_row row results =
     (let a = attrib row in
      bindE (getitem a ''displayName'') (\<lambda>display_name.
      bindE (bindE (getitem a ''listID'') to_int) (\<lambda>list_id.
      Inr (results(list_id \<mapsto> display_name)))))"

definition mailing_lists ::
  "(elem, 't) api_result \<Rightarrow> error + (int \<rightharpoonup> string, 't) api_result" where
  "mailing_lists api_res =
     bindE (deref (elem_find ''rowset'' (result api_res))) (\<lambda>rowset.
     bindE (foldE mailing_list_row (elem_findall ''row'' rowset) Map.empty) (\<lambda>results.
     Inr (APIResult results (timestamp api_res) (expires api_res))))"

record sender =
  sn_id :: int
  sn_name :: string

record ('d, 'ts) contact_note =
  cn_id :: int
  cn_sender :: sender
  cn_timestamp :: 'ts
  cn_data :: "string \<rightharpoonup> 'd"

definition contact_notification_row ::
  "(string \<Rightarrow> error + 'ts) \<Rightarrow> (string option \<Rightarrow> error + (string \<rightharpoonup> 'd)) \<Rightarrow> elem
     \<Rightarrow> (int \<rightharpoonup> ('d, 'ts) contact_note) \<Rightarrow> error + (int \<rightharpoonup> ('d, 'ts) contact_note)" where
  "contact_notification_row parse_ts parse_keyval_data row results =
     (let a = attrib row in
      bindE (bindE (getitem a ''notificationID'') to_int) (\<lambda>notification_id.
      bindE (bindE (getitem a ''senderID'') to_int) (\<lambda>sender_id.
      bindE (getitem a ''senderName'') (\<lambda>sender_name.
      bindE (bindE (getitem a ''sentDate'') parse_ts) (\<lambda>ts.
      bindE (bindE (getitem a ''messageData'') (\<lambda>d. parse_keyval_data (Some d))) (\<lambda>data.
      Inr (results(notification_id \<mapsto>
        \<lparr>cn_id = notification_id,
         cn_sender = \<lparr>sn_id = sender_id, sn_name = sender_name\<rparr>,
         cn_timestamp = ts, cn_data = data\<rparr>))))))))"

definition contact_notifications ::
  "(string \<Rightarrow> error + 'ts) \<Rightarrow> (string option \<Rightarrow> error + (string \<rightharpoonup> 'd))
     \<Rightarrow> (elem, 't) api_result \<Rightarrow> error + (int \<rightharpoonup> ('d, 'ts) contact_note, 't) api_result" where
  "contact_notifications parse_ts parse_keyval_data api_res =
     bindE (deref (elem_find ''rowset'' (result api_res))) (\<lambda>rowset.
     bindE (foldE (contact_notification_row parse_ts parse_keyval_data)
              (elem_findall ''row'' rowset) Map.empty) (\<lambda>results.
     Inr (APIResult results (timestamp api_res) (expires api_res))))"

section \<open>The attendees of one event\<close>

text \<open>
  \<open>int(event_id)\<close> for an id the caller gave as an \<open>int\<close> or as a string.
\<close>

definition key_int :: "pykey \<Rightarrow> error + int" where
  "key_int k = (case k of IntKey n \<Rightarrow> Inr n | StrKey s \<Rightarrow> to_int s)"

text \<open>
  \<open>event_attendees\<close> calls \<open>self.calendar_attendees([event_id])\<close>, which the dispatch
  decorator runs on the transport's response, and then reads the entry under
  \<open>int(event_id)\<close> from the plain dictionary that \<open>calendar_attendees\<close> returned.
\<close>

definition event_attendees ::
  "pykey \<Rightarrow> (elem, 't) api_result \<Rightarrow> error + (int \<rightharpoonup> attendee, 't) api_result" where
  "event_attendees event_id api_res =
     bindE (calendar_attendees [event_id] api_res) (\<lambda>r.
     bindE (key_int event_id) (\<lambda>n.
     bindE (case result r (IntKey n) of None \<Rightarrow> Inl (IntKeyError n) | Some d \<Rightarrow> Inr d) (\<lambda>d.
     Inr (APIResult d (timestamp r) (expires r)))))"

section \<open>Faction warfare\<close>

record rank =
  rank_current :: "int option"
  rank_highest :: "int option"

record tally =
  tally_yesterday :: "int option"
  tally_week :: "int option"
  tally_total :: "int option"

record 'ts fw_stats =
  fw_faction :: org
  fw_enlist_ts :: "'ts option"
  fw_rank :: rank
  fw_kills :: tally
  fw_points :: tally

definition faction_warfare_stats ::
  "(elem \<Rightarrow> ('f, 'ts) getters) \<Rightarrow> (elem, 't) api_result
     \<Rightarrow> error + ('ts fw_stats, 't) api_result" where
  "faction_warfare_stats elem_getters api_res =
     (let g = elem_getters (result api_res) in
      bindE (get_int g ''factionID'') (\<lambda>faction_id.
      bindE (get_str g ''factionName'') (\<lambda>faction_name.
      bindE (get_ts g ''enlisted'') (\<lambda>enlist_ts.
      bindE (get_int g ''currentRank'') (\<lambda>current_rank.
      bindE (get_int g ''highestRank'') (\<lambda>highest_rank.
      bindE (get_int g ''killsYesterday'') (\<lambda>kills_yesterday.
      bindE (get_int g ''killsLastWeek'') (\<lambda>kills_week.
      bindE (get_int g ''killsTotal'') (\<lambda>kills_total.
      bindE (get_int g ''victoryPointsYesterday'') (\<lambda>points_yesterday.
      bindE (get_int g ''victoryPointsLastWeek'') (\<lambda>points_week.
      bindE (get_int g ''victoryPointsTotal'') (\<lambda>points_total.
      Inr (APIResult
        \<lparr>fw_faction = \<lparr>org_id = faction_id, org_name = faction_name\<rparr>,
         fw_enlist_ts = enlist_ts,
         fw_rank = \<lparr>rank_current = current_rank, rank_highest = highest_rank\<rparr>,
         fw_kills = \<lparr>tally_yesterday = kills_yesterday, tally_week = kills_week,
                     tally_total = kills_total\<rparr>,
         fw_points = \<lparr>tally_yesterday = points_yesterday, tally_week = points_week,
                      tally_total = points_total\<rparr>\<rparr>
        (timestamp api_res) (expires api_res))))))))))))))"

section \<open>Operations that wrap a parser\<close>

text \<open>
  Nine operations hand the document to a parser of \<open>evelink.parsing\<close> and wrap what it
  returns. Those modules are not part of these sources, so each operation takes its
  parser as a parameter: a document to a result, or a raise. The arguments that only go
  into the request (\<open>contract_id\<close>, \<open>before_id\<close>, \<open>limit\<close>, \<open>before_kill\<close>) are not read by
  the body.
\<close>

definition contract_bids ::
  "(elem \<Rightarrow> error + 'r) \<Rightarrow> (elem, 't) api_result \<Rightarrow> error + ('r, 't) api_result" where
  "contract_bids parse_contract_bids api_res =
     bindE (parse_contract_bids (result api_res)) (\<lambda>r.
     Inr (APIResult r (timestamp api_res) (expires api_res)))"

definition contract_items ::
  "(elem \<Rightarrow> error + 'r) \<Rightarrow> 'a \<Rightarrow> (elem, 't) api_result \<Rightarrow> error + ('r, 't) api_result" where
  "contract_items parse_contract_items contract_id api_res =
     bindE (parse_contract_items (result api_res)) (\<lambda>r.
     Inr (APIResult r (timestamp api_res) (expires api_res)))"

definition contracts ::
  "(elem \<Rightarrow> error + 'r) \<Rightarrow> (elem, 't) api_result \<Rightarrow> error + ('r, 't) api_result" where
  "contracts parse_contracts api_res =
     bindE (parse_contracts (result api_res)) (\<lambda>r.
     Inr (APIResult r (timestamp api_res) (expires api_res)))"

definition wallet_journal ::
  "(elem \<Rightarrow> error + 'r) \<Rightarrow> 'a \<Rightarrow> 'b \<Rightarrow> (elem, 't) api_result
     \<Rightarrow> error + ('r, 't) api_result" where
  "wallet_journal parse_wallet_journal before_id limit api_res =
     bindE (parse_wallet_journal (result api_res)) (\<lambda>r.
     Inr (APIResult r (timestamp api_res) (expires api_res)))"

definition wallet_transactions ::
  "(elem \<Rightarrow> error + 'r) \<Rightarrow> 'a \<Rightarrow> 'b \<Rightarrow> (elem, 't) api_result
     \<Rightarrow> error + ('r, 't) api_result" where
  "wallet_transactions parse_wallet_transactions before_id limit api_res =
     bindE (parse_wallet_transactions (result api_res)) (\<lambda>r.
     Inr (APIResult r (timestamp api_res) (expires api_res)))"

definition industry_jobs ::
  "(elem \<Rightarrow> error + 'r) \<Rightarrow> (elem, 't) api_result \<Rightarrow> error + ('r, 't) api_result" where
  "industry_jobs parse_industry_jobs api_res =
     bindE (parse_industry_jobs (result api_res)) (\<lambda>r.
     Inr (APIResult r (timestamp api_res) (expires api_res)))"

definition kills ::
  "(elem \<Rightarrow> error + 'r) \<Rightarrow> 'a \<Rightarrow> (elem, 't) api_result \<Rightarrow> error + ('r, 't) api_result" where
  "kills parse_kills before_kill api_res =
     bindE (parse_kills (result api_res)) (\<lambda>r.
     Inr (APIResult r (timestamp api_res) (expires api_res)))"

definition contacts ::
  "(elem \<Rightarrow> error + 'r) \<Rightarrow> (elem, 't) api_result \<Rightarrow> error + ('r, 't) api_result" where
  "contacts parse_contact_list api_res =
     bindE (parse_contact_list (result api_res)) (\<lambda>r.
     Inr (APIResult r (timestamp api_res) (expires api_res)))"

definition orders ::
  "(elem \<Rightarrow> error + 'r) \<Rightarrow> (elem, 't) api_result \<Rightarrow> error + ('r, 't) api_result" where
  "orders parse_market_orders api_res =
     bindE (parse_market_orders (result api_res)) (\<lambda>r.
     Inr (APIResult r (timestamp api_res) (expires api_res)))"

section \<open>Vocabulary of the properties\<close>

text \<open>A row lacks one of the attributes \<open>ks\<close> that an operation reads from it.\<close>

definition lacks :: "elem \<Rightarrow> string list \<Rightarrow> bool" where
  "lacks row ks = (\<exists>k \<in> set ks. map_of (attrib row) k = None)"

text \<open>
  The rowset that \<open>rowsets[name]\<close> holds once every rowset has been stored under its
  \<open>name\<close> attribute: the last one with that name.
\<close>

fun rowset_named :: "string \<Rightarrow> elem list \<Rightarrow> elem option" where
  "rowset_named n [] = None"
| "rowset_named n (r # rs) =
     (case rowset_named n rs of
        Some x \<Rightarrow> Some x
      | None \<Rightarrow> if map_of (attrib r) ''name'' = Some n then Some r else None)"

text \<open>The rows an operation loops over when it loops over the first rowset.\<close>

definition first_rows :: "elem \<Rightarrow> elem list" where
  "first_rows doc =
     (case elem_find ''rowset'' doc of None \<Rightarrow> [] | Some rowset \<Rightarrow> elem_findall ''row'' rowset)"

text \<open>The elements \<open>character_sheet\<close> loops over for the skills: \<open>rowsets['skills']\<close>.\<close>

definition skill_rows :: "elem \<Rightarrow> elem list" where
  "skill_rows doc =
     (case rowset_named ''skills'' (elem_findall ''rowset'' doc) of
        None \<Rightarrow> []
      | Some rowset \<Rightarrow> children rowset)"

text \<open>\<open>int(row.attrib[k])\<close>.\<close>

definition row_int :: "elem \<Rightarrow> string \<Rightarrow> error + int" where
  "row_int row k = bindE (getitem (attrib row) k) to_int"

text \<open>
  The row of \<open>calendar_attendees\<close> that an attendee entry \<open>a\<close>, stored under the event key
  \<open>k\<close> and the character id \<open>c\<close>, was built from.
\<close>

definition row_gives :: "elem \<Rightarrow> pykey \<Rightarrow> int \<Rightarrow> attendee \<Rightarrow> bool" where
  "row_gives row k c a \<longleftrightarrow>
     (\<exists>e. row_int row ''eventID'' = Inr e \<and> k = IntKey e \<and>
          row_int row ''characterID'' = Inr c \<and> at_id a = c \<and>
          map_of (attrib row) ''characterName'' = Some (at_name a) \<and>
          map_of (attrib row) ''response'' = Some (at_response a))"

text \<open>
  What \<open>wallet_info\<close> reads is missing: the first rowset, its first row, or one of the
  three attributes of that row.
\<close>

definition wallet_doc_incomplete :: "elem \<Rightarrow> bool" where
  "wallet_doc_incomplete doc =
     (case elem_find ''rowset'' doc of
        None \<Rightarrow> True
      | Some rowset \<Rightarrow>
          (case elem_find ''row'' rowset of
             None \<Rightarrow> True
           | Some row \<Rightarrow> lacks row [''balance'', ''accountID'', ''accountKey'']))"

text \<open>
  What \<open>standings\<close> reads is missing: the \<open>characterNPCStandings\<close> element, the \<open>name\<close> of
  one of its rowsets, one of the three rowsets it looks up by name, or an attribute of a
  row of one of these.
\<close>

definition standings_doc_incomplete :: "elem \<Rightarrow> bool" where
  "standings_doc_incomplete doc =
     (case elem_find ''characterNPCStandings'' doc of
        None \<Rightarrow> True
      | Some c \<Rightarrow>
          (\<exists>rowset \<in> set (elem_findall ''rowset'' c). lacks rowset [''name'']) \<or>
          (\<exists>n \<in> set (map snd name_map).
             case rowset_named n (elem_findall ''rowset'' c) of
               None \<Rightarrow> True
             | Some rowset \<Rightarrow>
                 \<exists>row \<in> set (elem_findall ''row'' rowset).
                   lacks row [''fromID'', ''fromName'', ''standing'']))"

text \<open>
  What an operation that loops over the rows of the first rowset reads is missing: that
  rowset, or one of the attributes \<open>ks\<close> in one of its rows.
\<close>

definition rows_doc_incomplete :: "string list \<Rightarrow> elem \<Rightarrow> bool" where
  "rows_doc_incomplete ks doc =
     (case elem_find ''rowset'' doc of
        None \<Rightarrow> True
      | Some rowset \<Rightarrow> \<exists>row \<in> set (elem_findall ''row'' rowset). lacks row ks)"

text \<open>
  The envelope \<open>out\<close> an operation returned for the response \<open>api_res\<close>, when it returned
  one, carries the two timestamps of \<open>api_res\<close>.
\<close>

definition passes_through ::
  "('d, 't) api_result \<Rightarrow> error + ('r, 't) api_result \<Rightarrow> bool" where
  "passes_through api_res out =
     (case out of
        Inl e \<Rightarrow> True
      | Inr env \<Rightarrow> timestamp env = timestamp api_res \<and> expires env = expires api_res)"

text \<open>An operation, or one of the readers it calls, returns a value instead of raising.\<close>

definition returns :: "error + 'a \<Rightarrow> bool" where
  "returns out = (case out of Inl e \<Rightarrow> False | Inr v \<Rightarrow> True)"

definition accepts :: "(string \<Rightarrow> error + 'a) \<Rightarrow> string \<Rightarrow> bool" where
  "accepts reader s = returns (reader s)"

text \<open>
  A row has every attribute listed in \<open>spec\<close>, each with a value that passes the test
  listed with it (as a rule, that the reader which the operation applies accepts it).
\<close>

definition reads :: "elem \<Rightarrow> (string \<times> (string \<Rightarrow> bool)) list \<Rightarrow> bool" where
  "reads row spec =
     (\<forall>(k, ok) \<in> set spec. case map_of (attrib row) k of None \<Rightarrow> False | Some v \<Rightarrow> ok v)"

text \<open>
  A document has all that an operation looping over the rows of the first rowset reads:
  that rowset, and in each of its rows the attributes of \<open>spec\<close>.
\<close>

definition rows_doc_complete :: "(string \<times> (string \<Rightarrow> bool)) list \<Rightarrow> elem \<Rightarrow> bool" where
  "rows_doc_complete spec doc =
     (case elem_find ''rowset'' doc of
        None \<Rightarrow> False
      | Some rowset \<Rightarrow> \<forall>row \<in> set (elem_findall ''row'' rowset). reads row spec)"

text \<open>
  The last element of a list that satisfies \<open>p\<close>: in a loop that stores each row under
  its key, the row whose entry is left under a key at the end.
\<close>

fun last_with :: "('a \<Rightarrow> bool) \<Rightarrow> 'a list \<Rightarrow> 'a option" where
  "last_with p [] = None"
| "last_with p (x # xs) =
     (case last_with p xs of Some y \<Rightarrow> Some y | None \<Rightarrow> if p x then Some x else None)"

text \<open>Every piece of a comma-separated text reads as an integer.\<close>

definition int_list_text :: "string \<Rightarrow> bool" where
  "int_list_text s = (\<forall>p \<in> set (split_on CHR '','' s). accepts to_int p)"

text \<open>\<open>float(row.attrib[k])\<close>.\<close>

definition row_float :: "(string \<Rightarrow> 'f option) \<Rightarrow> elem \<Rightarrow> string \<Rightarrow> error + 'f" where
  "row_float flt row k = bindE (getitem (attrib row) k) (to_float flt)"

text \<open>The document has all that \<open>wallet_info\<close> reads, and each number reads as one.\<close>

definition wallet_doc_complete :: "(string \<Rightarrow> 'f option) \<Rightarrow> elem \<Rightarrow> bool" where
  "wallet_doc_complete flt doc =
     (case elem_find ''rowset'' doc of
        None \<Rightarrow> False
      | Some rowset \<Rightarrow>
          (case elem_find ''row'' rowset of
             None \<Rightarrow> False
           | Some row \<Rightarrow>
               reads row [(''balance'', accepts (to_float flt)), (''accountID'', accepts to_int),
                          (''accountKey'', accepts to_int)]))"

text \<open>The document has all that \<open>standings\<close> reads, and each number reads as one.\<close>

definition standings_doc_complete :: "(string \<Rightarrow> 'f option) \<Rightarrow> elem \<Rightarrow> bool" where
  "standings_doc_complete flt doc =
     (case elem_find ''characterNPCStandings'' doc of
        None \<Rightarrow> False
      | Some c \<Rightarrow>
          (\<forall>rowset \<in> set (elem_findall ''rowset'' c). \<not> lacks rowset [''name'']) \<and>
          (\<forall>n \<in> set (map snd name_map).
             case rowset_named n (elem_findall ''rowset'' c) of
               None \<Rightarrow> False
             | Some rowset \<Rightarrow>
                 \<forall>row \<in> set (elem_findall ''row'' rowset).
                   reads row [(''fromID'', accepts to_int), (''fromName'', \<lambda>v. True),
                              (''standing'', accepts (to_float flt))]))"

text \<open>
  The element listing the ids that the server reported missing is absent, or has a text
  of which \<open>ok\<close> holds.
\<close>

definition missing_ok :: "string \<Rightarrow> (string \<Rightarrow> bool) \<Rightarrow> elem \<Rightarrow> bool" where
  "missing_ok t ok doc =
     (case elem_find t doc of
        None \<Rightarrow> True
      | Some m \<Rightarrow> (case elem_text m of None \<Rightarrow> False | Some s \<Rightarrow> ok s))"

text \<open>
  Every rowset of the document is one of the two that \<open>medals\<close> knows, and every row of
  each has the attributes \<open>medals\<close> reads.
\<close>

definition medals_doc_complete :: "elem \<Rightarrow> bool" where
  "medals_doc_complete doc =
     (\<forall>rowset \<in> set (elem_findall ''rowset'' doc).
        (case map_of (attrib rowset) ''name'' of
           None \<Rightarrow> False
         | Some n \<Rightarrow> medal_map n \<noteq> None) \<and>
        (\<forall>row \<in> set (elem_findall ''row'' rowset).
           reads row [(''medalID'', accepts to_int), (''reason'', \<lambda>v. True),
                      (''status'', \<lambda>v. True), (''issuerID'', accepts to_int),
                      (''corporationID'', accepts to_int), (''title'', \<lambda>v. True),
                      (''description'', \<lambda>v. True)]))"

text \<open>
  What \<open>medals\<close> reads from a rowset it finds is missing: the rowset's \<open>name\<close>, or an
  attribute of one of its rows.
\<close>

definition medals_doc_incomplete :: "elem \<Rightarrow> bool" where
  "medals_doc_incomplete doc =
     (\<exists>rowset \<in> set (elem_findall ''rowset'' doc).
        lacks rowset [''name''] \<or>
        (\<exists>row \<in> set (elem_findall ''row'' rowset).
           lacks row [''medalID'', ''reason'', ''status'', ''issuerID'', ''corporationID'',
                      ''title'', ''description'']))"

text \<open>
  The readers of \<open>api.elem_getters\<close> by kind, and a reader returning on a named child.
\<close>

datatype kind = AsStr | AsInt | AsFloat | AsBool | AsTs

definition answers :: "('f, 'ts) getters \<Rightarrow> kind \<times> string \<Rightarrow> bool" where
  "answers g q =
     (case q of
        (AsStr, k) \<Rightarrow> returns (get_str g k)
      | (AsInt, k) \<Rightarrow> returns (get_int g k)
      | (AsFloat, k) \<Rightarrow> returns (get_float g k)
      | (AsBool, k) \<Rightarrow> returns (get_bool g k)
      | (AsTs, k) \<Rightarrow> returns (get_ts g k))"

text \<open>
  The elements \<open>character_sheet\<close> loops over when it loops over \<open>rowsets[n]\<close>, and \<open>None\<close>
  when no rowset has that name.
\<close>

definition sheet_rows :: "string \<Rightarrow> elem \<Rightarrow> elem list option" where
  "sheet_rows n doc = map_option children (rowset_named n (elem_findall ''rowset'' doc))"

text \<open>
  An attribute of the character has a base value that reads as an integer, and so does
  the value of its enhancer when there is one.
\<close>

definition attribute_ok :: "elem \<Rightarrow> string \<Rightarrow> bool" where
  "attribute_ok doc attr =
     (returns (int_of (findtext [''attributes'', attr] doc)) \<and>
      (case find_path [''attributeEnhancers'', attr @ ''Bonus''] doc of
         None \<Rightarrow> True
       | Some bonus \<Rightarrow> returns (int_of (findtext [''augmentatorValue''] bonus))))"

text \<open>
  The rowset that \<open>character_sheet\<close> looks up under the name \<open>n\<close> is there and each of
  its elements has the attributes of \<open>spec\<close>; and the opposite: the rowset is missing, or
  one of its elements lacks one of the attributes \<open>ks\<close>.
\<close>

definition sheet_rows_read :: "string \<Rightarrow> (string \<times> (string \<Rightarrow> bool)) list \<Rightarrow> elem \<Rightarrow> bool" where
  "sheet_rows_read n spec doc =
     (case sheet_rows n doc of None \<Rightarrow> False | Some rows \<Rightarrow> \<forall>row \<in> set rows. reads row spec)"

definition sheet_rows_lack :: "string \<Rightarrow> string list \<Rightarrow> elem \<Rightarrow> bool" where
  "sheet_rows_lack n ks doc =
     (case sheet_rows n doc of None \<Rightarrow> True | Some rows \<Rightarrow> \<exists>row \<in> set rows. lacks row ks)"

text \<open>
  The document has all that \<open>character_sheet\<close> reads itself, that is, apart from what the
  readers of \<open>api.elem_getters\<close> read: the five attributes, a name on every rowset, and
  the rowsets it looks up by name, with their rows' attributes.
\<close>

definition sheet_doc_complete :: "(string \<times> string) list \<Rightarrow> elem \<Rightarrow> bool" where
  "sheet_doc_complete corp_roles doc =
     ((\<forall>attr \<in> set [''intelligence'', ''memory'', ''charisma'', ''perception'', ''willpower''].
         attribute_ok doc attr) \<and>
      (\<forall>rowset \<in> set (elem_findall ''rowset'' doc). \<not> lacks rowset [''name'']) \<and>
      sheet_rows_read ''skills''
        [(''skillpoints'', accepts to_int), (''typeID'', accepts to_int),
         (''level'', accepts to_int), (''published'', \<lambda>v. True)] doc \<and>
      sheet_rows_read ''certificates'' [(''certificateID'', accepts to_int)] doc \<and>
      (\<forall>item \<in> set corp_roles.
         sheet_rows_read (snd item) [(''roleID'', accepts to_int), (''roleName'', \<lambda>v. True)] doc) \<and>
      sheet_rows_read ''corporationTitles''
        [(''titleID'', accepts to_int), (''titleName'', \<lambda>v. True)] doc)"

text \<open>
  What \<open>character_sheet\<close> reads itself is missing: the name of a rowset, one of the
  rowsets it looks up by name, or an attribute of an element of one of these.
\<close>

definition sheet_doc_incomplete :: "(string \<times> string) list \<Rightarrow> elem \<Rightarrow> bool" where
  "sheet_doc_incomplete corp_roles doc =
     ((\<exists>rowset \<in> set (elem_findall ''rowset'' doc). lacks rowset [''name'']) \<or>
      sheet_rows_lack ''skills'' [''skillpoints'', ''typeID'', ''level'', ''published''] doc \<or>
      sheet_rows_lack ''certificates'' [''certificateID''] doc \<or>
      (\<exists>item \<in> set corp_roles. sheet_rows_lack (snd item) [''roleID'', ''roleName''] doc) \<or>
      sheet_rows_lack ''corporationTitles'' [''titleID'', ''titleName''] doc)"

text \<open>
  Two trees are the same document: the same tags and texts, the same children in the
  same order, and attribute dictionaries that hold the same value under every key. An
  element's attributes are a dictionary in Python and a list of pairs here; the same
  dictionary can be written as more than one list.
\<close>

fun same_doc :: "elem \<Rightarrow> elem \<Rightarrow> bool" where
  "same_doc (Elem t a x cs) (Elem t' a' x' cs') \<longleftrightarrow>
     t = t' \<and> x = x' \<and> (\<forall>k \<in> set (map fst a @ map fst a'). map_of a k = map_of a' k) \<and>
     list_all2 same_doc cs cs'"

text \<open>
  Two runs of an operation have the same outcome: both raise, or both return and the
  results are equal.
\<close>

definition same_outcome ::
  "error + ('r, 't) api_result \<Rightarrow> error + ('r, 't) api_result \<Rightarrow> bool" where
  "same_outcome out out' =
     (case out of
        Inl e \<Rightarrow> (case out' of Inl e' \<Rightarrow> True | Inr env' \<Rightarrow> False)
      | Inr env \<Rightarrow> (case out' of Inl e' \<Rightarrow> False | Inr env' \<Rightarrow> result env' = result env))"

section \<open>Sample responses\<close>

text \<open>
  Small responses on which the properties below are run. Where an operation takes
  Python's \<open>float\<close> or \<open>api.parse_ts\<close> as a parameter, the runs read a float written as an
  integer literal with \<open>py_int\<close> and keep a timestamp as its text.
\<close>

definition envelope :: "'d \<Rightarrow> ('d, nat) api_result" where
  "envelope doc = \<lparr>result = doc, timestamp = 1000, expires = 2000\<rparr>"

definition wallet_doc :: elem where
  "wallet_doc =
     Elem ''result'' [] None
       [Elem ''rowset'' [(''name'', ''accounts'')] None
          [Elem ''row'' [(''accountID'', ''4807144''), (''accountKey'', ''1000''),
                         (''balance'', ''209127923'')] None []]]"

definition no_balance_doc :: elem where
  "no_balance_doc =
     Elem ''result'' [] None
       [Elem ''rowset'' [(''name'', ''accounts'')] None
          [Elem ''row'' [(''accountID'', ''4807144''), (''accountKey'', ''1000'')] None []]]"

definition empty_doc :: elem where
  "empty_doc = Elem ''result'' [] None []"

definition notifications_doc :: elem where
  "notifications_doc =
     Elem ''result'' [] None
       [Elem ''rowset'' [(''name'', ''notifications'')] None
          [Elem ''row'' [(''notificationID'', ''303795523''), (''typeID'', ''0''),
                         (''senderID'', ''671216635''), (''sentDate'', ''2009-12-02 10:54:00''),
                         (''read'', ''1'')] None [],
           Elem ''row'' [(''notificationID'', ''304084087''), (''typeID'', ''16''),
                         (''senderID'', ''797400947''), (''sentDate'', ''2009-12-03 17:04:00''),
                         (''read'', ''0'')] None []]]"

definition unread_doc :: elem where
  "unread_doc =
     Elem ''result'' [] None
       [Elem ''rowset'' [(''name'', ''notifications'')] None
          [Elem ''row'' [(''notificationID'', ''303795523''), (''typeID'', ''76''),
                         (''senderID'', ''671216635''),
                         (''sentDate'', ''2009-12-02 10:54:00'')] None []]]"

definition sheet_doc :: "string \<Rightarrow> elem" where
  "sheet_doc alliance_id =
     Elem ''result'' [] None
       [Elem ''characterID'' [] (Some ''150337897'') [],
        Elem ''name'' [] (Some ''corpslave'') [],
        Elem ''DoB'' [] (Some ''2006-01-01 00:00:00'') [],
        Elem ''race'' [] (Some ''Minmatar'') [],
        Elem ''bloodLine'' [] (Some ''Brutor'') [],
        Elem ''ancestry'' [] (Some ''Slave Child'') [],
        Elem ''gender'' [] (Some ''Female'') [],
        Elem ''corporationName'' [] (Some ''corpexport Corp'') [],
        Elem ''corporationID'' [] (Some ''150337746'') [],
        Elem ''allianceName'' [] None [],
        Elem ''allianceID'' [] (Some alliance_id) [],
        Elem ''cloneName'' [] (Some ''Clone Grade Pi'') [],
        Elem ''cloneSkillPoints'' [] (Some ''54600000'') [],
        Elem ''balance'' [] (Some ''190210393'') [],
        Elem ''attributeEnhancers'' [] None
          [Elem ''intelligenceBonus'' [] None
             [Elem ''augmentatorName'' [] (Some ''Snake Delta'') [],
              Elem ''augmentatorValue'' [] (Some ''3'') []]],
        Elem ''attributes'' [] None
          [Elem ''intelligence'' [] (Some ''6'') [], Elem ''memory'' [] (Some ''4'') [],
           Elem ''charisma'' [] (Some ''7'') [], Elem ''perception'' [] (Some ''12'') [],
           Elem ''willpower'' [] (Some ''10'') []],
        Elem ''rowset'' [(''name'', ''skills'')] None
          [Elem ''row'' [(''typeID'', ''3431''), (''skillpoints'', ''8000''), (''level'', ''3''),
                         (''published'', ''1'')] None [],
           Elem ''row'' [(''typeID'', ''3413''), (''skillpoints'', ''0''), (''level'', ''0''),
                         (''published'', ''0'')] None []],
        Elem ''rowset'' [(''name'', ''certificates'')] None
          [Elem ''row'' [(''certificateID'', ''5'')] None []],
        Elem ''rowset'' [(''name'', ''corporationRoles'')] None
          [Elem ''row'' [(''roleID'', ''1''), (''roleName'', ''roleDirector'')] None []],
        Elem ''rowset'' [(''name'', ''corporationRolesAtHQ'')] None
          [Elem ''row'' [(''roleID'', ''1''), (''roleName'', ''roleDirector'')] None []],
        Elem ''rowset'' [(''name'', ''corporationRolesAtBase'')] None [],
        Elem ''rowset'' [(''name'', ''corporationRolesAtOther'')] None [],
        Elem ''rowset'' [(''name'', ''corporationTitles'')] None
          [Elem ''row'' [(''titleID'', ''1''), (''titleName'', ''Member'')] None []]]"

text \<open>
  Readers for the runs of the operations that take \<open>api.elem_getters\<close>. Each reads the
  text of the named child of the document, and gives \<open>None\<close> when the child is absent or
  has no text; the integer and the float reader apply \<open>int\<close> to the text, the boolean
  reader knows \<open>True\<close> and \<open>False\<close>, and a timestamp is kept as its text.
\<close>

definition child_text :: "elem \<Rightarrow> string \<Rightarrow> string option" where
  "child_text doc k =
     (case elem_find k doc of
        None \<Rightarrow> None
      | Some c \<Rightarrow> (case elem_text c of None \<Rightarrow> None | Some t \<Rightarrow> if t = [] then None else Some t))"

definition sample_getters :: "elem \<Rightarrow> (int, string) getters" where
  "sample_getters doc =
     \<lparr>get_str = (\<lambda>k. Inr (child_text doc k)),
      get_int = (\<lambda>k. case child_text doc k of
                        None \<Rightarrow> Inr None
                      | Some t \<Rightarrow> bindE (to_int t) (\<lambda>n. Inr (Some n))),
      get_float = (\<lambda>k. case child_text doc k of
                          None \<Rightarrow> Inr None
                        | Some t \<Rightarrow> bindE (to_int t) (\<lambda>n. Inr (Some n))),
      get_bool = (\<lambda>k. Inr (case child_text doc k of
                              None \<Rightarrow> None
                            | Some t \<Rightarrow>
                                if t = ''True'' then Some True
                                else if t = ''False'' then Some False else None)),
      get_ts = (\<lambda>k. Inr (child_text doc k))\<rparr>"

text \<open>
  The role rowsets of a character sheet under the names the result gives them: the
  items of \<open>corp_roles\<close> for the runs.
\<close>

definition sample_corp_roles :: "(string \<times> string) list" where
  "sample_corp_roles =
     [(''global'', ''corporationRoles''), (''at_hq'', ''corporationRolesAtHQ''),
      (''at_base'', ''corporationRolesAtBase''), (''at_other'', ''corporationRolesAtOther'')]"

definition medals_doc :: elem where
  "medals_doc =
     Elem ''result'' [] None
       [Elem ''rowset'' [(''name'', ''currentCorporation'')] None
          [Elem ''row'' [(''medalID'', ''95079''), (''reason'', ''Valour''),
                         (''status'', ''public''), (''issuerID'', ''146310725''),
                         (''corporationID'', ''1711141370''), (''title'', ''Test medal''),
                         (''description'', ''For testing'')] None []],
        Elem ''rowset'' [(''name'', ''otherCorporations'')] None
          [Elem ''row'' [(''medalID'', ''4106''), (''reason'', ''Service''),
                         (''status'', ''private''), (''issuerID'', ''132533870''),
                         (''corporationID'', ''644628615''), (''title'', ''Medal of Service''),
                         (''description'', ''For service'')] None []]]"


definition zero_item_doc :: elem where
  "zero_item_doc =
     Elem ''result'' [] None
       [Elem ''rowset'' [(''name'', ''locations'')] None
          [Elem ''row'' [(''itemID'', ''0''), (''itemName'', ''Hangar''), (''x'', ''5''),
                         (''y'', ''0''), (''z'', ''7'')] None []]]"

definition empty_item_doc :: elem where
  "empty_item_doc =
     Elem ''result'' [] None
       [Elem ''rowset'' [(''name'', ''locations'')] None
          [Elem ''row'' [(''itemID'', ''''), (''itemName'', ''Hangar''), (''x'', ''5''),
                         (''y'', ''0''), (''z'', ''7'')] None []]]"

definition attendees_doc :: elem where
  "attendees_doc =
     Elem ''result'' [] None
       [Elem ''rowset'' [(''name'', ''eventAttendees'')] None
          [Elem ''row'' [(''eventID'', ''1234''), (''characterID'', ''123456789''),
                         (''characterName'', ''Jane Doe''), (''response'', ''Attending'')]
             None [],
           Elem ''row'' [(''eventID'', ''1234''), (''characterID'', ''987654321''),
                         (''characterName'', ''John Doe''), (''response'', ''Tentative'')]
             None []]]"

definition missing_texts_doc :: elem where
  "missing_texts_doc =
     Elem ''result'' [] None
       [Elem ''rowset'' [(''name'', ''notifications'')] None
          [Elem ''row'' [(''notificationID'', ''374044083'')] (Some ''isHouseWarmingGift: 1'')
             []],
        Elem ''missingIDs'' [] (Some ''374106507'') []]"

definition missing_bodies_doc :: elem where
  "missing_bodies_doc =
     Elem ''result'' [] None
       [Elem ''rowset'' [(''name'', ''messages'')] None
          [Elem ''row'' [(''messageID'', ''297023723'')] (Some ''Hi. This is a message.'') []],
        Elem ''missingMessageIDs'' [] (Some ''297023208,297023210'') []]"

text \<open>
  The specification's end-to-end example: one location group 60003760 with one item 100
  (type 34, quantity 5, flag 0) that holds one item 101 (type 21, quantity 1), neither
  with a location id of its own.
\<close>

definition assets_doc :: "(int \<times> item_elem list) list" where
  "assets_doc =
     [(60003760,
       [ItemElem 100 34 5 None 0 False (Some [ItemElem 101 21 1 None 0 False None])])]"

definition standings_doc :: elem where
  "standings_doc =
     Elem ''result'' [] None
       [Elem ''characterNPCStandings'' [] None
          [Elem ''rowset'' [(''name'', ''agents'')] None
             [Elem ''row'' [(''fromID'', ''3009841''), (''fromName'', ''Pausent Ansin''),
                            (''standing'', ''1'')] None []],
           Elem ''rowset'' [(''name'', ''NPCCorporations'')] None
             [Elem ''row'' [(''fromID'', ''1000061''), (''fromName'', ''Freedom Extension''),
                            (''standing'', ''0'')] None []],
           Elem ''rowset'' [(''name'', ''factions'')] None
             [Elem ''row'' [(''fromID'', ''500003''), (''fromName'', ''Amarr Empire''),
                            (''standing'', ''-1'')] None []]]]"

definition calendar_doc :: elem where
  "calendar_doc =
     Elem ''result'' [] None
       [Elem ''rowset'' [(''name'', ''upcomingEvents'')] None
          [Elem ''row'' [(''eventID'', ''93264''), (''ownerID'', ''1''),
                         (''ownerName'', ''''), (''eventDate'', ''2011-03-26 09:00:00''),
                         (''eventTitle'', ''Moon harvest''), (''duration'', ''60''),
                         (''importance'', ''1''), (''eventText'', ''Bring a hauler''),
                         (''response'', ''Undecided'')] None []]]"

section \<open>Basic facts\<close>

lemma bindE_Inr_iff: "bindE m f = Inr y \<longleftrightarrow> (\<exists>x. m = Inr x \<and> f x = Inr y)"
  by (cases m) (simp_all add: bindE_def)

lemma bindE_Inl_iff:
  "bindE m f = Inl e \<longleftrightarrow> m = Inl e \<or> (\<exists>x. m = Inr x \<and> f x = Inl e)"
  by (cases m) (simp_all add: bindE_def)

lemma bindE_simps: "bindE (Inl e) f = Inl e" "bindE (Inr x) f = f x"
  by (simp_all add: bindE_def)

lemma foldE_fails:
  "x \<in> set xs \<Longrightarrow> (\<And>s. \<exists>e. f x s = Inl e) \<Longrightarrow> \<exists>e. foldE f xs s = Inl e"
proof (induction xs arbitrary: s)
  case Nil
  then show ?case by simp
next
  case (Cons a xs)
  show ?case
  proof (cases "f a s")
    case (Inl e)
    then show ?thesis by (simp add: bindE_simps)
  next
    case (Inr s')
    with Cons.prems have "x \<noteq> a" by (metis Inl_Inr_False)
    with Cons.prems have "x \<in> set xs" by simp
    from Cons.IH[OF this Cons.prems(2)] Inr show ?thesis by (simp add: bindE_simps)
  qed
qed

lemma getitem_None: "map_of a k = None \<Longrightarrow> getitem a k = Inl (KeyError k)"
  by (simp add: getitem_def)

lemma getitem_Inr_iff: "getitem a k = Inr v \<longleftrightarrow> map_of a k = Some v"
  by (simp add: getitem_def split: option.splits)

lemma deref_simps: "deref None = Inl AttributeError" "deref (Some e) = Inr e"
  by (simp_all add: deref_def)

section \<open>The wallet balance is the balance of the wallet\<close>

text \<open>
  C10. On every response, \<open>wallet_balance\<close> returns what \<open>wallet_info\<close> returns on the same
  response with the result replaced by its \<open>balance\<close> field: the same two timestamps
  when \<open>wallet_info\<close> returns an envelope, and the same error when it raises.
\<close>

theorem wallet_balance_is_balance_of_wallet_info:
  "wallet_balance flt api_res =
     (case wallet_info flt api_res of
        Inl e \<Rightarrow> Inl e
      | Inr info \<Rightarrow>
          Inr \<lparr>result = w_balance (result info), timestamp = timestamp info,
               expires = expires info\<rparr>)"
  by (simp add: wallet_balance_def bindE_def APIResult_def split: sum.splits)

lemma mapE_fails:
  "x \<in> set xs \<Longrightarrow> \<exists>e. f x = Inl e \<Longrightarrow> \<exists>e. mapE f xs = Inl e"
proof (induction xs)
  case Nil
  then show ?case by simp
next
  case (Cons a xs)
  show ?case
  proof (cases "f a")
    case (Inl e)
    then show ?thesis by (simp add: bindE_simps)
  next
    case (Inr y)
    with Cons.prems have "x \<noteq> a" by auto
    with Cons.prems have "x \<in> set xs" by simp
    from Cons.IH[OF this Cons.prems(2)] obtain e where "mapE f xs = Inl e" by blast
    with Inr show ?thesis by (simp add: bindE_simps)
  qed
qed

lemma notification_row_fails:
  "lacks row [''notificationID'', ''typeID'', ''senderID'', ''sentDate'', ''read'']
   \<Longrightarrow> \<exists>e. notification_row pts row m = Inl e"
  by (auto simp add: lacks_def notification_row_def bindE_def getitem_def Let_def split: sum.splits option.splits)

lemma message_row_fails:
  "lacks row [''messageID'', ''senderID'', ''sentDate'', ''title'', ''toCorpOrAllianceID'', ''toCharacterIDs'', ''toListID'']
   \<Longrightarrow> \<exists>e. message_row pts row = Inl e"
  by (auto simp add: lacks_def message_row_def bindE_def getitem_def Let_def split: sum.splits option.splits)

lemma calendar_event_row_fails:
  "lacks row [''eventID'', ''ownerID'', ''ownerName'', ''eventDate'', ''eventTitle'', ''duration'', ''importance'', ''eventText'', ''response'']
   \<Longrightarrow> \<exists>e. calendar_event_row pts row m = Inl e"
  by (auto simp add: lacks_def calendar_event_row_def bindE_def getitem_def Let_def split: sum.splits option.splits)

lemma attendee_row_fails:
  "lacks row [''characterID'', ''characterName'', ''response'', ''eventID'']
   \<Longrightarrow> \<exists>e. attendee_row row m = Inl e"
  by (auto simp add: lacks_def attendee_row_def bindE_def getitem_def Let_def split: sum.splits option.splits)

lemma location_row_fails:
  "lacks row [''itemName'', ''itemID'', ''x'', ''y'', ''z'']
   \<Longrightarrow> \<exists>e. location_row flt row m = Inl e"
  by (auto simp add: lacks_def location_row_def bindE_def getitem_def Let_def split: sum.splits option.splits)

lemma standing_row_fails:
  "lacks row [''fromID'', ''fromName'', ''standing'']
   \<Longrightarrow> \<exists>e. standing_row flt row m = Inl e"
  by (auto simp add: lacks_def standing_row_def bindE_def getitem_def Let_def split: sum.splits option.splits)

lemma wallet_info_fails:
  "wallet_doc_incomplete (result api_res) \<Longrightarrow> \<exists>e. wallet_info flt api_res = Inl e"
  by (auto simp add: wallet_doc_incomplete_def lacks_def wallet_info_def deref_def bindE_def getitem_def
      split: sum.splits option.splits)

lemma index_rowsets_fold:
  "foldE index_rowset rs m0 = Inr m
   \<Longrightarrow> m n = (case rowset_named n rs of Some r \<Rightarrow> Some r | None \<Rightarrow> m0 n)"
proof (induction rs arbitrary: m0)
  case Nil
  then show ?case by simp
next
  case (Cons r rs)
  from Cons.prems obtain m1 where m1: "index_rowset r m0 = Inr m1" and rest: "foldE index_rowset rs m1 = Inr m"
    by (auto simp: bindE_Inr_iff)
  from m1 obtain nm where nm: "map_of (attrib r) ''name'' = Some nm" and m1_eq: "m1 = m0(nm \<mapsto> r)"
    unfolding index_rowset_def bindE_Inr_iff getitem_Inr_iff by blast
  from Cons.IH[OF rest] have "m n = (case rowset_named n rs of Some r \<Rightarrow> Some r | None \<Rightarrow> m1 n)" .
  with nm m1_eq show ?case
    by (auto split: option.splits)
qed

lemma index_rowsets_named:
  "index_rowsets rs = Inr m \<Longrightarrow> m n = rowset_named n rs"
  unfolding index_rowsets_def by (drule index_rowsets_fold[where n = n]) (simp split: option.splits)

lemma index_rowsets_fails:
  "rowset \<in> set rs \<Longrightarrow> lacks rowset [''name''] \<Longrightarrow> \<exists>e. index_rowsets rs = Inl e"
  unfolding index_rowsets_def
  by (rule foldE_fails) (auto simp: lacks_def getitem_def bindE_def index_rowset_def)

lemma standings_group_fails:
  assumes "rowsets n = None \<or> (\<exists>rowset row. rowsets n = Some rowset \<and> row \<in> set (elem_findall ''row'' rowset)
      \<and> lacks row [''fromID'', ''fromName'', ''standing''])"
  shows "\<exists>e. standings_group flt rowsets (k, n) res = Inl e"
  using assms
proof (elim disjE exE conjE)
  assume "rowsets n = None"
  then show ?thesis by (simp add: standings_group_def lookup_def bindE_simps)
next
  fix rowset row
  assume a: "rowsets n = Some rowset" "row \<in> set (elem_findall ''row'' rowset)"
       "lacks row [''fromID'', ''fromName'', ''standing'']"
  from foldE_fails[OF a(2), of "standing_row flt" Map.empty] standing_row_fails[OF a(3)]
  obtain e where "foldE (standing_row flt) (elem_findall ''row'' rowset) Map.empty = Inl e" by blast
  with a(1) show ?thesis by (simp add: standings_group_def lookup_def bindE_simps)
qed

lemma standings_fails:
  assumes items: "set items = set name_map" and inc: "standings_doc_incomplete (result api_res)"
  shows "\<exists>e. standings flt items api_res = Inl e"
proof (cases "elem_find ''characterNPCStandings'' (result api_res)")
  case None
  then show ?thesis by (simp add: standings_def deref_simps bindE_simps)
next
  case (Some c)
  show ?thesis
  proof (cases "index_rowsets (elem_findall ''rowset'' c)")
    case (Inl e)
    with Some show ?thesis by (simp add: standings_def deref_simps bindE_simps)
  next
    case (Inr rowsets)
    have no_lack: "\<not> (\<exists>rowset \<in> set (elem_findall ''rowset'' c). lacks rowset [''name''])"
      using index_rowsets_fails Inr by (metis Inl_Inr_False)
    with inc Some obtain n where n: "n \<in> set (map snd name_map)"
      and bad: "case rowset_named n (elem_findall ''rowset'' c) of None \<Rightarrow> True
         | Some rowset \<Rightarrow> \<exists>row \<in> set (elem_findall ''row'' rowset). lacks row [''fromID'', ''fromName'', ''standing'']"
      by (auto simp: standings_doc_incomplete_def)
    from n items obtain k where k: "(k, n) \<in> set items" by auto
    have "rowsets n = rowset_named n (elem_findall ''rowset'' c)"
      by (rule index_rowsets_named[OF Inr])
    with bad have "rowsets n = None \<or> (\<exists>rowset row. rowsets n = Some rowset \<and> row \<in> set (elem_findall ''row'' rowset)
      \<and> lacks row [''fromID'', ''fromName'', ''standing''])"
      by (auto split: option.splits)
    from standings_group_fails[of rowsets n, OF this]
    have "\<And>res. \<exists>e. standings_group flt rowsets (k, n) res = Inl e" .
    from foldE_fails[where f = "standings_group flt rowsets" and s = Map.empty, OF k this] obtain e where "foldE (standings_group flt rowsets) items Map.empty = Inl e"
      by blast
    with Some Inr show ?thesis by (simp add: standings_def deref_simps bindE_simps)
  qed
qed

lemma rows_loop_fails:
  assumes "rows_doc_incomplete ks doc"
    and "\<And>row s. lacks row ks \<Longrightarrow> \<exists>e. f row s = Inl e"
  shows "\<exists>e. bindE (deref (elem_find ''rowset'' doc)) (\<lambda>rowset. bindE (foldE f (elem_findall ''row'' rowset) s0) g) = Inl e"
proof (cases "elem_find ''rowset'' doc")
  case None
  then show ?thesis by (simp add: deref_simps bindE_simps)
next
  case (Some rowset)
  with assms(1) obtain row where "row \<in> set (elem_findall ''row'' rowset)" "lacks row ks"
    by (auto simp: rows_doc_incomplete_def)
  from foldE_fails[OF this(1), of f s0] assms(2)[OF this(2)]
  obtain e where "foldE f (elem_findall ''row'' rowset) s0 = Inl e" by blast
  with Some show ?thesis by (simp add: deref_simps bindE_simps)
qed

lemma notifications_fails:
  "rows_doc_incomplete [''notificationID'', ''typeID'', ''senderID'', ''sentDate'', ''read''] (result api_res)
   \<Longrightarrow> \<exists>e. notifications pts api_res = Inl e"
  unfolding notifications_def by (erule rows_loop_fails) (rule notification_row_fails)

lemma rows_map_fails:
  assumes "rows_doc_incomplete ks doc"
    and "\<And>row. lacks row ks \<Longrightarrow> \<exists>e. f row = Inl e"
  shows "\<exists>e. bindE (deref (elem_find ''rowset'' doc))
                (\<lambda>rowset. bindE (mapE f (elem_findall ''row'' rowset)) g) = Inl e"
proof (cases "elem_find ''rowset'' doc")
  case None
  then show ?thesis by (simp add: deref_simps bindE_simps)
next
  case (Some rowset)
  with assms(1) obtain row where "row \<in> set (elem_findall ''row'' rowset)" "lacks row ks"
    by (auto simp: rows_doc_incomplete_def)
  from mapE_fails[OF this(1), of f] assms(2)[OF this(2)]
  obtain e where "mapE f (elem_findall ''row'' rowset) = Inl e" by blast
  with Some show ?thesis by (simp add: deref_simps bindE_simps)
qed

lemma messages_fails:
  "rows_doc_incomplete [''messageID'', ''senderID'', ''sentDate'', ''title'',
      ''toCorpOrAllianceID'', ''toCharacterIDs'', ''toListID''] (result api_res)
   \<Longrightarrow> \<exists>e. messages pts api_res = Inl e"
  unfolding messages_def by (erule rows_map_fails) (rule message_row_fails)

lemma calendar_events_fails:
  "rows_doc_incomplete [''eventID'', ''ownerID'', ''ownerName'', ''eventDate'', ''eventTitle'',
      ''duration'', ''importance'', ''eventText'', ''response''] (result api_res)
   \<Longrightarrow> \<exists>e. calendar_events pts api_res = Inl e"
  unfolding calendar_events_def by (erule rows_loop_fails) (rule calendar_event_row_fails)

lemma calendar_attendees_fails:
  "rows_doc_incomplete [''characterID'', ''characterName'', ''response'', ''eventID'']
      (result api_res)
   \<Longrightarrow> \<exists>e. calendar_attendees ids api_res = Inl e"
  unfolding calendar_attendees_def Let_def by (erule rows_loop_fails) (rule attendee_row_fails)

lemma locations_fails:
  "rows_doc_incomplete [''itemName'', ''itemID'', ''x'', ''y'', ''z''] (result api_res)
   \<Longrightarrow> \<exists>e. locations flt ids api_res = Inl e"
  unfolding locations_def by (erule rows_loop_fails) (rule location_row_fails)

lemma message_body_row_fails:
  "lacks row [''messageID''] \<Longrightarrow> \<exists>e. message_body_row row m = Inl e"
  by (auto simp add: lacks_def message_body_row_def bindE_def getitem_def)

lemma message_bodies_fails:
  "rows_doc_incomplete [''messageID''] (result api_res)
   \<Longrightarrow> \<exists>e. message_bodies ids api_res = Inl e"
  unfolding message_bodies_def by (erule rows_loop_fails) (rule message_body_row_fails)

lemma notification_text_row_fails:
  "lacks row [''notificationID''] \<Longrightarrow> \<exists>e. notification_text_row pkv row m = Inl e"
  by (auto simp add: lacks_def notification_text_row_def bindE_def getitem_def)

lemma notification_texts_fails:
  "rows_doc_incomplete [''notificationID''] (result api_res)
   \<Longrightarrow> \<exists>e. notification_texts pkv ids api_res = Inl e"
  unfolding notification_texts_def by (erule rows_loop_fails) (rule notification_text_row_fails)

section \<open>The envelope's timestamps\<close>

lemma stamps_wallet_info:
  "wallet_info flt api_res = Inr env
   \<Longrightarrow> timestamp env = timestamp api_res \<and> expires env = expires api_res"
  by (auto simp: wallet_info_def bindE_Inr_iff APIResult_def)

lemma stamps_wallet_balance:
  "wallet_balance flt api_res = Inr env
   \<Longrightarrow> timestamp env = timestamp api_res \<and> expires env = expires api_res"
  by (auto simp: wallet_balance_def bindE_Inr_iff APIResult_def dest: stamps_wallet_info)

lemma stamps_notifications:
  "notifications parse_ts api_res = Inr env
   \<Longrightarrow> timestamp env = timestamp api_res \<and> expires env = expires api_res"
  by (auto simp: notifications_def bindE_Inr_iff APIResult_def)

lemma stamps_notification_texts:
  "notification_texts pkv ids api_res = Inr env
   \<Longrightarrow> timestamp env = timestamp api_res \<and> expires env = expires api_res"
  by (auto simp: notification_texts_def bindE_Inr_iff APIResult_def)

lemma stamps_standings:
  "standings flt items api_res = Inr env
   \<Longrightarrow> timestamp env = timestamp api_res \<and> expires env = expires api_res"
  by (auto simp: standings_def bindE_Inr_iff APIResult_def)

lemma stamps_character_sheet:
  "character_sheet eg roles api_res = Inr env
   \<Longrightarrow> timestamp env = timestamp api_res \<and> expires env = expires api_res"
  by (auto simp: character_sheet_def Let_def bindE_Inr_iff APIResult_def)

lemma stamps_messages:
  "messages parse_ts api_res = Inr env
   \<Longrightarrow> timestamp env = timestamp api_res \<and> expires env = expires api_res"
  by (auto simp: messages_def bindE_Inr_iff APIResult_def)

lemma stamps_message_bodies:
  "message_bodies ids api_res = Inr env
   \<Longrightarrow> timestamp env = timestamp api_res \<and> expires env = expires api_res"
  by (auto simp: message_bodies_def bindE_Inr_iff APIResult_def)

lemma stamps_calendar_events:
  "calendar_events parse_ts api_res = Inr env
   \<Longrightarrow> timestamp env = timestamp api_res \<and> expires env = expires api_res"
  by (auto simp: calendar_events_def bindE_Inr_iff APIResult_def)

lemma stamps_calendar_attendees:
  "calendar_attendees ids api_res = Inr env
   \<Longrightarrow> timestamp env = timestamp api_res \<and> expires env = expires api_res"
  by (auto simp: calendar_attendees_def Let_def bindE_Inr_iff APIResult_def)

lemma stamps_medals:
  "medals api_res = Inr env
   \<Longrightarrow> timestamp env = timestamp api_res \<and> expires env = expires api_res"
  by (auto simp: medals_def bindE_Inr_iff APIResult_def)

lemma stamps_locations:
  "locations flt ids api_res = Inr env
   \<Longrightarrow> timestamp env = timestamp api_res \<and> expires env = expires api_res"
  by (auto simp: locations_def bindE_Inr_iff APIResult_def)

lemma passes_throughI:
  "(\<And>env. out = Inr env \<Longrightarrow> timestamp env = timestamp api_res \<and> expires env = expires api_res)
   \<Longrightarrow> passes_through api_res out"
  by (cases out) (simp_all add: passes_through_def)

lemma wallet_balance_wallet_doc:
  "wallet_balance py_int (envelope wallet_doc) =
     Inr \<lparr>result = 209127923, timestamp = 1000, expires = 2000\<rparr>"
  by (simp add: wallet_balance_def wallet_info_def envelope_def wallet_doc_def elem_find_def
      deref_simps bindE_simps getitem_def to_float_def to_int_def py_int_def strip_def
      is_space_def unsigned_value_def is_digit_def APIResult_def)

section \<open>Boolean fields\<close>

lemma foldE_entries:
  assumes step: "\<And>x s s'. f x s = Inr s' \<Longrightarrow> \<exists>k v. s' = s(k \<mapsto> v) \<and> P x k v"
    and run: "foldE f xs s0 = Inr s" and entry: "s k = Some v"
  shows "s0 k = Some v \<or> (\<exists>x \<in> set xs. P x k v)"
  using run
proof (induction xs arbitrary: s0)
  case Nil
  with entry show ?case by simp
next
  case (Cons x xs)
  from Cons.prems obtain s1 where s1: "f x s0 = Inr s1" and rest: "foldE f xs s1 = Inr s"
    by (auto simp: bindE_Inr_iff)
  from step[OF s1] obtain k' v' where upd: "s1 = s0(k' \<mapsto> v')" and p: "P x k' v'" by blast
  from Cons.IH[OF rest] have "s1 k = Some v \<or> (\<exists>x \<in> set xs. P x k v)" .
  then show ?case
  proof
    assume "s1 k = Some v"
    with upd p show ?thesis by (cases "k = k'") auto
  next
    assume "\<exists>x \<in> set xs. P x k v"
    then show ?thesis by auto
  qed
qed

lemma notification_row_entry:
  "notification_row pts row m = Inr m' \<Longrightarrow>
   \<exists>k n. m' = m(k \<mapsto> n) \<and>
     (\<exists>v. map_of (attrib row) ''read'' = Some v \<and> nt_read n = (v = ''1'') \<and>
          row_int row ''notificationID'' = Inr k \<and> row_int row ''typeID'' = Inr (nt_type_id n))"
  apply (clarsimp simp: notification_row_def Let_def bindE_Inr_iff getitem_Inr_iff row_int_def)
  apply (rule exI, rule conjI, rule refl)
  apply simp
  done

lemma notifications_entry:
  assumes "notifications pts api_res = Inr env" "result env k = Some n"
  shows "\<exists>row \<in> set (first_rows (result api_res)). \<exists>v. map_of (attrib row) ''read'' = Some v \<and> nt_read n = (v = ''1'') \<and>
          row_int row ''notificationID'' = Inr k \<and> row_int row ''typeID'' = Inr (nt_type_id n)"
proof -
  from assms(1) obtain rowset res where rs: "elem_find ''rowset'' (result api_res) = Some rowset"
    and run: "foldE (notification_row pts) (elem_findall ''row'' rowset) Map.empty = Inr res"
    and env: "env = APIResult res (timestamp api_res) (expires api_res)"
    by (auto simp: notifications_def bindE_Inr_iff deref_def split: option.splits)
  from env assms(2) have "res k = Some n" by (simp add: APIResult_def)
  from foldE_entries[where f = "notification_row pts" and P = "\<lambda>row k n. \<exists>v. map_of (attrib row) ''read'' = Some v \<and> nt_read n = (v = ''1'') \<and>
          row_int row ''notificationID'' = Inr k \<and> row_int row ''typeID'' = Inr (nt_type_id n)", OF notification_row_entry run this]
  show ?thesis using rs by (simp add: first_rows_def)
qed

lemma first_rows_loop:
  assumes "bindE (deref (elem_find ''rowset'' doc)) (\<lambda>rowset. bindE (foldE f (elem_findall ''row'' rowset) s0) g) = Inr out"
  shows "\<exists>s. foldE f (first_rows doc) s0 = Inr s \<and> g s = Inr out"
  using assms by (auto simp: bindE_Inr_iff deref_def first_rows_def split: option.splits)

lemma calendar_event_row_entry:
  "calendar_event_row pts row m = Inr m' \<Longrightarrow>
   \<exists>k ev. m' = m(k \<mapsto> ev) \<and>
     (\<exists>v. map_of (attrib row) ''importance'' = Some v \<and> ev_important ev = (v = ''1'') \<and>
          row_int row ''eventID'' = Inr k)"
  apply (clarsimp simp: calendar_event_row_def Let_def bindE_Inr_iff getitem_Inr_iff row_int_def
      split del: if_split)
  apply (rule exI, rule conjI, rule refl)
  apply simp
  done

lemma calendar_events_entry:
  assumes "calendar_events pts api_res = Inr env" "result env k = Some ev"
  shows "\<exists>row \<in> set (first_rows (result api_res)). \<exists>v. map_of (attrib row) ''importance'' = Some v \<and>
          ev_important ev = (v = ''1'') \<and> row_int row ''eventID'' = Inr k"
proof -
  from first_rows_loop[OF assms(1)[unfolded calendar_events_def]] obtain res
    where run: "foldE (calendar_event_row pts) (first_rows (result api_res)) Map.empty = Inr res"
    and env: "env = APIResult res (timestamp api_res) (expires api_res)"
    by auto
  from env assms(2) have "res k = Some ev" by (simp add: APIResult_def)
  from foldE_entries[where f = "calendar_event_row pts" and P = "\<lambda>row k ev. \<exists>v. map_of (attrib row) ''importance'' = Some v \<and>
          ev_important ev = (v = ''1'') \<and> row_int row ''eventID'' = Inr k", OF calendar_event_row_entry run this]
  show ?thesis by simp
qed

lemma skill_rows_fold:
  "foldE skill_row rows (acc, n) = Inr (skills, sp) \<Longrightarrow>
   \<exists>new. skills = acc @ new \<and>
     map skill_published new = map (\<lambda>row. map_of (attrib row) ''published'' = Some ''1'') rows"
proof (induction rows arbitrary: acc n)
  case Nil
  then show ?case by simp
next
  case (Cons row rows)
  from Cons.prems obtain acc1 n1 where s1: "skill_row row (acc, n) = Inr (acc1, n1)"
    and rest: "foldE skill_row rows (acc1, n1) = Inr (skills, sp)"
    by (auto simp: bindE_Inr_iff)
  from s1 obtain sk where acc1: "acc1 = acc @ [sk]"
    and pub: "skill_published sk = (map_of (attrib row) ''published'' = Some ''1'')"
    by (auto simp: skill_row_def Let_def bindE_Inr_iff getitem_Inr_iff)
  from Cons.IH[OF rest] obtain new where "skills = acc1 @ new"
    "map skill_published new = map (\<lambda>row. map_of (attrib row) ''published'' = Some ''1'') rows" by blast
  with acc1 pub show ?case by (intro exI[of _ "sk # new"]) simp
qed

lemma character_sheet_parts:
  assumes "character_sheet eg roles api_res = Inr env"
  shows "\<exists>alliance_id rowsets skills_rowset.
     get_int (eg (result api_res)) ''allianceID'' = Inr alliance_id \<and>
     org_id (sh_alliance (result env)) =
       (case alliance_id of None \<Rightarrow> None | Some n \<Rightarrow> or_None (\<lambda>n. n \<noteq> 0) n) \<and>
     index_rowsets (elem_findall ''rowset'' (result api_res)) = Inr rowsets \<and>
     lookup rowsets ''skills'' = Inr skills_rowset \<and>
     foldE skill_row (children skills_rowset) ([], 0) =
       Inr (sh_skills (result env), sh_skillpoints (result env))"
  using assms
  by (auto simp: character_sheet_def Let_def bindE_Inr_iff APIResult_def)

lemma lookup_Inr_iff: "lookup d k = Inr v \<longleftrightarrow> d k = Some v"
  by (simp add: lookup_def split: option.splits)

lemma character_sheet_skill_rows:
  assumes "character_sheet eg roles api_res = Inr env"
  shows "foldE skill_row (skill_rows (result api_res)) ([], 0) =
       Inr (sh_skills (result env), sh_skillpoints (result env))"
proof -
  from character_sheet_parts[OF assms] obtain rowsets skills_rowset where
    ix: "index_rowsets (elem_findall ''rowset'' (result api_res)) = Inr rowsets"
    and lk: "rowsets ''skills'' = Some skills_rowset"
    and run: "foldE skill_row (children skills_rowset) ([], 0) =
       Inr (sh_skills (result env), sh_skillpoints (result env))"
    by (auto simp: lookup_Inr_iff)
  from index_rowsets_named[OF ix, of "''skills''"] lk
  have "rowset_named ''skills'' (elem_findall ''rowset'' (result api_res)) = Some skills_rowset"
    by simp
  then have "skill_rows (result api_res) = children skills_rowset" by (simp add: skill_rows_def)
  with run show ?thesis by simp
qed

lemma character_sheet_published:
  assumes "character_sheet eg roles api_res = Inr env"
  shows "map skill_published (sh_skills (result env)) =
     map (\<lambda>row. map_of (attrib row) ''published'' = Some ''1'') (skill_rows (result api_res))"
  using skill_rows_fold[OF character_sheet_skill_rows[OF assms]] by auto

lemma not_Inr_fails: "(\<And>y. m \<noteq> Inr y) \<Longrightarrow> \<exists>e. m = Inl e"
  by (cases m) auto

lemma skill_row_fails:
  "map_of (attrib row) ''published'' = None \<Longrightarrow> \<exists>e. skill_row row acc = Inl e"
  by (cases acc) (auto simp: skill_row_def Let_def bindE_def getitem_def split: sum.splits option.splits)

lemma character_sheet_unpublished_fails:
  assumes "row \<in> set (skill_rows (result api_res))" "map_of (attrib row) ''published'' = None"
  shows "\<exists>e. character_sheet eg roles api_res = Inl e"
proof (rule not_Inr_fails)
  fix env
  show "character_sheet eg roles api_res \<noteq> Inr env"
  proof
    assume "character_sheet eg roles api_res = Inr env"
    from character_sheet_skill_rows[OF this]
      foldE_fails[OF assms(1), of skill_row "([], 0)"] skill_row_fails[OF assms(2)]
    show False by auto
  qed
qed

lemma first_rows_incomplete:
  "row \<in> set (first_rows doc) \<Longrightarrow> map_of (attrib row) k = None \<Longrightarrow> k \<in> set ks
   \<Longrightarrow> rows_doc_incomplete ks doc"
  by (auto simp: first_rows_def rows_doc_incomplete_def lacks_def split: option.splits)

lemmas run_defs = elem_find_def elem_findall_def deref_def bindE_def getitem_def to_float_def
  to_int_def py_int_def strip_def is_space_def unsigned_value_def is_digit_def APIResult_def
  envelope_def lookup_def

lemma notifications_run:
  "notifications Inr (envelope notifications_doc) =
     Inr \<lparr>result =
            [303795523 \<mapsto> \<lparr>nt_id = 303795523, nt_type_id = 0, nt_sender_id = 671216635,
                           nt_timestamp = ''2009-12-02 10:54:00'', nt_read = True\<rparr>,
             304084087 \<mapsto> \<lparr>nt_id = 304084087, nt_type_id = 16, nt_sender_id = 797400947,
                           nt_timestamp = ''2009-12-03 17:04:00'', nt_read = False\<rparr>],
          timestamp = 1000, expires = 2000\<rparr>"
  by (simp add: notifications_def notifications_doc_def notification_row_def run_defs)

lemma calendar_run:
  "\<exists>env ev. calendar_events Inr (envelope calendar_doc) = Inr env \<and>
      result env 93264 = Some ev"
  by (simp add: calendar_events_def calendar_doc_def calendar_event_row_def run_defs)

lemma unread_doc_rows:
  "first_rows unread_doc =
     [Elem ''row'' [(''notificationID'', ''303795523''), (''typeID'', ''76''),
                    (''senderID'', ''671216635''),
                    (''sentDate'', ''2009-12-02 10:54:00'')] None []]"
  by (simp add: first_rows_def unread_doc_def elem_find_def elem_findall_def)

section \<open>Empty optional fields of a mail header\<close>












section \<open>Zero and null\<close>

lemma location_row_entry:
  "location_row flt row m = Inr m' \<Longrightarrow>
   \<exists>k l. m' = m(k \<mapsto> l) \<and>
     (\<exists>n x y z. row_int row ''itemID'' = Inr n \<and> k = (if n \<noteq> 0 then Some n else None) \<and>
        loc_id l = k \<and>
        bindE (getitem (attrib row) ''x'') (to_float flt) = Inr x \<and>
        loc_x l = (if x \<noteq> 0 then Some x else None) \<and>
        bindE (getitem (attrib row) ''y'') (to_float flt) = Inr y \<and>
        loc_y l = (if y \<noteq> 0 then Some y else None) \<and>
        bindE (getitem (attrib row) ''z'') (to_float flt) = Inr z \<and>
        loc_z l = (if z \<noteq> 0 then Some z else None))"
  apply (clarsimp simp: location_row_def Let_def bindE_Inr_iff getitem_Inr_iff row_int_def
      or_None_def split del: if_split)
  apply (rule exI, rule conjI, rule refl)
  apply (simp split del: if_split)
  done

lemma locations_entry:
  assumes "locations flt ll api_res = Inr env" "result env k = Some l"
  shows "\<exists>row \<in> set (first_rows (result api_res)). \<exists>n x y z.
        row_int row ''itemID'' = Inr n \<and> k = (if n \<noteq> 0 then Some n else None) \<and>
        loc_id l = k \<and>
        bindE (getitem (attrib row) ''x'') (to_float flt) = Inr x \<and>
        loc_x l = (if x \<noteq> 0 then Some x else None) \<and>
        bindE (getitem (attrib row) ''y'') (to_float flt) = Inr y \<and>
        loc_y l = (if y \<noteq> 0 then Some y else None) \<and>
        bindE (getitem (attrib row) ''z'') (to_float flt) = Inr z \<and>
        loc_z l = (if z \<noteq> 0 then Some z else None)"
proof -
  from first_rows_loop[OF assms(1)[unfolded locations_def]] obtain res
    where run: "foldE (location_row flt) (first_rows (result api_res)) Map.empty = Inr res"
    and env: "env = APIResult res (timestamp api_res) (expires api_res)"
    by auto
  from env assms(2) have "res k = Some l" by (simp add: APIResult_def)
  from foldE_entries[where f = "location_row flt" and P = "\<lambda>row k l. \<exists>n x y z.
        row_int row ''itemID'' = Inr n \<and> k = (if n \<noteq> 0 then Some n else None) \<and>
        loc_id l = k \<and>
        bindE (getitem (attrib row) ''x'') (to_float flt) = Inr x \<and>
        loc_x l = (if x \<noteq> 0 then Some x else None) \<and>
        bindE (getitem (attrib row) ''y'') (to_float flt) = Inr y \<and>
        loc_y l = (if y \<noteq> 0 then Some y else None) \<and>
        bindE (getitem (attrib row) ''z'') (to_float flt) = Inr z \<and>
        loc_z l = (if z \<noteq> 0 then Some z else None)", OF location_row_entry run this]
  show ?thesis by simp
qed

lemma to_int_empty: "to_int '''' = Inl ValueError"
  by (simp add: to_int_def py_int_def strip_def)

lemma location_row_no_item_id:
  "map_of (attrib row) ''itemID'' = None \<or> map_of (attrib row) ''itemID'' = Some ''''
   \<Longrightarrow> \<exists>e. location_row flt row m = Inl e"
  by (auto simp: location_row_def Let_def bindE_def getitem_def to_int_empty
      split: sum.splits option.splits)

lemma locations_no_item_id:
  assumes "row \<in> set (first_rows (result api_res))"
    "map_of (attrib row) ''itemID'' = None \<or> map_of (attrib row) ''itemID'' = Some ''''"
  shows "\<exists>e. locations flt ll api_res = Inl e"
proof (rule not_Inr_fails)
  fix env
  show "locations flt ll api_res \<noteq> Inr env"
  proof
    assume "locations flt ll api_res = Inr env"
    from first_rows_loop[OF this[unfolded locations_def]] obtain s
      where "foldE (location_row flt) (first_rows (result api_res)) Map.empty = Inr s"
      by blast
    moreover have "\<And>s. \<exists>e. location_row flt row s = Inl e"
      by (rule location_row_no_item_id[OF assms(2)])
    from foldE_fails[where f = "location_row flt" and s = Map.empty, OF assms(1) this]
    have "\<exists>e. foldE (location_row flt) (first_rows (result api_res)) Map.empty = Inl e" .
    ultimately show False by auto
  qed
qed

lemma character_sheet_alliance:
  assumes "character_sheet eg roles api_res = Inr env"
  shows "\<exists>a. get_int (eg (result api_res)) ''allianceID'' = Inr a \<and>
     org_id (sh_alliance (result env)) =
       (case a of None \<Rightarrow> None | Some n \<Rightarrow> if n = 0 then None else Some n)"
  using character_sheet_parts[OF assms] by (auto simp: or_None_def split: option.splits)

lemma locations_zero_run:
  "\<exists>env l. locations py_int [] (envelope zero_item_doc) = Inr env \<and>
      result env None = Some l"
  by (simp add: locations_def zero_item_doc_def location_row_def or_None_def run_defs)

lemma zero_item_doc_rows:
  "first_rows zero_item_doc =
     [Elem ''row'' [(''itemID'', ''0''), (''itemName'', ''Hangar''), (''x'', ''5''),
                    (''y'', ''0''), (''z'', ''7'')] None []]"
  by (simp add: first_rows_def zero_item_doc_def elem_find_def elem_findall_def)

lemma empty_item_doc_rows:
  "first_rows empty_item_doc =
     [Elem ''row'' [(''itemID'', ''''), (''itemName'', ''Hangar''), (''x'', ''5''),
                    (''y'', ''0''), (''z'', ''7'')] None []]"
  by (simp add: first_rows_def empty_item_doc_def elem_find_def elem_findall_def)

lemma row_int_zero:
  "row_int (Elem ''row'' [(''itemID'', ''0''), (''itemName'', ''Hangar''), (''x'', ''5''),
                    (''y'', ''0''), (''z'', ''7'')] None []) ''itemID'' = Inr n \<longleftrightarrow> n = 0"
  by (auto simp add: row_int_def run_defs)

section \<open>Calendar attendees\<close>

lemma attendee_row_Inr:
  "attendee_row row m = Inr m' \<longleftrightarrow>
     (\<exists>e c n r. row_int row ''characterID'' = Inr c \<and>
        map_of (attrib row) ''characterName'' = Some n \<and>
        map_of (attrib row) ''response'' = Some r \<and> row_int row ''eventID'' = Inr e \<and>
        m' = m(IntKey e \<mapsto>
               (case m (IntKey e) of None \<Rightarrow> Map.empty | Some d \<Rightarrow> d)
                 (c \<mapsto> \<lparr>at_id = c, at_name = n, at_response = r\<rparr>)))"
  by (auto simp: attendee_row_def Let_def bindE_Inr_iff getitem_Inr_iff row_int_def)

lemma requested_keys:
  "fold (\<lambda>event_id r. r(event_id \<mapsto> Map.empty)) ids m0 k =
     (if k \<in> set ids then Some Map.empty else m0 k)"
  by (induction ids arbitrary: m0) auto

lemma attendees_fold_keys:
  "foldE attendee_row rows m0 = Inr m \<Longrightarrow> m0 k = Some d0 \<Longrightarrow> \<exists>d. m k = Some d"
proof (induction rows arbitrary: m0 d0)
  case Nil
  then show ?case by simp
next
  case (Cons row rows)
  from Cons.prems(1) obtain m1 where m1: "attendee_row row m0 = Inr m1"
    and rest: "foldE attendee_row rows m1 = Inr m"
    by (auto simp: bindE_Inr_iff)
  from m1 Cons.prems(2) have "\<exists>d1. m1 k = Some d1"
    by (auto simp: attendee_row_Inr)
  then obtain d1 where "m1 k = Some d1" ..
  from Cons.IH[OF rest this] show ?case .
qed

lemma attendees_fold_untouched:
  "foldE attendee_row rows m0 = Inr m \<Longrightarrow>
   \<forall>row \<in> set rows. \<forall>e. row_int row ''eventID'' = Inr e \<longrightarrow> IntKey e \<noteq> k \<Longrightarrow>
   m k = m0 k"
proof (induction rows arbitrary: m0)
  case Nil
  then show ?case by simp
next
  case (Cons row rows)
  from Cons.prems(1) obtain m1 where m1: "attendee_row row m0 = Inr m1"
    and rest: "foldE attendee_row rows m1 = Inr m"
    by (auto simp: bindE_Inr_iff)
  from m1 Cons.prems(2) have "m1 k = m0 k"
    by (auto simp: attendee_row_Inr)
  moreover from Cons.IH[OF rest] Cons.prems(2) have "m k = m1 k" by simp
  ultimately show ?case by simp
qed

lemma attendees_fold_entries:
  "foldE attendee_row rows m0 = Inr m \<Longrightarrow> m k = Some d \<Longrightarrow> d c = Some a \<Longrightarrow>
   (\<exists>d0. m0 k = Some d0 \<and> d0 c = Some a) \<or> (\<exists>row \<in> set rows. row_gives row k c a)"
proof (induction rows arbitrary: m0)
  case Nil
  then show ?case by simp
next
  case (Cons row rows)
  from Cons.prems(1) obtain m1 where m1: "attendee_row row m0 = Inr m1"
    and rest: "foldE attendee_row rows m1 = Inr m"
    by (auto simp: bindE_Inr_iff)
  from Cons.IH[OF rest Cons.prems(2,3)]
  show ?case
  proof
    assume "\<exists>d1. m1 k = Some d1 \<and> d1 c = Some a"
    then obtain d1 where d1: "m1 k = Some d1" "d1 c = Some a" by blast
    from m1 obtain e c' n r where row: "row_int row ''characterID'' = Inr c'"
        "map_of (attrib row) ''characterName'' = Some n"
        "map_of (attrib row) ''response'' = Some r" "row_int row ''eventID'' = Inr e"
      and upd: "m1 = m0(IntKey e \<mapsto>
               (case m0 (IntKey e) of None \<Rightarrow> Map.empty | Some d \<Rightarrow> d)
                 (c' \<mapsto> \<lparr>at_id = c', at_name = n, at_response = r\<rparr>))"
      unfolding attendee_row_Inr by blast
    show ?thesis
    proof (cases "k = IntKey e \<and> c = c'")
      case True
      have "a = \<lparr>at_id = c', at_name = n, at_response = r\<rparr>"
        using d1 upd True by (cases "m0 (IntKey e)") auto
      with True row have "row_gives row k c a" by (simp add: row_gives_def)
      then show ?thesis by simp
    next
      case False
      with d1 upd have "\<exists>d0. m0 k = Some d0 \<and> d0 c = Some a"
        by (auto split: if_splits option.splits)
      then show ?thesis by simp
    qed
  next
    assume "\<exists>row \<in> set rows. row_gives row k c a"
    then show ?thesis by auto
  qed
qed

lemma attendees_fold_persist:
  "foldE attendee_row rows m0 = Inr m \<Longrightarrow> m0 k = Some d0 \<Longrightarrow> d0 c = Some a0 \<Longrightarrow>
   \<exists>d a. m k = Some d \<and> d c = Some a"
proof (induction rows arbitrary: m0 d0 a0)
  case Nil
  then show ?case by simp
next
  case (Cons row rows)
  from Cons.prems(1) obtain m1 where m1: "attendee_row row m0 = Inr m1"
    and rest: "foldE attendee_row rows m1 = Inr m"
    by (auto simp: bindE_Inr_iff)
  from m1 Cons.prems(2,3) have "\<exists>d1 a1. m1 k = Some d1 \<and> d1 c = Some a1"
    by (auto simp: attendee_row_Inr)
  then obtain d1 a1 where "m1 k = Some d1" "d1 c = Some a1" by blast
  from Cons.IH[OF rest this] show ?case .
qed

lemma attendees_fold_rows:
  "foldE attendee_row rows m0 = Inr m \<Longrightarrow> row \<in> set rows \<Longrightarrow>
   \<exists>e c d a. row_int row ''eventID'' = Inr e \<and> row_int row ''characterID'' = Inr c \<and>
      m (IntKey e) = Some d \<and> d c = Some a"
proof (induction rows arbitrary: m0)
  case Nil
  then show ?case by simp
next
  case (Cons r rows)
  from Cons.prems(1) obtain m1 where m1: "attendee_row r m0 = Inr m1"
    and rest: "foldE attendee_row rows m1 = Inr m"
    by (auto simp: bindE_Inr_iff)
  show ?case
  proof (cases "row = r")
    case True
    with m1 have "\<exists>e c d1 a1. row_int row ''eventID'' = Inr e \<and>
      row_int row ''characterID'' = Inr c \<and> m1 (IntKey e) = Some d1 \<and> d1 c = Some a1"
      by (auto simp: attendee_row_Inr)
    then obtain e c d1 a1 where e: "row_int row ''eventID'' = Inr e"
      "row_int row ''characterID'' = Inr c" and d1: "m1 (IntKey e) = Some d1" "d1 c = Some a1"
      by blast
    from attendees_fold_persist[OF rest d1] e show ?thesis by blast
  next
    case False
    with Cons.prems(2) have "row \<in> set rows" by simp
    from Cons.IH[OF rest this] show ?thesis .
  qed
qed

lemma attendees_fold_total:
  "\<forall>row \<in> set rows. \<not> lacks row [''characterID'', ''characterName'', ''response'', ''eventID''] \<and>
      (\<exists>c. row_int row ''characterID'' = Inr c) \<and> (\<exists>e. row_int row ''eventID'' = Inr e)
   \<Longrightarrow> \<exists>m. foldE attendee_row rows m0 = Inr m"
proof (induction rows arbitrary: m0)
  case Nil
  then show ?case by simp
next
  case (Cons row rows)
  from Cons.prems have "\<exists>m1. attendee_row row m0 = Inr m1"
    unfolding attendee_row_Inr by (auto simp: lacks_def)
  then obtain m1 where m1: "attendee_row row m0 = Inr m1" by blast
  from Cons.IH[of m1] Cons.prems obtain m where "foldE attendee_row rows m1 = Inr m" by auto
  with m1 show ?case by (simp add: bindE_simps)
qed

lemma calendar_attendees_Inr:
  "calendar_attendees ids api_res = Inr env \<longleftrightarrow>
     (\<exists>m. elem_find ''rowset'' (result api_res) \<noteq> None \<and>
        foldE attendee_row (first_rows (result api_res))
          (fold (\<lambda>event_id r. r(event_id \<mapsto> Map.empty)) ids Map.empty) = Inr m \<and>
        env = APIResult m (timestamp api_res) (expires api_res))"
  by (auto simp: calendar_attendees_def Let_def bindE_Inr_iff deref_def first_rows_def
      split: option.splits)


lemma calendar_attendees_result:
  assumes "calendar_attendees event_ids api_res = Inr env"
  shows "(\<forall>k \<in> set event_ids. \<exists>d. result env k = Some d) \<and>
     (\<forall>k \<in> set event_ids.
        (\<forall>row \<in> set (first_rows (result api_res)). \<forall>e.
            row_int row ''eventID'' = Inr e \<longrightarrow> IntKey e \<noteq> k) \<longrightarrow>
        result env k = Some Map.empty) \<and>
     (\<forall>k d c a. result env k = Some d \<and> d c = Some a \<longrightarrow>
        (\<exists>row \<in> set (first_rows (result api_res)). row_gives row k c a)) \<and>
     (\<forall>row \<in> set (first_rows (result api_res)). \<exists>e c d a.
        row_int row ''eventID'' = Inr e \<and> row_int row ''characterID'' = Inr c \<and>
        result env (IntKey e) = Some d \<and> d c = Some a)"
proof -
  define m0 where "m0 = fold (\<lambda>event_id r. r(event_id \<mapsto> Map.empty)) event_ids
    (Map.empty :: pykey \<rightharpoonup> (int \<rightharpoonup> attendee))"
  from assms obtain m where run: "foldE attendee_row (first_rows (result api_res)) m0 = Inr m"
    and env: "result env = m"
    by (auto simp: calendar_attendees_Inr APIResult_def m0_def)
  have m0: "m0 k = (if k \<in> set event_ids then Some Map.empty else None)" for k
    unfolding m0_def by (simp add: requested_keys)
  have 1: "\<forall>k \<in> set event_ids. \<exists>d. result env k = Some d"
  proof
    fix k assume "k \<in> set event_ids"
    with m0[of k] have "m0 k = Some Map.empty" by simp
    from attendees_fold_keys[OF run this] env show "\<exists>d. result env k = Some d" by simp
  qed
  have 2: "\<forall>k \<in> set event_ids.
        (\<forall>row \<in> set (first_rows (result api_res)). \<forall>e.
            row_int row ''eventID'' = Inr e \<longrightarrow> IntKey e \<noteq> k) \<longrightarrow>
        result env k = Some Map.empty"
  proof (intro ballI impI)
    fix k assume k: "k \<in> set event_ids"
      and "\<forall>row \<in> set (first_rows (result api_res)). \<forall>e.
            row_int row ''eventID'' = Inr e \<longrightarrow> IntKey e \<noteq> k"
    from attendees_fold_untouched[OF run this(2)] m0[of k] k env
    show "result env k = Some Map.empty" by simp
  qed
  have 3: "\<forall>k d c a. result env k = Some d \<and> d c = Some a \<longrightarrow>
        (\<exists>row \<in> set (first_rows (result api_res)). row_gives row k c a)"
  proof (intro allI impI)
    fix k d c a
    assume "result env k = Some d \<and> d c = Some a"
    with env have "m k = Some d" "d c = Some a" by simp_all
    from attendees_fold_entries[OF run this] m0[of k]
    show "\<exists>row \<in> set (first_rows (result api_res)). row_gives row k c a"
      by (auto split: if_splits)
  qed
  have 4: "\<forall>row \<in> set (first_rows (result api_res)). \<exists>e c d a.
        row_int row ''eventID'' = Inr e \<and> row_int row ''characterID'' = Inr c \<and>
        result env (IntKey e) = Some d \<and> d c = Some a"
    using attendees_fold_rows[OF run] env by simp
  from 1 2 3 4 show ?thesis by blast
qed

lemma calendar_attendees_total:
  assumes "elem_find ''rowset'' (result api_res) \<noteq> None"
    and "\<forall>row \<in> set (first_rows (result api_res)).
      \<not> lacks row [''characterID'', ''characterName'', ''response'', ''eventID''] \<and>
      (\<exists>c. row_int row ''characterID'' = Inr c) \<and> (\<exists>e. row_int row ''eventID'' = Inr e)"
  shows "\<exists>env. calendar_attendees event_ids api_res = Inr env"
  using attendees_fold_total[OF assms(2)] assms(1) by (simp add: calendar_attendees_Inr)

lemma attendees_run:
  "calendar_attendees [IntKey 1234, IntKey 5678] (envelope attendees_doc) =
     Inr \<lparr>result =
            [IntKey 5678 \<mapsto> Map.empty,
             IntKey 1234 \<mapsto>
               [123456789 \<mapsto> \<lparr>at_id = 123456789, at_name = ''Jane Doe'',
                               at_response = ''Attending''\<rparr>,
                987654321 \<mapsto> \<lparr>at_id = 987654321, at_name = ''John Doe'',
                               at_response = ''Tentative''\<rparr>]],
          timestamp = 1000, expires = 2000\<rparr>"
  by (simp add: calendar_attendees_def attendees_doc_def attendee_row_def run_defs fun_upd_twist)


lemma attendees_doc_rows:
  "elem_find ''rowset'' attendees_doc \<noteq> None"
  "\<forall>row \<in> set (first_rows attendees_doc).
     \<not> lacks row [''characterID'', ''characterName'', ''response'', ''eventID''] \<and>
     (\<exists>c. row_int row ''characterID'' = Inr c) \<and> row_int row ''eventID'' = Inr 1234"
  by (simp_all add: first_rows_def attendees_doc_def lacks_def row_int_def run_defs)

text \<open>
  C9. When \<open>calendar_attendees\<close> returns, its result has an entry for every requested
  event id; the entry of a requested id that no row belongs to is the empty mapping;
  every attendee stored under an event key and a character id was built from a row with
  that \<open>eventID\<close> and that \<open>characterID\<close>, and has that character id as its \<open>id\<close>; and
  every row has an entry under its event id and its character id. It returns whenever
  the rowset is there and every row has the four attributes, with integers for the two
  ids.
\<close>

theorem calendar_attendees_covers_requested_events:
  "(\<forall>env. calendar_attendees event_ids api_res = Inr env \<longrightarrow>
      (\<forall>k \<in> set event_ids. \<exists>d. result env k = Some d) \<and>
      (\<forall>k \<in> set event_ids.
         (\<forall>row \<in> set (first_rows (result api_res)). \<forall>e.
             row_int row ''eventID'' = Inr e \<longrightarrow> IntKey e \<noteq> k) \<longrightarrow>
         result env k = Some Map.empty) \<and>
      (\<forall>k d c a. result env k = Some d \<and> d c = Some a \<longrightarrow>
         (\<exists>row \<in> set (first_rows (result api_res)). row_gives row k c a)) \<and>
      (\<forall>row \<in> set (first_rows (result api_res)). \<exists>e c d a.
         row_int row ''eventID'' = Inr e \<and> row_int row ''characterID'' = Inr c \<and>
         result env (IntKey e) = Some d \<and> d c = Some a)) \<and>
   (elem_find ''rowset'' (result api_res) \<noteq> None \<and>
    (\<forall>row \<in> set (first_rows (result api_res)).
       \<not> lacks row [''characterID'', ''characterName'', ''response'', ''eventID''] \<and>
       (\<exists>c. row_int row ''characterID'' = Inr c) \<and> (\<exists>e. row_int row ''eventID'' = Inr e)) \<longrightarrow>
    (\<exists>env. calendar_attendees event_ids api_res = Inr env))"
  using calendar_attendees_result[of event_ids api_res]
    calendar_attendees_total[of api_res event_ids]
  by blast

text \<open>
  \<open>attendees_doc\<close> has two attendees of event 1234; events 1234 and 5678 are requested.
\<close>

theorem calendar_attendees_witness:
  "\<exists>env. calendar_attendees [IntKey 1234, IntKey 5678] (envelope attendees_doc) = Inr env \<and>
      (\<exists>d. result env (IntKey 1234) = Some d) \<and>
      result env (IntKey 5678) = Some Map.empty \<and>
      (\<forall>row \<in> set (first_rows attendees_doc). \<exists>c d a.
         row_int row ''characterID'' = Inr c \<and> result env (IntKey 1234) = Some d \<and>
         d c = Some a)"
proof -
  have r: "result (envelope attendees_doc) = attendees_doc" by (simp add: envelope_def)
  note inst = calendar_attendees_covers_requested_events
    [where api_res = "envelope attendees_doc" and event_ids = "[IntKey 1234, IntKey 5678]",
     unfolded r]
  from inst attendees_doc_rows
  obtain env where
    run: "calendar_attendees [IntKey 1234, IntKey 5678] (envelope attendees_doc) = Inr env"
    by blast
  from inst run have
    keys: "\<forall>k \<in> set [IntKey 1234, IntKey 5678]. \<exists>d. result env k = Some d"
    and untouched: "\<forall>k \<in> set [IntKey 1234, IntKey 5678].
         (\<forall>row \<in> set (first_rows attendees_doc). \<forall>e.
             row_int row ''eventID'' = Inr e \<longrightarrow> IntKey e \<noteq> k) \<longrightarrow>
         result env k = Some Map.empty"
    and rows: "\<forall>row \<in> set (first_rows attendees_doc). \<exists>e c d a.
         row_int row ''eventID'' = Inr e \<and> row_int row ''characterID'' = Inr c \<and>
         result env (IntKey e) = Some d \<and> d c = Some a"
    by blast+
  from keys have 1: "\<exists>d. result env (IntKey 1234) = Some d" by simp
  from attendees_doc_rows(2)
  have "\<forall>row \<in> set (first_rows attendees_doc). \<forall>e.
             row_int row ''eventID'' = Inr e \<longrightarrow> IntKey e \<noteq> IntKey 5678"
    by auto
  with untouched have 2: "result env (IntKey 5678) = Some Map.empty" by simp
  from rows attendees_doc_rows(2)
  have 3: "\<forall>row \<in> set (first_rows attendees_doc). \<exists>c d a.
         row_int row ''characterID'' = Inr c \<and> result env (IntKey 1234) = Some d \<and>
         d c = Some a"
    by fastforce
  from run 1 2 3 show ?thesis by blast
qed

section \<open>Ids reported missing\<close>

text \<open>
  The keys of a returned result of \<open>message_bodies\<close> are the message ids of the rows
  together with the ids listed in \<open>missingMessageIDs\<close>, each read with \<open>int\<close>; the listed
  ids map to \<open>None\<close>. \<open>notification_texts\<close> stores the ids listed in \<open>missingIDs\<close> under
  the pieces of the text as they stand, which are strings, next to the \<open>int\<close> keys of the
  rows.
\<close>

lemma fold_none_keys:
  "fold (\<lambda>k r. r(k \<mapsto> None)) ks m k' = (if k' \<in> set ks then Some None else m k')"
  by (induction ks arbitrary: m) auto

lemma message_body_rows_dom:
  "foldE message_body_row rows m0 = Inr m \<Longrightarrow>
   dom m = dom m0 \<union> {i. \<exists>row \<in> set rows. row_int row ''messageID'' = Inr i}"
proof (induction rows arbitrary: m0)
  case Nil
  then show ?case by simp
next
  case (Cons row rows)
  from Cons.prems obtain m1 where m1: "message_body_row row m0 = Inr m1"
    and rest: "foldE message_body_row rows m1 = Inr m"
    by (auto simp: bindE_Inr_iff)
  from m1 obtain i where i: "row_int row ''messageID'' = Inr i"
    and upd: "m1 = m0(i \<mapsto> elem_text row)"
    by (auto simp: message_body_row_def bindE_Inr_iff row_int_def)
  from upd have "dom m1 = insert i (dom m0)" by simp
  moreover from i have "{j. \<exists>r \<in> set (row # rows). row_int r ''messageID'' = Inr j} =
      insert i {j. \<exists>r \<in> set rows. row_int r ''messageID'' = Inr j}"
    by auto
  ultimately show ?case using Cons.IH[OF rest] by simp
qed

lemma message_bodies_keys:
  assumes "message_bodies message_ids api_res = Inr env"
  shows "\<exists>missing.
     (case elem_find ''missingMessageIDs'' (result api_res) of
        None \<Rightarrow> missing = []
      | Some missing_set \<Rightarrow>
          \<exists>t. elem_text missing_set = Some t \<and> mapE to_int (split_on CHR '','' t) = Inr missing) \<and>
     dom (result env) =
       {i. \<exists>row \<in> set (first_rows (result api_res)). row_int row ''messageID'' = Inr i} \<union>
       set missing \<and>
     (\<forall>i \<in> set missing. result env i = Some None)"
proof -
  from first_rows_loop[OF assms[unfolded message_bodies_def]] obtain m where
    run: "foldE message_body_row (first_rows (result api_res)) Map.empty = Inr m"
    and rest: "bindE (case elem_find ''missingMessageIDs'' (result api_res) of
              None \<Rightarrow> Inr m
            | Some missing_set \<Rightarrow>
                (case elem_text missing_set of
                   None \<Rightarrow> Inl AttributeError
                 | Some t \<Rightarrow>
                     bindE (mapE to_int (split_on CHR '','' t)) (\<lambda>missing_ids.
                     Inr (fold (\<lambda>missing_id r. r(missing_id \<mapsto> None)) missing_ids m))))
           (\<lambda>results'. Inr (APIResult results' (timestamp api_res) (expires api_res))) = Inr env"
    by blast
  from rest obtain m' where
    miss: "(case elem_find ''missingMessageIDs'' (result api_res) of
              None \<Rightarrow> Inr m
            | Some missing_set \<Rightarrow>
                (case elem_text missing_set of
                   None \<Rightarrow> Inl AttributeError
                 | Some t \<Rightarrow>
                     bindE (mapE to_int (split_on CHR '','' t)) (\<lambda>missing_ids.
                     Inr (fold (\<lambda>missing_id r. r(missing_id \<mapsto> None)) missing_ids m)))) = Inr m'"
    and env': "env = APIResult m' (timestamp api_res) (expires api_res)"
    unfolding bindE_Inr_iff by blast
  from env' have env: "result env = m'" by (simp add: APIResult_def)
  from message_body_rows_dom[OF run]
  have dom_m: "dom m = {i. \<exists>row \<in> set (first_rows (result api_res)). row_int row ''messageID'' = Inr i}"
    by simp
  show ?thesis
  proof (cases "elem_find ''missingMessageIDs'' (result api_res)")
    case None
    with miss env dom_m show ?thesis by auto
  next
    case (Some missing_set)
    with miss obtain t missing where t: "elem_text missing_set = Some t"
      and ms: "mapE to_int (split_on CHR '','' t) = Inr missing"
      and m': "m' = fold (\<lambda>missing_id r. r(missing_id \<mapsto> None)) missing m"
      by (auto simp: bindE_Inr_iff split: option.splits)
    from m' have "dom m' = dom m \<union> set missing" "\<forall>i \<in> set missing. m' i = Some None"
      by (auto simp: fold_none_keys dom_def)
    with Some t ms env dom_m show ?thesis by auto
  qed
qed

lemma notification_text_rows_dom:
  "foldE (notification_text_row pkv) rows m0 = Inr m \<Longrightarrow>
   dom m = dom m0 \<union> {IntKey i | i. \<exists>row \<in> set rows. row_int row ''notificationID'' = Inr i}"
proof (induction rows arbitrary: m0)
  case Nil
  then show ?case by simp
next
  case (Cons row rows)
  from Cons.prems obtain m1 where m1: "notification_text_row pkv row m0 = Inr m1"
    and rest: "foldE (notification_text_row pkv) rows m1 = Inr m"
    by (auto simp: bindE_Inr_iff)
  from m1 obtain i v where i: "row_int row ''notificationID'' = Inr i"
    and upd: "m1 = m0(IntKey i \<mapsto> v)"
    by (auto simp: notification_text_row_def bindE_Inr_iff row_int_def)
  from upd have "dom m1 = insert (IntKey i) (dom m0)" by simp
  moreover from i have
    "{IntKey j | j. \<exists>r \<in> set (row # rows). row_int r ''notificationID'' = Inr j} =
      insert (IntKey i) {IntKey j | j. \<exists>r \<in> set rows. row_int r ''notificationID'' = Inr j}"
    by auto
  ultimately show ?case using Cons.IH[OF rest] by simp
qed

lemma notification_texts_keys:
  assumes "notification_texts pkv notification_ids api_res = Inr env"
  shows "\<exists>missing.
     (case elem_find ''missingIDs'' (result api_res) of
        None \<Rightarrow> missing = []
      | Some missing_ids \<Rightarrow>
          \<exists>t. elem_text missing_ids = Some t \<and> missing = split_on CHR '','' t) \<and>
     dom (result env) =
       {IntKey i | i. \<exists>row \<in> set (first_rows (result api_res)).
           row_int row ''notificationID'' = Inr i} \<union>
       StrKey ` set missing \<and>
     (\<forall>s \<in> set missing. result env (StrKey s) = Some None)"
proof -
  from first_rows_loop[OF assms[unfolded notification_texts_def]] obtain m where
    run: "foldE (notification_text_row pkv) (first_rows (result api_res)) Map.empty = Inr m"
    and rest: "bindE (case elem_find ''missingIDs'' (result api_res) of
              None \<Rightarrow> Inr m
            | Some missing_ids \<Rightarrow>
                (case elem_text missing_ids of
                   None \<Rightarrow> Inl AttributeError
                 | Some t \<Rightarrow>
                     Inr (fold (\<lambda>missing_id r. r(StrKey missing_id \<mapsto> None))
                            (split_on CHR '','' t) m)))
           (\<lambda>res'. Inr (APIResult res' (timestamp api_res) (expires api_res))) = Inr env"
    by blast
  from rest obtain m' where
    miss: "(case elem_find ''missingIDs'' (result api_res) of
              None \<Rightarrow> Inr m
            | Some missing_ids \<Rightarrow>
                (case elem_text missing_ids of
                   None \<Rightarrow> Inl AttributeError
                 | Some t \<Rightarrow>
                     Inr (fold (\<lambda>missing_id r. r(StrKey missing_id \<mapsto> None))
                            (split_on CHR '','' t) m))) = Inr m'"
    and env': "env = APIResult m' (timestamp api_res) (expires api_res)"
    unfolding bindE_Inr_iff by blast
  from env' have env: "result env = m'" by (simp add: APIResult_def)
  from notification_text_rows_dom[OF run]
  have dom_m: "dom m = {IntKey i | i. \<exists>row \<in> set (first_rows (result api_res)).
           row_int row ''notificationID'' = Inr i}"
    by simp
  have fold_str: "fold (\<lambda>missing_id r. r(StrKey missing_id \<mapsto> None)) ss m0 =
      fold (\<lambda>k r. r(k \<mapsto> None)) (map StrKey ss) m0" for ss m0
    by (induction ss arbitrary: m0) auto
  show ?thesis
  proof (cases "elem_find ''missingIDs'' (result api_res)")
    case None
    with miss env dom_m show ?thesis by auto
  next
    case (Some missing_ids)
    with miss obtain t where t: "elem_text missing_ids = Some t"
      and m': "m' = fold (\<lambda>k r. r(k \<mapsto> None)) (map StrKey (split_on CHR '','' t)) m"
      by (auto simp: fold_str split: option.splits)
    from m' have "dom m' = dom m \<union> StrKey ` set (split_on CHR '','' t)"
      "\<forall>s \<in> set (split_on CHR '','' t). m' (StrKey s) = Some None"
      by (auto simp: fold_none_keys dom_def)
    with Some t env dom_m show ?thesis by auto
  qed
qed

lemma message_bodies_run:
  "message_bodies [297023723, 297023208, 297023210] (envelope missing_bodies_doc) =
     Inr \<lparr>result = [297023723 \<mapsto> Some ''Hi. This is a message.'', 297023208 \<mapsto> None,
                    297023210 \<mapsto> None],
          timestamp = 1000, expires = 2000\<rparr>"
  by (simp add: message_bodies_def missing_bodies_doc_def message_body_row_def run_defs)

text \<open>
  C2 fails at \<open>notification_texts\<close>. With notification 374044083 in the rowset and
  374106507 listed as missing, the result has the keys \<open>374044083\<close> and the string
  \<open>'374106507'\<close>: the id 374106507 itself has no entry, so the key set is not the union
  of the ids of the rowset and the ids listed as missing.
\<close>

theorem notification_texts_keys_missing_ids_by_text:
  "\<exists>env. notification_texts (\<lambda>t. Inr (Map.empty :: string \<rightharpoonup> string))
            [374044083, 374106507] (envelope missing_texts_doc) = Inr env \<and>
      dom (result env) = {IntKey 374044083, StrKey ''374106507''} \<and>
      result env (StrKey ''374106507'') = Some None \<and>
      result env (IntKey 374106507) = None"
  by (simp add: notification_texts_def missing_texts_doc_def notification_text_row_def run_defs
      insert_commute)

section \<open>Location inheritance in the asset tree\<close>

lemma location_id_normalize_item:
  "location_id (normalize_item par r) = (case locationID r of Some own \<Rightarrow> own | None \<Rightarrow> par)"
  by (cases r) (simp add: Let_def)

lemma normalize_items_eq: "normalize_items par = map (normalize_item par)"
  by (rule ext) (simp add: normalize_items_def)

lemma length_normalize_items [simp]: "length (normalize_items par xs) = length xs"
  by (simp add: normalize_items_def)

lemma nth_normalize_items [simp]:
  "i < length xs \<Longrightarrow> normalize_items par xs ! i = normalize_item par (xs ! i)"
  by (simp add: normalize_items_def)

lemma contents_normalize_item:
  "contents (normalize_item par r) =
     map_option (normalize_items (location_id (normalize_item par r))) (nested r)"
  by (cases r) (simp add: Let_def normalize_items_eq)

lemma asset_id_normalize_item [simp]: "asset_id (normalize_item par r) = itemID r"
  by (cases r) (simp add: Let_def)

lemma asset_at_single:
  "asset_at (normalize_items par items) [i] =
     (if i < length items then Some (normalize_item par (items ! i)) else None)"
  by simp

lemma asset_at_step:
  "i < length items \<Longrightarrow> nested (items ! i) = Some cs \<Longrightarrow>
   asset_at (normalize_items par items) (i # j # p) =
     asset_at (normalize_items (location_id (normalize_item par (items ! i))) cs) (j # p)"
  by (simp add: contents_normalize_item)

lemma asset_at_none:
  "i < length items \<Longrightarrow> nested (items ! i) = None \<Longrightarrow>
   asset_at (normalize_items par items) (i # j # p) = None"
  by (simp add: contents_normalize_item)

lemma asset_at_out_of_range:
  "\<not> i < length items \<Longrightarrow> asset_at (normalize_items par items) (i # p) = None"
  by (cases p) simp_all

lemma asset_at_shape:
  "(\<exists>a. asset_at (normalize_items par items) q = Some a) \<longleftrightarrow> (\<exists>r. item_at items q = Some r)"
proof (induction items q arbitrary: par rule: item_at.induct)
  case (1 xs)
  then show ?case by simp
next
  case (2 xs i)
  then show ?case by (simp add: asset_at_single)
next
  case (3 xs i j p)
  show ?case
  proof (cases "i < length xs")
    case False
    then show ?thesis by (simp add: asset_at_out_of_range)
  next
    case True
    show ?thesis
    proof (cases "nested (xs ! i)")
      case None
      with True show ?thesis by (simp add: asset_at_none del: asset_at.simps(3))
    next
      case (Some cs)
      with True 3[OF True Some] show ?thesis by (simp add: asset_at_step del: asset_at.simps(3))
    qed
  qed
qed

lemma resolved_location:
  "item_at items q = Some r \<Longrightarrow>
   \<exists>a. asset_at (normalize_items par items) q = Some a \<and> asset_id a = itemID r \<and>
     location_id a =
       (case locationID r of
          Some own \<Rightarrow> own
        | None \<Rightarrow>
            if butlast q = [] then par
            else location_id (the (asset_at (normalize_items par items) (butlast q))))"
proof (induction items q arbitrary: par rule: item_at.induct)
  case (1 xs)
  then show ?case by simp
next
  case (2 xs i)
  then show ?case
    by (auto simp: location_id_normalize_item split: if_splits)
next
  case (3 xs i j p)
  from "3.prems" have i: "i < length xs" by (simp split: if_splits)
  with "3.prems" obtain cs where cs: "nested (xs ! i) = Some cs"
    and r: "item_at cs (j # p) = Some r"
    by (auto split: option.splits)
  let ?loc = "location_id (normalize_item par (xs ! i))"
  from "3.IH"[OF i cs r, of ?loc]
  obtain a where a: "asset_at (normalize_items ?loc cs) (j # p) = Some a"
    "asset_id a = itemID r"
    "location_id a =
       (case locationID r of
          Some own \<Rightarrow> own
        | None \<Rightarrow>
            if butlast (j # p) = [] then ?loc
            else location_id (the (asset_at (normalize_items ?loc cs) (butlast (j # p)))))"
    by blast
  have parent: "location_id (the (asset_at (normalize_items par xs) (butlast (i # j # p)))) =
      (if butlast (j # p) = [] then ?loc
       else location_id (the (asset_at (normalize_items ?loc cs) (butlast (j # p)))))"
  proof (cases p)
    case Nil
    with i show ?thesis by simp
  next
    case (Cons k p')
    then obtain j' p'' where b: "butlast (j # p) = j' # p''" by (cases "butlast (j # p)") auto
    with Cons i cs show ?thesis
      using asset_at_step[OF i cs, of par j' p''] by (simp del: asset_at.simps(3))
  qed
  have "asset_at (normalize_items par xs) (i # j # p) = Some a"
    using asset_at_step[OF i cs, of par j p] a(1) by simp
  moreover have "butlast (i # j # p) \<noteq> []" by simp
  ultimately show ?case using a(2,3) parent
    by (simp del: asset_at.simps butlast.simps split: option.splits)
qed


lemma item_at_parent:
  "item_at items (p @ [i]) = Some r \<Longrightarrow> p \<noteq> [] \<Longrightarrow> \<exists>pr. item_at items p = Some pr"
proof (induction items p rule: item_at.induct)
  case (1 xs)
  then show ?case by simp
next
  case (2 xs j)
  then show ?case by (simp split: if_splits)
next
  case (3 xs j k p)
  from "3.prems"(1) have j: "j < length xs" by (simp split: if_splits)
  with "3.prems"(1) obtain cs where cs: "nested (xs ! j) = Some cs"
    and r: "item_at cs ((k # p) @ [i]) = Some r"
    by (auto split: option.splits)
  from "3.IH"[OF j cs r] j cs show ?case by simp
qed

lemma parent_asset:
  assumes "item_at items q = Some r" "butlast q \<noteq> []"
  shows "\<exists>parent. asset_at (normalize_items par items) (butlast q) = Some parent"
proof -
  from assms(2) have "q \<noteq> []" by auto
  then have q: "q = butlast q @ [last q]" by simp
  with assms(1) have "item_at items (butlast q @ [last q]) = Some r" by simp
  from item_at_parent[OF this assms(2)] obtain pr where "item_at items (butlast q) = Some pr" ..
  then show ?thesis using asset_at_shape[of par items "butlast q"] by blast
qed

lemma resolved_from_path:
  "item_at items q = Some r \<Longrightarrow> asset_at (normalize_items par items) q = Some a \<Longrightarrow>
   location_id a = par \<or>
   (\<exists>n r'. 0 < n \<and> n \<le> length q \<and> item_at items (take n q) = Some r' \<and>
      locationID r' = Some (location_id a))"
proof (induction q arbitrary: r a rule: rev_induct)
  case Nil
  then show ?case by simp
next
  case (snoc i p)
  have b: "butlast (p @ [i]) = p" by simp
  from resolved_location[OF snoc.prems(1), of par, unfolded b] snoc.prems(2)
  have loc: "location_id a =
       (case locationID r of
          Some own \<Rightarrow> own
        | None \<Rightarrow>
            if p = [] then par
            else location_id (the (asset_at (normalize_items par items) p)))"
    by simp
  show ?case
  proof (cases "locationID r")
    case (Some own)
    with loc have "locationID r = Some (location_id a)" by simp
    with snoc.prems(1) have "0 < length (p @ [i]) \<and> length (p @ [i]) \<le> length (p @ [i]) \<and>
        item_at items (take (length (p @ [i])) (p @ [i])) = Some r \<and>
        locationID r = Some (location_id a)"
      by simp
    then show ?thesis by blast
  next
    case None
    show ?thesis
    proof (cases "p = []")
      case True
      with loc None show ?thesis by simp
    next
      case False
      from item_at_parent[OF snoc.prems(1) False] obtain pr where pr: "item_at items p = Some pr" ..
      with asset_at_shape[of par items p] obtain pa
        where pa: "asset_at (normalize_items par items) p = Some pa" by blast
      from loc None False pa have eq: "location_id a = location_id pa" by simp
      from snoc.IH[OF pr pa] show ?thesis
      proof
        assume "location_id pa = par"
        with eq show ?thesis by simp
      next
        assume "\<exists>n r'. 0 < n \<and> n \<le> length p \<and> item_at items (take n p) = Some r' \<and>
          locationID r' = Some (location_id pa)"
        then obtain n r' where "0 < n" "n \<le> length p" "item_at items (take n p) = Some r'"
          "locationID r' = Some (location_id pa)" by blast
        with eq have "0 < n \<and> n \<le> length (p @ [i]) \<and>
            item_at items (take n (p @ [i])) = Some r' \<and> locationID r' = Some (location_id a)"
          by simp
        then show ?thesis by blast
      qed
    qed
  qed
qed

lemma resolved_at:
  assumes "asset_at (normalize_items par items) q = Some a"
  shows "\<exists>r. item_at items q = Some r \<and> asset_id a = itemID r \<and>
     (\<forall>own. locationID r = Some own \<longrightarrow> location_id a = own) \<and>
     (locationID r = None \<and> butlast q = [] \<longrightarrow> location_id a = par) \<and>
     (locationID r = None \<and> butlast q \<noteq> [] \<longrightarrow>
        (\<exists>parent. asset_at (normalize_items par items) (butlast q) = Some parent \<and>
           location_id a = location_id parent)) \<and>
     (location_id a = par \<or>
      (\<exists>n r'. 0 < n \<and> n \<le> length q \<and> item_at items (take n q) = Some r' \<and>
         locationID r' = Some (location_id a)))"
proof -
  from assms asset_at_shape[of par items q] obtain r where r: "item_at items q = Some r"
    by blast
  from resolved_location[OF r, of par] assms
  have id: "asset_id a = itemID r"
    and loc: "location_id a =
       (case locationID r of
          Some own \<Rightarrow> own
        | None \<Rightarrow>
            if butlast q = [] then par
            else location_id (the (asset_at (normalize_items par items) (butlast q))))"
    by simp_all
  have "\<exists>parent. asset_at (normalize_items par items) (butlast q) = Some parent \<and>
           location_id a = location_id parent"
    if "locationID r = None" "butlast q \<noteq> []"
  proof -
    from parent_asset[OF r that(2), of par] obtain parent
      where "asset_at (normalize_items par items) (butlast q) = Some parent" ..
    with loc that show ?thesis by simp
  qed
  with r id loc resolved_from_path[OF r assms] show ?thesis
    by (intro exI[of _ r]) auto
qed

lemma parse_assets_fold:
  "fold add_group groups m0 g = Some c \<Longrightarrow>
   m0 g = Some c \<or>
   (\<exists>items. (g, items) \<in> set groups \<and>
      c = \<lparr>container_location_id = g, container_contents = normalize_items g items\<rparr>)"
proof (induction groups arbitrary: m0)
  case Nil
  then show ?case by simp
next
  case (Cons gr groups)
  from Cons.prems have "fold add_group groups (add_group gr m0) g = Some c" by simp
  from Cons.IH[OF this] show ?case
    by (cases gr) (auto simp: add_group_def split: if_splits)
qed

lemma parse_assets_entry:
  "parse_assets groups g = Some c \<Longrightarrow>
   \<exists>items. (g, items) \<in> set groups \<and>
      c = \<lparr>container_location_id = g, container_contents = normalize_items g items\<rparr>"
  unfolding parse_assets_def by (drule parse_assets_fold) simp

lemma parse_assets_dom: "dom (parse_assets groups) = fst ` set groups"
proof -
  have "dom (fold add_group groups m0) = dom m0 \<union> fst ` set groups" for m0
    by (induction groups arbitrary: m0) (auto simp: add_group_def)
  then show ?thesis by (simp add: parse_assets_def)
qed

lemma assets_run:
  "assets (envelope assets_doc) =
     \<lparr>result =
        [60003760 \<mapsto>
           \<lparr>container_location_id = 60003760,
            container_contents =
              [Asset 100 34 5 60003760 0 True (Some [Asset 101 21 1 60003760 0 True None])]\<rparr>],
      timestamp = 1000, expires = 2000\<rparr>"
  by (simp add: assets_def parse_assets_def add_group_def normalize_items_def assets_doc_def
      envelope_def APIResult_def)

text \<open>
  C1. In the result of \<open>assets\<close>, the container of a location group holds the group's id,
  and every normalized item at a position \<open>q\<close> of its contents comes from the input item
  at the same position: with the item's own location id when it has one; otherwise with
  the container's location id when the item is top-level, and with the resolved location
  id of its parent (the item at \<open>butlast q\<close>) when it is nested. The resolved id is always
  the group's id or the explicit location id of the item itself or of one of its
  ancestors (the items at the prefixes of \<open>q\<close>). An item's resolved location id does not
  depend on its nested contents.
\<close>

theorem asset_location_inheritance:
  "(\<forall>g c. result (assets api_res) g = Some c \<longrightarrow>
      container_location_id c = g \<and>
      (\<exists>items. (g, items) \<in> set (result api_res) \<and>
         (\<forall>q a. asset_at (container_contents c) q = Some a \<longrightarrow>
            (\<exists>r. item_at items q = Some r \<and> asset_id a = itemID r \<and>
               (\<forall>own. locationID r = Some own \<longrightarrow> location_id a = own) \<and>
               (locationID r = None \<and> butlast q = [] \<longrightarrow>
                  location_id a = container_location_id c) \<and>
               (locationID r = None \<and> butlast q \<noteq> [] \<longrightarrow>
                  (\<exists>parent. asset_at (container_contents c) (butlast q) = Some parent \<and>
                     location_id a = location_id parent)) \<and>
               (location_id a = container_location_id c \<or>
                (\<exists>n r'. 0 < n \<and> n \<le> length q \<and> item_at items (take n q) = Some r' \<and>
                   locationID r' = Some (location_id a))))))) \<and>
   (\<forall>par i t q l f u n n'.
      location_id (normalize_item par (ItemElem i t q l f u n)) =
      location_id (normalize_item par (ItemElem i t q l f u n')))"
proof (intro conjI allI impI)
  fix g c
  assume "result (assets api_res) g = Some c"
  then have "parse_assets (result api_res) g = Some c" by (simp add: assets_def APIResult_def)
  from parse_assets_entry[OF this] obtain items where items: "(g, items) \<in> set (result api_res)"
    and c: "c = \<lparr>container_location_id = g, container_contents = normalize_items g items\<rparr>"
    by blast
  from c show "container_location_id c = g" by simp
  have "\<forall>q a. asset_at (container_contents c) q = Some a \<longrightarrow>
            (\<exists>r. item_at items q = Some r \<and> asset_id a = itemID r \<and>
               (\<forall>own. locationID r = Some own \<longrightarrow> location_id a = own) \<and>
               (locationID r = None \<and> butlast q = [] \<longrightarrow>
                  location_id a = container_location_id c) \<and>
               (locationID r = None \<and> butlast q \<noteq> [] \<longrightarrow>
                  (\<exists>parent. asset_at (container_contents c) (butlast q) = Some parent \<and>
                     location_id a = location_id parent)) \<and>
               (location_id a = container_location_id c \<or>
                (\<exists>n r'. 0 < n \<and> n \<le> length q \<and> item_at items (take n q) = Some r' \<and>
                   locationID r' = Some (location_id a))))"
    using resolved_at[of g items] c by simp
  with items show "\<exists>items. (g, items) \<in> set (result api_res) \<and>
         (\<forall>q a. asset_at (container_contents c) q = Some a \<longrightarrow>
            (\<exists>r. item_at items q = Some r \<and> asset_id a = itemID r \<and>
               (\<forall>own. locationID r = Some own \<longrightarrow> location_id a = own) \<and>
               (locationID r = None \<and> butlast q = [] \<longrightarrow>
                  location_id a = container_location_id c) \<and>
               (locationID r = None \<and> butlast q \<noteq> [] \<longrightarrow>
                  (\<exists>parent. asset_at (container_contents c) (butlast q) = Some parent \<and>
                     location_id a = location_id parent)) \<and>
               (location_id a = container_location_id c \<or>
                (\<exists>n r'. 0 < n \<and> n \<le> length q \<and> item_at items (take n q) = Some r' \<and>
                   locationID r' = Some (location_id a)))))"
    by blast
next
  fix par i t q l f u n n'
  show "location_id (normalize_item par (ItemElem i t q l f u n)) =
      location_id (normalize_item par (ItemElem i t q l f u n'))"
    by (simp add: Let_def)
qed

text \<open>
  In the specification's example, item 101 at position \<open>[0, 0]\<close> has no location id of
  its own and takes the resolved one of its parent, item 100 at \<open>[0]\<close>, which takes the
  container's.
\<close>

theorem asset_location_inheritance_witness:
  "\<exists>c a parent. result (assets (envelope assets_doc)) 60003760 = Some c \<and>
      asset_at (container_contents c) [0, 0] = Some a \<and> asset_id a = 101 \<and>
      asset_at (container_contents c) [0] = Some parent \<and>
      location_id a = location_id parent \<and> location_id parent = container_location_id c"
proof -
  have r: "result (envelope assets_doc) = assets_doc" by (simp add: envelope_def)
  obtain c where c: "result (assets (envelope assets_doc)) 60003760 = Some c"
    and child: "asset_at (container_contents c) [0, 0] = Some (Asset 101 21 1 60003760 0 True None)"
    and top: "asset_at (container_contents c) [0] =
      Some (Asset 100 34 5 60003760 0 True (Some [Asset 101 21 1 60003760 0 True None]))"
    by (simp add: assets_run)
  note inst = asset_location_inheritance [where api_res = "envelope assets_doc", unfolded r,
      THEN conjunct1, rule_format, OF c, THEN conjunct2]
  then obtain items where items: "(60003760, items) \<in> set assets_doc"
    and all: "\<And>q a. asset_at (container_contents c) q = Some a \<Longrightarrow>
            (\<exists>r. item_at items q = Some r \<and> asset_id a = itemID r \<and>
               (\<forall>own. locationID r = Some own \<longrightarrow> location_id a = own) \<and>
               (locationID r = None \<and> butlast q = [] \<longrightarrow>
                  location_id a = container_location_id c) \<and>
               (locationID r = None \<and> butlast q \<noteq> [] \<longrightarrow>
                  (\<exists>parent. asset_at (container_contents c) (butlast q) = Some parent \<and>
                     location_id a = location_id parent)) \<and>
               (location_id a = container_location_id c \<or>
                (\<exists>n r'. 0 < n \<and> n \<le> length q \<and> item_at items (take n q) = Some r' \<and>
                   locationID r' = Some (location_id a))))"
    by blast
  from items have items_eq:
    "items = [ItemElem 100 34 5 None 0 False (Some [ItemElem 101 21 1 None 0 False None])]"
    by (simp add: assets_doc_def)
  from all[OF child] have "\<exists>parent. asset_at (container_contents c) (butlast [0, 0]) = Some parent \<and>
      location_id (Asset 101 21 1 60003760 0 True None) = location_id parent"
    by (simp add: items_eq)
  with top have 1: "location_id (Asset 101 21 1 60003760 0 True None) =
      location_id (Asset 100 34 5 60003760 0 True (Some [Asset 101 21 1 60003760 0 True None]))"
    by simp
  from all[OF top] have 2: "location_id (Asset 100 34 5 60003760 0 True
      (Some [Asset 101 21 1 60003760 0 True None])) = container_location_id c"
    by (simp add: items_eq)
  have 3: "asset_id (Asset 101 21 1 60003760 0 True None) = 101" by simp
  from c child top 1 2 3 show ?thesis by blast
qed

section \<open>The same document gives the same result\<close>

lemma keyed_fold_sound:
  assumes step: "\<And>item res. f item res = bindE (g item) (\<lambda>m. Inr (res(k item \<mapsto> m)))"
  shows "foldE f items res0 = Inr res \<Longrightarrow>
     (\<forall>item \<in> set items. \<exists>m. g item = Inr m) \<and>
     (\<forall>x. (x \<notin> k ` set items \<longrightarrow> res x = res0 x) \<and>
          (x \<in> k ` set items \<longrightarrow>
             (\<exists>item \<in> set items. k item = x \<and> (\<exists>m. g item = Inr m \<and> res x = Some m))))"
proof (induction items arbitrary: res0)
  case Nil
  then show ?case by simp
next
  case (Cons item items)
  from Cons.prems obtain res1 where r1: "f item res0 = Inr res1"
    and rest: "foldE f items res1 = Inr res"
    by (auto simp: bindE_Inr_iff)
  from r1 obtain m where m: "g item = Inr m" and res1: "res1 = res0(k item \<mapsto> m)"
    unfolding step bindE_Inr_iff by blast
  note IH = Cons.IH[OF rest]
  show ?case
  proof (intro conjI ballI allI impI)
    fix it assume "it \<in> set (item # items)"
    with m IH show "\<exists>m. g it = Inr m" by auto
  next
    fix x assume "x \<notin> k ` set (item # items)"
    with IH res1 show "res x = res0 x" by auto
  next
    fix x assume x: "x \<in> k ` set (item # items)"
    show "\<exists>it \<in> set (item # items). k it = x \<and> (\<exists>m. g it = Inr m \<and> res x = Some m)"
    proof (cases "x \<in> k ` set items")
      case True
      with IH show ?thesis by auto
    next
      case False
      with x have kx: "k item = x" by auto
      from False IH have "res x = res1 x" by blast
      with res1 kx m show ?thesis by auto
    qed
  qed
qed

lemma keyed_fold_total:
  assumes step: "\<And>item res. f item res = bindE (g item) (\<lambda>m. Inr (res(k item \<mapsto> m)))"
  shows "\<forall>item \<in> set items. \<exists>m. g item = Inr m \<Longrightarrow> \<exists>res. foldE f items res0 = Inr res"
proof (induction items arbitrary: res0)
  case Nil
  then show ?case by simp
next
  case (Cons item items)
  from Cons.prems obtain m where "g item = Inr m" by auto
  then have "f item res0 = Inr (res0(k item \<mapsto> m))" by (simp add: step bindE_simps)
  moreover from Cons.prems have "\<forall>item \<in> set items. \<exists>m. g item = Inr m" by simp
  from Cons.IH[OF this, of "res0(k item \<mapsto> m)"]
  obtain res where "foldE f items (res0(k item \<mapsto> m)) = Inr res" by blast
  ultimately show ?case by (simp add: bindE_simps)
qed

lemma keyed_fold_order:
  assumes step: "\<And>item res. f item res = bindE (g item) (\<lambda>m. Inr (res(k item \<mapsto> m)))"
    and same: "set items' = set items"
    and keys: "\<forall>a \<in> set items. \<forall>b \<in> set items. k a = k b \<longrightarrow> a = b"
    and run: "foldE f items res0 = Inr res"
  shows "foldE f items' res0 = Inr res"
proof -
  note s = keyed_fold_sound[of f g k, OF step run]
  from s same have "\<forall>item \<in> set items'. \<exists>m. g item = Inr m" by simp
  from keyed_fold_total[of f g k, OF step this] obtain res' where
    run': "foldE f items' res0 = Inr res'" by blast
  note s' = keyed_fold_sound[of f g k, OF step run', unfolded same]
  have "res' x = res x" for x
  proof (cases "x \<in> k ` set items")
    case False
    with s s' show ?thesis by simp
  next
    case True
    with s obtain a m where a: "a \<in> set items" "k a = x" "g a = Inr m" "res x = Some m"
      by blast
    from True s' obtain b m' where b: "b \<in> set items" "k b = x" "g b = Inr m'"
      "res' x = Some m'"
      by blast
    from a b keys have "a = b" by auto
    with a b show ?thesis by simp
  qed
  then have "res' = res" by (rule ext)
  with run' show ?thesis by simp
qed

lemma standings_group_step:
  "standings_group flt rowsets item res =
     bindE (bindE (lookup rowsets (snd item)) (\<lambda>rowset.
              foldE (standing_row flt) (elem_findall ''row'' rowset) Map.empty))
       (\<lambda>m. Inr (res(fst item \<mapsto> m)))"
  by (cases item) (simp add: standings_group_def bindE_def split: sum.splits)

lemma sheet_role_step:
  "sheet_role rowsets item roles =
     bindE (bindE (lookup rowsets (snd item)) (\<lambda>rowset.
              foldE (named_row ''roleID'' ''roleName'') (children rowset) Map.empty))
       (\<lambda>m. Inr (roles(fst item \<mapsto> m)))"
  by (cases item) (simp add: sheet_role_def bindE_def split: sum.splits)

lemma name_map_keys: "\<forall>a \<in> set name_map. \<forall>b \<in> set name_map. fst a = fst b \<longrightarrow> a = b"
  by (simp add: name_map_def)

lemma bindE_transfer_rel:
  "bindE m f = Inr y \<Longrightarrow> (\<And>x. m = Inr x \<Longrightarrow> m' = Inr x) \<Longrightarrow>
   (\<And>x. m = Inr x \<Longrightarrow> f x = Inr y \<Longrightarrow> \<exists>y'. f' x = Inr y' \<and> result y' = result y) \<Longrightarrow>
   \<exists>y'. bindE m' f' = Inr y' \<and> result y' = result y"
  by (auto simp: bindE_Inr_iff)

lemma envelope_same_result:
  "Inr (APIResult r ts ex) = Inr env \<Longrightarrow>
   \<exists>env'. Inr (APIResult r ts' ex') = Inr env' \<and> result env' = result env"
  by (auto simp: APIResult_def)

lemma notifications_same_document:
  assumes "result api_res' = result api_res" "notifications pts api_res = Inr env"
  shows "\<exists>env'. notifications pts api_res' = Inr env' \<and> result env' = result env"
  using assms(2) unfolding notifications_def assms(1)
  apply -
  apply (erule bindE_transfer_rel, assumption)+
  apply (erule envelope_same_result)
  done

lemma standings_same_document:
  assumes "result api_res' = result api_res"
    and "set items = set name_map" "set items' = set name_map"
    and "standings flt items api_res = Inr env"
  shows "\<exists>env'. standings flt items' api_res' = Inr env' \<and> result env' = result env"
proof -
  from assms(2,3) name_map_keys
  have *: "set items' = set items" "\<forall>a \<in> set items. \<forall>b \<in> set items. fst a = fst b \<longrightarrow> a = b"
    by simp_all
  have groups: "foldE (standings_group flt rowsets) items' Map.empty = Inr res"
    if "foldE (standings_group flt rowsets) items Map.empty = Inr res" for rowsets res
    using keyed_fold_order[of "standings_group flt rowsets" _ fst, OF standings_group_step * that] .
  from assms(4) show ?thesis
    unfolding standings_def assms(1)
    apply -
    apply (erule bindE_transfer_rel, (assumption | erule groups))+
    apply (erule envelope_same_result)
    done
qed

lemma character_sheet_same_document:
  assumes "result api_res' = result api_res"
    and "set corp_roles' = set corp_roles"
    and "\<forall>a \<in> set corp_roles. \<forall>b \<in> set corp_roles. fst a = fst b \<longrightarrow> a = b"
    and "character_sheet eg corp_roles api_res = Inr env"
  shows "\<exists>env'. character_sheet eg corp_roles' api_res' = Inr env' \<and> result env' = result env"
proof -
  have roles: "foldE (sheet_role rowsets) corp_roles' Map.empty = Inr roles"
    if "foldE (sheet_role rowsets) corp_roles Map.empty = Inr roles" for rowsets roles
    using keyed_fold_order[of "sheet_role rowsets" _ fst, OF sheet_role_step assms(2,3) that] .
  from assms(4) show ?thesis
    unfolding character_sheet_def Let_def assms(1)
    apply -
    apply (erule bindE_transfer_rel, (assumption | erule roles))+
    apply (erule envelope_same_result)
    done
qed

lemma standings_run:
  "\<exists>env. standings py_int name_map (envelope standings_doc) = Inr env"
  by (simp add: standings_def standings_doc_def index_rowsets_def index_rowset_def name_map_def
      standings_group_def standing_row_def run_defs)

section \<open>When the operations return\<close>

lemma returns_simps [simp]: "returns (Inr x)" "\<not> returns (Inl e)"
  by (simp_all add: returns_def)

lemma returns_iff: "returns m \<longleftrightarrow> (\<exists>y. m = Inr y)"
  by (cases m) simp_all

lemma not_returns_iff: "\<not> returns m \<longleftrightarrow> (\<exists>e. m = Inl e)"
  by (cases m) simp_all

lemma returns_bindE: "returns (bindE m f) \<longleftrightarrow> (\<exists>x. m = Inr x \<and> returns (f x))"
  by (cases m) (simp_all add: bindE_simps)

lemma returns_attr:
  "(\<exists>x. bindE (getitem a k) f = Inr x) \<longleftrightarrow>
     (case map_of a k of None \<Rightarrow> False | Some v \<Rightarrow> returns (f v))"
  by (simp add: getitem_def bindE_simps returns_iff split: option.splits)

lemma returns_getitem:
  "(\<exists>x. getitem a k = Inr x) \<longleftrightarrow> (case map_of a k of None \<Rightarrow> False | Some v \<Rightarrow> True)"
  by (simp add: getitem_def split: option.splits)

lemma foldE_returns:
  assumes "\<And>x s. returns (f x s) \<longleftrightarrow> ok x"
  shows "returns (foldE f xs s) \<longleftrightarrow> (\<forall>x \<in> set xs. ok x)"
proof (induction xs arbitrary: s)
  case Nil
  show ?case by simp
next
  case (Cons x xs)
  show ?case
  proof (cases "f x s")
    case (Inl e)
    with assms[of x s] show ?thesis by (simp add: bindE_simps)
  next
    case (Inr s')
    with assms[of x s] Cons.IH[of s'] show ?thesis by (simp add: bindE_simps)
  qed
qed

lemma mapE_returns: "returns (mapE f xs) \<longleftrightarrow> (\<forall>x \<in> set xs. returns (f x))"
proof (induction xs)
  case Nil
  show ?case by simp
next
  case (Cons x xs)
  then show ?case by (cases "f x"; cases "mapE f xs") (simp_all add: bindE_simps)
qed

lemma rows_loop_eq:
  "bindE (deref (elem_find ''rowset'' doc)) (\<lambda>rowset. g (elem_findall ''row'' rowset)) =
     (if elem_find ''rowset'' doc = None then Inl AttributeError else g (first_rows doc))"
  by (simp add: deref_def bindE_simps first_rows_def split: option.splits)

lemma rows_doc_complete_iff:
  "rows_doc_complete spec doc \<longleftrightarrow>
     elem_find ''rowset'' doc \<noteq> None \<and> (\<forall>row \<in> set (first_rows doc). reads row spec)"
  by (auto simp add: rows_doc_complete_def first_rows_def split: option.splits)

lemma rows_fold_returns:
  assumes "\<And>row s. returns (f row s) \<longleftrightarrow> reads row spec"
  shows "returns (bindE (deref (elem_find ''rowset'' doc)) (\<lambda>rowset.
            bindE (foldE f (elem_findall ''row'' rowset) s0) (\<lambda>res. Inr (g res)))) \<longleftrightarrow>
         rows_doc_complete spec doc"
  by (simp add: rows_loop_eq [where g = "\<lambda>rows. bindE (foldE f rows s0) (\<lambda>res. Inr (g res))"]
      rows_doc_complete_iff returns_bindE returns_iff [symmetric] foldE_returns [of f, OF assms])

lemma rows_map_returns:
  assumes "\<And>row. returns (f row) \<longleftrightarrow> reads row spec"
  shows "returns (bindE (deref (elem_find ''rowset'' doc)) (\<lambda>rowset.
            bindE (mapE f (elem_findall ''row'' rowset)) (\<lambda>res. Inr (g res)))) \<longleftrightarrow>
         rows_doc_complete spec doc"
  by (simp add: rows_loop_eq [where g = "\<lambda>rows. bindE (mapE f rows) (\<lambda>res. Inr (g res))"]
      rows_doc_complete_iff returns_bindE returns_iff [symmetric] mapE_returns assms)

lemma notification_row_returns:
  "returns (notification_row parse_ts row m) \<longleftrightarrow>
     reads row [(''notificationID'', accepts to_int), (''typeID'', accepts to_int),
                (''senderID'', accepts to_int), (''sentDate'', accepts parse_ts),
                (''read'', \<lambda>v. True)]"
  by (simp add: notification_row_def Let_def returns_bindE reads_def accepts_def
      returns_attr returns_getitem returns_iff [symmetric] split: option.splits)

lemma notifications_returns:
  "returns (notifications parse_ts api_res) \<longleftrightarrow>
     rows_doc_complete [(''notificationID'', accepts to_int), (''typeID'', accepts to_int),
                (''senderID'', accepts to_int), (''sentDate'', accepts parse_ts),
                (''read'', \<lambda>v. True)] (result api_res)"
  unfolding notifications_def by (rule rows_fold_returns) (rule notification_row_returns)


lemma research_row_returns:
  "returns (research_row flt parse_ts row m) \<longleftrightarrow>
     reads row [(''agentID'', accepts to_int), (''skillTypeID'', accepts to_int),
                (''researchStartDate'', accepts parse_ts),
                (''pointsPerDay'', accepts (to_float flt)),
                (''remainderPoints'', accepts (to_float flt))]"
  by (simp add: research_row_def Let_def returns_bindE reads_def accepts_def
      returns_attr returns_getitem returns_iff [symmetric] split: option.splits)

lemma research_returns:
  "returns (research flt parse_ts api_res) \<longleftrightarrow>
     rows_doc_complete [(''agentID'', accepts to_int), (''skillTypeID'', accepts to_int),
                (''researchStartDate'', accepts parse_ts),
                (''pointsPerDay'', accepts (to_float flt)),
                (''remainderPoints'', accepts (to_float flt))] (result api_res)"
  unfolding research_def by (rule rows_fold_returns) (rule research_row_returns)

lemma skill_queue_row_returns:
  "returns (skill_queue_row parse_ts row) \<longleftrightarrow>
     reads row [(''queuePosition'', accepts to_int), (''typeID'', accepts to_int),
                (''level'', accepts to_int), (''startSP'', accepts to_int),
                (''endSP'', accepts to_int), (''startTime'', accepts parse_ts),
                (''endTime'', accepts parse_ts)]"
  by (simp add: skill_queue_row_def Let_def returns_bindE reads_def accepts_def
      returns_attr returns_getitem returns_iff [symmetric] split: option.splits)

lemma skill_queue_returns:
  "returns (skill_queue parse_ts api_res) \<longleftrightarrow>
     rows_doc_complete [(''queuePosition'', accepts to_int), (''typeID'', accepts to_int),
                (''level'', accepts to_int), (''startSP'', accepts to_int),
                (''endSP'', accepts to_int), (''startTime'', accepts parse_ts),
                (''endTime'', accepts parse_ts)] (result api_res)"
  unfolding skill_queue_def by (rule rows_map_returns) (rule skill_queue_row_returns)

lemma mailing_list_row_returns:
  "returns (mailing_list_row row m) \<longleftrightarrow>
     reads row [(''displayName'', \<lambda>v. True), (''listID'', accepts to_int)]"
  by (simp add: mailing_list_row_def Let_def returns_bindE reads_def accepts_def
      returns_attr returns_getitem returns_iff [symmetric] split: option.splits)

lemma mailing_lists_returns:
  "returns (mailing_lists api_res) \<longleftrightarrow>
     rows_doc_complete [(''displayName'', \<lambda>v. True), (''listID'', accepts to_int)]
       (result api_res)"
  unfolding mailing_lists_def by (rule rows_fold_returns) (rule mailing_list_row_returns)

lemma contact_notification_row_returns:
  "returns (contact_notification_row parse_ts parse_keyval_data row m) \<longleftrightarrow>
     reads row [(''notificationID'', accepts to_int), (''senderID'', accepts to_int),
                (''senderName'', \<lambda>v. True), (''sentDate'', accepts parse_ts),
                (''messageData'', accepts (\<lambda>d. parse_keyval_data (Some d)))]"
  by (simp add: contact_notification_row_def Let_def returns_bindE reads_def accepts_def
      returns_attr returns_getitem returns_iff [symmetric] split: option.splits)

lemma contact_notifications_returns:
  "returns (contact_notifications parse_ts parse_keyval_data api_res) \<longleftrightarrow>
     rows_doc_complete [(''notificationID'', accepts to_int), (''senderID'', accepts to_int),
                (''senderName'', \<lambda>v. True), (''sentDate'', accepts parse_ts),
                (''messageData'', accepts (\<lambda>d. parse_keyval_data (Some d)))] (result api_res)"
  unfolding contact_notifications_def
  by (rule rows_fold_returns) (rule contact_notification_row_returns)

lemma calendar_event_row_returns:
  "returns (calendar_event_row parse_ts row m) \<longleftrightarrow>
     reads row [(''eventID'', accepts to_int), (''ownerID'', accepts to_int),
                (''ownerName'', \<lambda>v. True), (''eventDate'', accepts parse_ts),
                (''eventTitle'', \<lambda>v. True), (''duration'', accepts to_int),
                (''importance'', \<lambda>v. True), (''eventText'', \<lambda>v. True),
                (''response'', \<lambda>v. True)]"
  by (simp add: calendar_event_row_def Let_def returns_bindE reads_def accepts_def
      returns_attr returns_getitem returns_iff [symmetric] split: option.splits)

lemma calendar_events_returns:
  "returns (calendar_events parse_ts api_res) \<longleftrightarrow>
     rows_doc_complete [(''eventID'', accepts to_int), (''ownerID'', accepts to_int),
                (''ownerName'', \<lambda>v. True), (''eventDate'', accepts parse_ts),
                (''eventTitle'', \<lambda>v. True), (''duration'', accepts to_int),
                (''importance'', \<lambda>v. True), (''eventText'', \<lambda>v. True),
                (''response'', \<lambda>v. True)] (result api_res)"
  unfolding calendar_events_def by (rule rows_fold_returns) (rule calendar_event_row_returns)

lemma attendee_row_returns:
  "returns (attendee_row row m) \<longleftrightarrow>
     reads row [(''characterID'', accepts to_int), (''characterName'', \<lambda>v. True),
                (''response'', \<lambda>v. True), (''eventID'', accepts to_int)]"
  by (simp add: attendee_row_def Let_def returns_bindE reads_def accepts_def
      returns_attr returns_getitem returns_iff [symmetric] split: option.splits)

lemma calendar_attendees_returns:
  "returns (calendar_attendees event_ids api_res) \<longleftrightarrow>
     rows_doc_complete [(''characterID'', accepts to_int), (''characterName'', \<lambda>v. True),
                (''response'', \<lambda>v. True), (''eventID'', accepts to_int)] (result api_res)"
  unfolding calendar_attendees_def Let_def
  by (rule rows_fold_returns) (rule attendee_row_returns)

lemma location_row_returns:
  "returns (location_row flt row m) \<longleftrightarrow>
     reads row [(''itemName'', \<lambda>v. True), (''itemID'', accepts to_int),
                (''x'', accepts (to_float flt)), (''y'', accepts (to_float flt)),
                (''z'', accepts (to_float flt))]"
  by (simp add: location_row_def Let_def returns_bindE reads_def accepts_def
      returns_attr returns_getitem returns_iff [symmetric] split: option.splits)

lemma locations_returns:
  "returns (locations flt location_list api_res) \<longleftrightarrow>
     rows_doc_complete [(''itemName'', \<lambda>v. True), (''itemID'', accepts to_int),
                (''x'', accepts (to_float flt)), (''y'', accepts (to_float flt)),
                (''z'', accepts (to_float flt))] (result api_res)"
  unfolding locations_def by (rule rows_fold_returns) (rule location_row_returns)

lemma wallet_info_returns:
  "returns (wallet_info flt api_res) \<longleftrightarrow> wallet_doc_complete flt (result api_res)"
  by (simp add: wallet_info_def wallet_doc_complete_def returns_bindE reads_def accepts_def
      deref_def returns_attr returns_iff [symmetric] split: option.splits)

lemma wallet_balance_returns:
  "returns (wallet_balance flt api_res) \<longleftrightarrow> wallet_doc_complete flt (result api_res)"
  by (simp add: wallet_balance_def returns_bindE returns_iff [symmetric] wallet_info_returns)

lemma rows_fold_returns':
  assumes "\<And>row s. returns (f row s) \<longleftrightarrow> ok row"
  shows "returns (bindE (deref (elem_find ''rowset'' doc)) (\<lambda>rowset.
            bindE (foldE f (elem_findall ''row'' rowset) s0) g)) \<longleftrightarrow>
         elem_find ''rowset'' doc \<noteq> None \<and>
         (\<exists>s. foldE f (first_rows doc) s0 = Inr s \<and> returns (g s))"
  by (simp add: rows_loop_eq [where g = "\<lambda>rows. bindE (foldE f rows s0) g"] returns_bindE)

lemma id_list_returns: "returns (id_list s) \<longleftrightarrow> s = [] \<or> int_list_text s"
  by (simp add: id_list_def int_list_text_def returns_bindE returns_iff [symmetric]
      mapE_returns accepts_def)

lemma rows_then_returns:
  assumes "\<And>row s. returns (f row s) \<longleftrightarrow> ok row" and "\<And>s. returns (g s) \<longleftrightarrow> G"
  shows "returns (bindE (deref (elem_find ''rowset'' doc)) (\<lambda>rowset.
            bindE (foldE f (elem_findall ''row'' rowset) s0) g)) \<longleftrightarrow>
         elem_find ''rowset'' doc \<noteq> None \<and> (\<forall>row \<in> set (first_rows doc). ok row) \<and> G"
proof -
  have "(\<exists>s. foldE f (first_rows doc) s0 = Inr s \<and> returns (g s)) \<longleftrightarrow>
      returns (foldE f (first_rows doc) s0) \<and> G"
    using assms(2) by (cases "foldE f (first_rows doc) s0") auto
  then show ?thesis
    by (simp add: rows_fold_returns' [OF assms(1)] foldE_returns [of f, OF assms(1)])
qed

lemma optional_int_returns:
  "returns (if v \<noteq> [] then bindE (to_int v) (\<lambda>n. Inr (Some n)) else Inr None) \<longleftrightarrow>
     v = [] \<or> accepts to_int v"
  by (simp add: returns_bindE returns_iff [symmetric] accepts_def)

lemma bindE_assoc_const: "bindE m (\<lambda>v. bindE (h v) g) = bindE (bindE m h) g"
  by (cases m) (simp_all add: bindE_simps)

lemma message_row_returns:
  "returns (message_row parse_ts row) \<longleftrightarrow>
     reads row [(''messageID'', accepts to_int), (''senderID'', accepts to_int),
                (''sentDate'', accepts parse_ts), (''title'', \<lambda>v. True),
                (''toCorpOrAllianceID'', \<lambda>v. v = [] \<or> accepts to_int v),
                (''toCharacterIDs'', \<lambda>v. v = [] \<or> int_list_text v),
                (''toListID'', \<lambda>v. v = [] \<or> int_list_text v)]"
  unfolding message_row_def Let_def bindE_assoc_const
  by (auto simp add: returns_bindE reads_def accepts_def returns_attr returns_getitem
      returns_iff [symmetric] optional_int_returns id_list_returns split: option.splits)

lemma messages_returns:
  "returns (messages parse_ts api_res) \<longleftrightarrow>
     rows_doc_complete [(''messageID'', accepts to_int), (''senderID'', accepts to_int),
                (''sentDate'', accepts parse_ts), (''title'', \<lambda>v. True),
                (''toCorpOrAllianceID'', \<lambda>v. v = [] \<or> accepts to_int v),
                (''toCharacterIDs'', \<lambda>v. v = [] \<or> int_list_text v),
                (''toListID'', \<lambda>v. v = [] \<or> int_list_text v)] (result api_res)"
  unfolding messages_def by (rule rows_map_returns) (rule message_row_returns)

lemma message_body_row_returns:
  "returns (message_body_row row m) \<longleftrightarrow> reads row [(''messageID'', accepts to_int)]"
  by (simp add: message_body_row_def Let_def returns_bindE reads_def accepts_def
      returns_attr returns_getitem returns_iff [symmetric] split: option.splits)

lemma message_bodies_returns:
  "returns (message_bodies message_ids api_res) \<longleftrightarrow>
     rows_doc_complete [(''messageID'', accepts to_int)] (result api_res) \<and>
     missing_ok ''missingMessageIDs'' int_list_text (result api_res)"
  unfolding message_bodies_def rows_doc_complete_iff conj_assoc
proof (rule rows_then_returns [OF message_body_row_returns])
  fix s :: "int \<rightharpoonup> string option"
  show "returns (bindE (case elem_find ''missingMessageIDs'' (result api_res) of
              None \<Rightarrow> Inr s
            | Some missing_set \<Rightarrow>
                (case elem_text missing_set of
                   None \<Rightarrow> Inl AttributeError
                 | Some t \<Rightarrow>
                     bindE (mapE to_int (split_on CHR '','' t)) (\<lambda>missing_ids.
                     Inr (fold (\<lambda>missing_id r. r(missing_id \<mapsto> None)) missing_ids
                            s)))) (\<lambda>results'.
     Inr (APIResult results' (timestamp api_res) (expires api_res)))) \<longleftrightarrow>
     missing_ok ''missingMessageIDs'' int_list_text (result api_res)"
    by (simp add: returns_bindE returns_iff [symmetric] missing_ok_def int_list_text_def
        mapE_returns accepts_def split: option.splits)
qed

lemma notification_text_row_returns:
  "returns (notification_text_row parse_keyval_data row m) \<longleftrightarrow>
     reads row [(''notificationID'', accepts to_int)] \<and>
     returns (parse_keyval_data (elem_text row))"
  by (simp add: notification_text_row_def Let_def returns_bindE reads_def accepts_def
      returns_attr returns_getitem returns_iff [symmetric] split: option.splits)

lemma notification_texts_returns:
  "returns (notification_texts parse_keyval_data notification_ids api_res) \<longleftrightarrow>
     elem_find ''rowset'' (result api_res) \<noteq> None \<and>
     (\<forall>row \<in> set (first_rows (result api_res)).
        reads row [(''notificationID'', accepts to_int)] \<and>
        returns (parse_keyval_data (elem_text row))) \<and>
     missing_ok ''missingIDs'' (\<lambda>s. True) (result api_res)"
  unfolding notification_texts_def
proof (rule rows_then_returns [where f = "notification_text_row parse_keyval_data",
      OF notification_text_row_returns])
  fix s :: "pykey \<rightharpoonup> (string \<rightharpoonup> 'a field) option"
  show "returns (bindE (case elem_find ''missingIDs'' (result api_res) of
              None \<Rightarrow> Inr s
            | Some missing_ids \<Rightarrow>
                (case elem_text missing_ids of
                   None \<Rightarrow> Inl AttributeError
                 | Some t \<Rightarrow>
                     Inr (fold (\<lambda>missing_id r. r(StrKey missing_id \<mapsto> None))
                            (split_on CHR '','' t) s))) (\<lambda>res'.
     Inr (APIResult res' (timestamp api_res) (expires api_res)))) \<longleftrightarrow>
     missing_ok ''missingIDs'' (\<lambda>s. True) (result api_res)"
    by (simp add: returns_bindE returns_iff [symmetric] missing_ok_def split: option.splits)
qed

lemma standing_row_returns:
  "returns (standing_row flt row m) \<longleftrightarrow>
     reads row [(''fromID'', accepts to_int), (''fromName'', \<lambda>v. True),
                (''standing'', accepts (to_float flt))]"
  by (simp add: standing_row_def Let_def returns_bindE reads_def accepts_def
      returns_attr returns_getitem returns_iff [symmetric] split: option.splits)

lemma index_rowset_returns: "returns (index_rowset r m) \<longleftrightarrow> \<not> lacks r [''name'']"
  by (simp add: index_rowset_def returns_bindE returns_getitem lacks_def
      returns_iff [symmetric] split: option.splits)

lemma index_rowsets_Inr_iff:
  "index_rowsets rs = Inr rowsets \<longleftrightarrow>
     (\<forall>r \<in> set rs. \<not> lacks r [''name'']) \<and> rowsets = (\<lambda>n. rowset_named n rs)"
proof
  assume run: "index_rowsets rs = Inr rowsets"
  then have "returns (foldE index_rowset rs Map.empty)" by (simp add: index_rowsets_def)
  then have "\<forall>r \<in> set rs. \<not> lacks r [''name'']"
    by (simp add: foldE_returns [of index_rowset, OF index_rowset_returns])
  moreover have "rowsets = (\<lambda>n. rowset_named n rs)"
    by (rule ext) (rule index_rowsets_named [OF run])
  ultimately show "(\<forall>r \<in> set rs. \<not> lacks r [''name'']) \<and> rowsets = (\<lambda>n. rowset_named n rs)"
    by simp
next
  assume a: "(\<forall>r \<in> set rs. \<not> lacks r [''name'']) \<and> rowsets = (\<lambda>n. rowset_named n rs)"
  then have "returns (foldE index_rowset rs Map.empty)"
    by (simp add: foldE_returns [of index_rowset, OF index_rowset_returns])
  then obtain m where m: "index_rowsets rs = Inr m"
    by (auto simp: returns_iff index_rowsets_def)
  have "m = (\<lambda>n. rowset_named n rs)" by (rule ext) (rule index_rowsets_named [OF m])
  with m a show "index_rowsets rs = Inr rowsets" by simp
qed

lemma standings_group_returns:
  "returns (standings_group flt rowsets item res) \<longleftrightarrow>
     (case rowsets (snd item) of
        None \<Rightarrow> False
      | Some rowset \<Rightarrow>
          \<forall>row \<in> set (elem_findall ''row'' rowset).
            reads row [(''fromID'', accepts to_int), (''fromName'', \<lambda>v. True),
                       (''standing'', accepts (to_float flt))])"
  by (cases item)
    (simp add: standings_group_def returns_bindE lookup_def returns_iff [symmetric]
      foldE_returns [of "standing_row flt", OF standing_row_returns] split: option.splits)

lemma standings_returns:
  assumes "set items = set name_map"
  shows "returns (standings flt items api_res) \<longleftrightarrow> standings_doc_complete flt (result api_res)"
proof (cases "elem_find ''characterNPCStandings'' (result api_res)")
  case None
  then show ?thesis
    by (simp add: standings_def standings_doc_complete_def deref_def bindE_simps)
next
  case (Some c)
  show ?thesis
    unfolding standings_def standings_doc_complete_def
    by (simp add: Some deref_def bindE_simps returns_bindE index_rowsets_Inr_iff
        returns_iff [symmetric]
        foldE_returns [of "standings_group flt _", OF standings_group_returns] assms)
qed

lemma medal_row_returns:
  "returns (medal_row name row res) \<longleftrightarrow>
     reads row [(''medalID'', accepts to_int), (''reason'', \<lambda>v. True),
                (''status'', \<lambda>v. True), (''issuerID'', accepts to_int),
                (''corporationID'', accepts to_int), (''title'', \<lambda>v. True),
                (''description'', \<lambda>v. True)] \<and> res name \<noteq> None"
  by (simp add: medal_row_def Let_def returns_bindE reads_def accepts_def lookup_def
      returns_attr returns_getitem returns_iff [symmetric] split: option.splits)

lemma medal_row_keys:
  "medal_row name row res = Inr res' \<Longrightarrow> res k \<noteq> None \<Longrightarrow> res' k \<noteq> None"
  by (auto simp: medal_row_def Let_def bindE_Inr_iff)

lemma medal_rows_keys:
  "foldE (medal_row name) rows res = Inr res' \<Longrightarrow> res k \<noteq> None \<Longrightarrow> res' k \<noteq> None"
proof (induction rows arbitrary: res)
  case Nil
  then show ?case by simp
next
  case (Cons row rows)
  from Cons.prems(1) obtain res1 where 1: "medal_row name row res = Inr res1"
    and 2: "foldE (medal_row name) rows res1 = Inr res'"
    by (auto simp: bindE_Inr_iff)
  from Cons.IH [OF 2 medal_row_keys [OF 1 Cons.prems(2)]] show ?case .
qed

lemma medal_rows_returns:
  "res name \<noteq> None \<Longrightarrow>
   returns (foldE (medal_row name) rows res) \<longleftrightarrow>
     (\<forall>row \<in> set rows.
        reads row [(''medalID'', accepts to_int), (''reason'', \<lambda>v. True),
                   (''status'', \<lambda>v. True), (''issuerID'', accepts to_int),
                   (''corporationID'', accepts to_int), (''title'', \<lambda>v. True),
                   (''description'', \<lambda>v. True)])"
proof (induction rows arbitrary: res)
  case Nil
  show ?case by simp
next
  case (Cons row rows)
  show ?case
  proof (cases "medal_row name row res")
    case (Inl e)
    with medal_row_returns [of name row res] Cons.prems show ?thesis
      by (simp add: bindE_simps)
  next
    case (Inr res1)
    from medal_row_keys [OF Inr Cons.prems] have "res1 name \<noteq> None" .
    with Cons.IH [of res1] Inr medal_row_returns [of name row res] Cons.prems
    show ?thesis by (simp add: bindE_simps)
  qed
qed

lemma medal_map_range: "medal_map n = Some g \<Longrightarrow> g = ''current'' \<or> g = ''other''"
  by (auto simp: medal_map_def split: if_splits)

lemma medal_rowsets_returns:
  "res ''current'' \<noteq> None \<Longrightarrow> res ''other'' \<noteq> None \<Longrightarrow>
   returns (foldE medal_rowset rowsets res) \<longleftrightarrow>
     (\<forall>rowset \<in> set rowsets.
        (case map_of (attrib rowset) ''name'' of
           None \<Rightarrow> False
         | Some n \<Rightarrow> medal_map n \<noteq> None) \<and>
        (\<forall>row \<in> set (elem_findall ''row'' rowset).
           reads row [(''medalID'', accepts to_int), (''reason'', \<lambda>v. True),
                      (''status'', \<lambda>v. True), (''issuerID'', accepts to_int),
                      (''corporationID'', accepts to_int), (''title'', \<lambda>v. True),
                      (''description'', \<lambda>v. True)]))"
proof (induction rowsets arbitrary: res)
  case Nil
  show ?case by simp
next
  case (Cons rowset rowsets)
  let ?ok = "\<lambda>rowset. (case map_of (attrib rowset) ''name'' of
           None \<Rightarrow> False
         | Some n \<Rightarrow> medal_map n \<noteq> None) \<and>
        (\<forall>row \<in> set (elem_findall ''row'' rowset).
           reads row [(''medalID'', accepts to_int), (''reason'', \<lambda>v. True),
                      (''status'', \<lambda>v. True), (''issuerID'', accepts to_int),
                      (''corporationID'', accepts to_int), (''title'', \<lambda>v. True),
                      (''description'', \<lambda>v. True)])"
  have step: "returns (medal_rowset rowset res) \<longleftrightarrow> ?ok rowset"
  proof (cases "map_of (attrib rowset) ''name''")
    case None
    then show ?thesis by (simp add: medal_rowset_def getitem_def bindE_simps)
  next
    case (Some n)
    show ?thesis
    proof (cases "medal_map n")
      case None
      with Some show ?thesis by (simp add: medal_rowset_def getitem_def bindE_simps lookup_def)
    next
      case (Some g)
      from medal_map_range [OF this] Cons.prems have "res g \<noteq> None" by auto
      with medal_rows_returns [of res g "elem_findall ''row'' rowset"] Some
        \<open>map_of (attrib rowset) ''name'' = Some n\<close>
      show ?thesis by (simp add: medal_rowset_def getitem_def bindE_simps lookup_def)
    qed
  qed
  show ?case
  proof (cases "medal_rowset rowset res")
    case (Inl e)
    with step show ?thesis by (simp add: bindE_simps)
  next
    case (Inr res1)
    then obtain n g where "foldE (medal_row g) (elem_findall ''row'' rowset) res = Inr res1"
      by (auto simp: medal_rowset_def bindE_Inr_iff)
    from medal_rows_keys [OF this] Cons.prems
    have "res1 ''current'' \<noteq> None" "res1 ''other'' \<noteq> None" by blast+
    with Cons.IH [of res1] Inr step show ?thesis by (simp add: bindE_simps)
  qed
qed

lemma medals_returns: "returns (medals api_res) \<longleftrightarrow> medals_doc_complete (result api_res)"
  by (simp add: medals_def medals_doc_complete_def returns_bindE returns_iff [symmetric]
      medal_rowsets_returns)

lemma sheet_attribute_returns:
  "returns (sheet_attribute doc attr attrs) \<longleftrightarrow> attribute_ok doc attr"
  by (simp add: sheet_attribute_def attribute_ok_def returns_bindE returns_iff [symmetric]
      split: option.splits)

lemma skill_row_returns:
  "returns (skill_row row acc) \<longleftrightarrow>
     reads row [(''skillpoints'', accepts to_int), (''typeID'', accepts to_int),
                (''level'', accepts to_int), (''published'', \<lambda>v. True)]"
  by (cases acc)
    (simp add: skill_row_def Let_def returns_bindE reads_def accepts_def
      returns_attr returns_getitem returns_iff [symmetric] split: option.splits)

lemma certificate_row_returns:
  "returns (certificate_row row acc) \<longleftrightarrow> reads row [(''certificateID'', accepts to_int)]"
  by (simp add: certificate_row_def Let_def returns_bindE reads_def accepts_def
      returns_attr returns_getitem returns_iff [symmetric] split: option.splits)

lemma named_row_returns:
  "returns (named_row id_attr name_attr row m) \<longleftrightarrow>
     reads row [(id_attr, accepts to_int), (name_attr, \<lambda>v. True)]"
  by (simp add: named_row_def Let_def returns_bindE reads_def accepts_def
      returns_attr returns_getitem returns_iff [symmetric] split: option.splits)

lemma sheet_role_returns:
  "returns (sheet_role rowsets item roles) \<longleftrightarrow>
     (case rowsets (snd item) of
        None \<Rightarrow> False
      | Some rowset \<Rightarrow>
          \<forall>row \<in> set (children rowset).
            reads row [(''roleID'', accepts to_int), (''roleName'', \<lambda>v. True)])"
  by (cases item)
    (simp add: sheet_role_def returns_bindE lookup_def returns_iff [symmetric]
      foldE_returns [of "named_row ''roleID'' ''roleName''", OF named_row_returns]
      split: option.splits)

lemma character_sheet_returns:
  "returns (character_sheet elem_getters corp_roles api_res) \<longleftrightarrow>
     (\<forall>q \<in> set [(AsInt, ''characterID''), (AsStr, ''name''), (AsTs, ''DoB''), (AsStr, ''race''),
                 (AsStr, ''bloodLine''), (AsStr, ''ancestry''), (AsStr, ''gender''),
                 (AsInt, ''corporationID''), (AsStr, ''corporationName''),
                 (AsInt, ''allianceID''), (AsStr, ''allianceName''), (AsStr, ''cloneName''),
                 (AsInt, ''cloneSkillPoints''), (AsFloat, ''balance'')].
        answers (elem_getters (result api_res)) q) \<and>
     sheet_doc_complete corp_roles (result api_res)"
  unfolding character_sheet_def Let_def sheet_doc_complete_def sheet_rows_read_def
  by (simp add: returns_bindE returns_iff [symmetric] answers_def index_rowsets_Inr_iff
      lookup_def sheet_rows_def
      foldE_returns [of "sheet_attribute _", OF sheet_attribute_returns]
      foldE_returns [of skill_row, OF skill_row_returns]
      foldE_returns [of certificate_row, OF certificate_row_returns]
      foldE_returns [of "named_row _ _", OF named_row_returns]
      foldE_returns [of "sheet_role _", OF sheet_role_returns]
      del: foldE.simps split_paired_Ex split: option.splits)

lemma current_training_returns:
  "returns (current_training elem_getters api_res) \<longleftrightarrow>
     (\<forall>q \<in> set [(AsTs, ''trainingStartTime''), (AsTs, ''trainingEndTime''),
                 (AsInt, ''trainingTypeID''), (AsInt, ''trainingStartSP''),
                 (AsInt, ''trainingDestinationSP''), (AsTs, ''currentTQTime''),
                 (AsInt, ''trainingToLevel''), (AsBool, ''skillInTraining'')].
        answers (elem_getters (result api_res)) q)"
  by (simp add: current_training_def Let_def returns_bindE returns_iff [symmetric] answers_def)

lemma faction_warfare_stats_returns:
  "returns (faction_warfare_stats elem_getters api_res) \<longleftrightarrow>
     (\<forall>q \<in> set [(AsInt, ''factionID''), (AsStr, ''factionName''), (AsTs, ''enlisted''),
                 (AsInt, ''currentRank''), (AsInt, ''highestRank''),
                 (AsInt, ''killsYesterday''), (AsInt, ''killsLastWeek''),
                 (AsInt, ''killsTotal''), (AsInt, ''victoryPointsYesterday''),
                 (AsInt, ''victoryPointsLastWeek''), (AsInt, ''victoryPointsTotal'')].
        answers (elem_getters (result api_res)) q)"
  by (simp add: faction_warfare_stats_def Let_def returns_bindE returns_iff [symmetric]
      answers_def)

lemma attendees_keys:
  assumes "calendar_attendees event_ids api_res = Inr r"
  shows "result r k \<noteq> None \<longleftrightarrow>
     k \<in> set event_ids \<or>
     (\<exists>row \<in> set (first_rows (result api_res)). \<exists>e. row_int row ''eventID'' = Inr e \<and> k = IntKey e)"
proof -
  define m0 where "m0 = fold (\<lambda>event_id r. r(event_id \<mapsto> Map.empty)) event_ids
    (Map.empty :: pykey \<rightharpoonup> (int \<rightharpoonup> attendee))"
  from assms obtain m where run: "foldE attendee_row (first_rows (result api_res)) m0 = Inr m"
    and r: "result r = m"
    by (auto simp: calendar_attendees_Inr APIResult_def m0_def)
  have m0: "m0 k = (if k \<in> set event_ids then Some Map.empty else None)"
    unfolding m0_def by (simp add: requested_keys)
  show ?thesis
  proof (cases "\<exists>row \<in> set (first_rows (result api_res)). \<exists>e.
      row_int row ''eventID'' = Inr e \<and> k = IntKey e")
    case True
    then obtain row e where row: "row \<in> set (first_rows (result api_res))"
      and e: "row_int row ''eventID'' = Inr e" "k = IntKey e"
      by blast
    from attendees_fold_rows [OF run row] e r have "result r k \<noteq> None" by auto
    with True show ?thesis by blast
  next
    case False
    then have "\<forall>row \<in> set (first_rows (result api_res)). \<forall>e.
        row_int row ''eventID'' = Inr e \<longrightarrow> IntKey e \<noteq> k"
      by blast
    from attendees_fold_untouched [OF run this] m0 r False show ?thesis by simp
  qed
qed

lemma event_attendees_returns:
  "returns (event_attendees event_id api_res) \<longleftrightarrow>
     rows_doc_complete [(''characterID'', accepts to_int), (''characterName'', \<lambda>v. True),
                (''response'', \<lambda>v. True), (''eventID'', accepts to_int)] (result api_res) \<and>
     (case key_int event_id of
        Inl e \<Rightarrow> False
      | Inr n \<Rightarrow>
          event_id = IntKey n \<or>
          (\<exists>row \<in> set (first_rows (result api_res)). row_int row ''eventID'' = Inr n))"
proof (cases "calendar_attendees [event_id] api_res")
  case (Inl e)
  then have "\<not> returns (calendar_attendees [event_id] api_res)" by simp
  then have "\<not> rows_doc_complete [(''characterID'', accepts to_int),
      (''characterName'', \<lambda>v. True), (''response'', \<lambda>v. True), (''eventID'', accepts to_int)]
      (result api_res)"
    by (simp add: calendar_attendees_returns)
  with Inl show ?thesis
    by (simp add: event_attendees_def bindE_simps)
next
  case (Inr r)
  then have "returns (calendar_attendees [event_id] api_res)" by simp
  then have c: "rows_doc_complete [(''characterID'', accepts to_int), (''characterName'', \<lambda>v. True),
                (''response'', \<lambda>v. True), (''eventID'', accepts to_int)] (result api_res)"
    by (simp add: calendar_attendees_returns)
  show ?thesis
  proof (cases "key_int event_id")
    case (Inl e)
    with Inr show ?thesis by (simp add: event_attendees_def bindE_simps)
  next
    case n: (Inr n)
    from attendees_keys [OF Inr, of "IntKey n"]
    have "result r (IntKey n) \<noteq> None \<longleftrightarrow>
      event_id = IntKey n \<or>
      (\<exists>row \<in> set (first_rows (result api_res)). row_int row ''eventID'' = Inr n)"
      by auto
    with Inr n c show ?thesis
      by (auto simp add: event_attendees_def bindE_simps split: option.splits)
  qed
qed

lemma contract_bids_eq:
  "contract_bids parse api_res =
     map_sum id (\<lambda>r. \<lparr>result = r, timestamp = timestamp api_res, expires = expires api_res\<rparr>)
       (parse (result api_res))"
  by (cases "parse (result api_res)") (simp_all add: contract_bids_def bindE_simps APIResult_def)

section \<open>Failing on what is missing\<close>

lemma lacks_not_reads: "lacks row (map fst spec) \<Longrightarrow> \<not> reads row spec"
  by (fastforce simp: lacks_def reads_def)

lemma incomplete_not_complete:
  "rows_doc_incomplete (map fst spec) doc \<Longrightarrow> \<not> rows_doc_complete spec doc"
  by (auto simp: rows_doc_incomplete_def rows_doc_complete_def dest: lacks_not_reads
      split: option.splits)

lemma rows_op_fails:
  assumes "returns out \<longleftrightarrow> rows_doc_complete spec doc" "rows_doc_incomplete (map fst spec) doc"
  shows "\<exists>e. out = Inl e"
  using assms incomplete_not_complete [of spec doc] by (simp add: not_returns_iff [symmetric])

lemma research_fails:
  "rows_doc_incomplete [''agentID'', ''skillTypeID'', ''researchStartDate'', ''pointsPerDay'',
      ''remainderPoints''] (result api_res)
   \<Longrightarrow> \<exists>e. research flt parse_ts api_res = Inl e"
  by (rule rows_op_fails [OF research_returns]) simp

lemma skill_queue_fails:
  "rows_doc_incomplete [''queuePosition'', ''typeID'', ''level'', ''startSP'', ''endSP'',
      ''startTime'', ''endTime''] (result api_res)
   \<Longrightarrow> \<exists>e. skill_queue parse_ts api_res = Inl e"
  by (rule rows_op_fails [OF skill_queue_returns]) simp

lemma mailing_lists_fails:
  "rows_doc_incomplete [''displayName'', ''listID''] (result api_res)
   \<Longrightarrow> \<exists>e. mailing_lists api_res = Inl e"
  by (rule rows_op_fails [OF mailing_lists_returns]) simp

lemma contact_notifications_fails:
  "rows_doc_incomplete [''notificationID'', ''senderID'', ''senderName'', ''sentDate'',
      ''messageData''] (result api_res)
   \<Longrightarrow> \<exists>e. contact_notifications parse_ts parse_keyval_data api_res = Inl e"
  by (rule rows_op_fails [OF contact_notifications_returns]) simp

lemma event_attendees_fails:
  assumes "rows_doc_incomplete [''characterID'', ''characterName'', ''response'', ''eventID'']
      (result api_res)"
  shows "\<exists>e. event_attendees event_id api_res = Inl e"
proof -
  from calendar_attendees_fails [OF assms] obtain e
    where "calendar_attendees [event_id] api_res = Inl e" by blast
  then show ?thesis by (simp add: event_attendees_def bindE_simps)
qed

lemma wallet_balance_fails:
  assumes "wallet_doc_incomplete (result api_res)"
  shows "\<exists>e. wallet_balance flt api_res = Inl e"
proof -
  from wallet_info_fails [OF assms] obtain e where "wallet_info flt api_res = Inl e" by blast
  then show ?thesis by (simp add: wallet_balance_def bindE_simps)
qed

lemma sheet_rows_lack_not_read:
  "sheet_rows_lack n (map fst spec) doc \<Longrightarrow> \<not> sheet_rows_read n spec doc"
  by (auto simp: sheet_rows_lack_def sheet_rows_read_def dest: lacks_not_reads
      split: option.splits)

lemma sheet_incomplete_not_complete:
  assumes "sheet_doc_incomplete corp_roles doc"
  shows "\<not> sheet_doc_complete corp_roles doc"
proof
  assume "sheet_doc_complete corp_roles doc"
  then have c: "\<forall>rowset \<in> set (elem_findall ''rowset'' doc). \<not> lacks rowset [''name'']"
    "sheet_rows_read ''skills''
        [(''skillpoints'', accepts to_int), (''typeID'', accepts to_int),
         (''level'', accepts to_int), (''published'', \<lambda>v. True)] doc"
    "sheet_rows_read ''certificates'' [(''certificateID'', accepts to_int)] doc"
    "\<forall>item \<in> set corp_roles.
         sheet_rows_read (snd item) [(''roleID'', accepts to_int), (''roleName'', \<lambda>v. True)] doc"
    "sheet_rows_read ''corporationTitles''
        [(''titleID'', accepts to_int), (''titleName'', \<lambda>v. True)] doc"
    unfolding sheet_doc_complete_def by blast+
  have 1: "\<not> sheet_rows_lack ''skills'' [''skillpoints'', ''typeID'', ''level'', ''published''] doc"
    using c(2) sheet_rows_lack_not_read [of "''skills''"
        "[(''skillpoints'', accepts to_int), (''typeID'', accepts to_int),
         (''level'', accepts to_int), (''published'', \<lambda>v. True)]" doc]
    by auto
  have 2: "\<not> sheet_rows_lack ''certificates'' [''certificateID''] doc"
    using c(3) sheet_rows_lack_not_read [of "''certificates''"
        "[(''certificateID'', accepts to_int)]" doc]
    by auto
  have 3: "\<not> sheet_rows_lack (snd item) [''roleID'', ''roleName''] doc"
    if "item \<in> set corp_roles" for item
    using c(4) that sheet_rows_lack_not_read [of "snd item"
        "[(''roleID'', accepts to_int), (''roleName'', \<lambda>v. True)]" doc]
    by auto
  have 4: "\<not> sheet_rows_lack ''corporationTitles'' [''titleID'', ''titleName''] doc"
    using c(5) sheet_rows_lack_not_read [of "''corporationTitles''"
        "[(''titleID'', accepts to_int), (''titleName'', \<lambda>v. True)]" doc]
    by auto
  from assms c(1) 1 2 3 4 show False unfolding sheet_doc_incomplete_def by blast
qed

lemma character_sheet_fails:
  "sheet_doc_incomplete corp_roles (result api_res)
   \<Longrightarrow> \<exists>e. character_sheet elem_getters corp_roles api_res = Inl e"
  using sheet_incomplete_not_complete [of corp_roles "result api_res"]
  by (simp add: not_returns_iff [symmetric] character_sheet_returns)

lemma medals_incomplete_not_complete:
  assumes "medals_doc_incomplete doc"
  shows "\<not> medals_doc_complete doc"
proof
  assume c: "medals_doc_complete doc"
  let ?spec = "[(''medalID'', accepts to_int), (''reason'', \<lambda>v. True),
                      (''status'', \<lambda>v. True), (''issuerID'', accepts to_int),
                      (''corporationID'', accepts to_int), (''title'', \<lambda>v. True),
                      (''description'', \<lambda>v. True)]"
  from assms obtain rowset where rowset: "rowset \<in> set (elem_findall ''rowset'' doc)"
    and bad: "lacks rowset [''name''] \<or>
        (\<exists>row \<in> set (elem_findall ''row'' rowset). lacks row (map fst ?spec))"
    unfolding medals_doc_incomplete_def by auto
  from c rowset have name: "map_of (attrib rowset) ''name'' \<noteq> None"
    and rows: "\<forall>row \<in> set (elem_findall ''row'' rowset). reads row ?spec"
    unfolding medals_doc_complete_def by (auto split: option.splits)
  from bad show False
  proof
    assume "lacks rowset [''name'']"
    with name show False by (simp add: lacks_def)
  next
    assume "\<exists>row \<in> set (elem_findall ''row'' rowset). lacks row (map fst ?spec)"
    then obtain row where "row \<in> set (elem_findall ''row'' rowset)"
      "lacks row (map fst ?spec)" by blast
    with rows lacks_not_reads [of row ?spec] show False by blast
  qed
qed

lemma medals_fails:
  "medals_doc_incomplete (result api_res) \<Longrightarrow> \<exists>e. medals api_res = Inl e"
  using medals_incomplete_not_complete [of "result api_res"]
  by (simp add: not_returns_iff [symmetric] medals_returns)

lemma current_training_fails:
  "\<exists>q \<in> set [(AsTs, ''trainingStartTime''), (AsTs, ''trainingEndTime''),
                 (AsInt, ''trainingTypeID''), (AsInt, ''trainingStartSP''),
                 (AsInt, ''trainingDestinationSP''), (AsTs, ''currentTQTime''),
                 (AsInt, ''trainingToLevel''), (AsBool, ''skillInTraining'')].
        \<not> answers (elem_getters (result api_res)) q
   \<Longrightarrow> \<exists>e. current_training elem_getters api_res = Inl e"
  unfolding not_returns_iff [symmetric] current_training_returns by blast

lemma faction_warfare_stats_fails:
  "\<exists>q \<in> set [(AsInt, ''factionID''), (AsStr, ''factionName''), (AsTs, ''enlisted''),
                 (AsInt, ''currentRank''), (AsInt, ''highestRank''),
                 (AsInt, ''killsYesterday''), (AsInt, ''killsLastWeek''),
                 (AsInt, ''killsTotal''), (AsInt, ''victoryPointsYesterday''),
                 (AsInt, ''victoryPointsLastWeek''), (AsInt, ''victoryPointsTotal'')].
        \<not> answers (elem_getters (result api_res)) q
   \<Longrightarrow> \<exists>e. faction_warfare_stats elem_getters api_res = Inl e"
  unfolding not_returns_iff [symmetric] faction_warfare_stats_returns by blast

lemma wrappers_fail:
  "parse (result api_res) = Inl e \<Longrightarrow> contract_bids parse api_res = Inl e"
  "parse (result api_res) = Inl e \<Longrightarrow> contract_items parse contract_id api_res = Inl e"
  "parse (result api_res) = Inl e \<Longrightarrow> contracts parse api_res = Inl e"
  "parse (result api_res) = Inl e \<Longrightarrow> wallet_journal parse before_id limit api_res = Inl e"
  "parse (result api_res) = Inl e \<Longrightarrow> wallet_transactions parse before_id limit api_res = Inl e"
  "parse (result api_res) = Inl e \<Longrightarrow> industry_jobs parse api_res = Inl e"
  "parse (result api_res) = Inl e \<Longrightarrow> kills parse before_kill api_res = Inl e"
  "parse (result api_res) = Inl e \<Longrightarrow> contacts parse api_res = Inl e"
  "parse (result api_res) = Inl e \<Longrightarrow> orders parse api_res = Inl e"
  by (simp_all add: contract_bids_def contract_items_def contracts_def wallet_journal_def
      wallet_transactions_def industry_jobs_def kills_def contacts_def orders_def bindE_simps)


lemma no_balance_doc_wallet: "wallet_doc_incomplete no_balance_doc"
  by (simp add: wallet_doc_incomplete_def no_balance_doc_def elem_find_def lacks_def)

lemma no_balance_doc_standings: "standings_doc_incomplete no_balance_doc"
  by (simp add: standings_doc_incomplete_def no_balance_doc_def elem_find_def)

lemma no_balance_doc_rows:
  "k \<noteq> ''accountID'' \<Longrightarrow> k \<noteq> ''accountKey'' \<Longrightarrow> rows_doc_incomplete (k # ks) no_balance_doc"
  by (simp add: rows_doc_incomplete_def no_balance_doc_def elem_find_def elem_findall_def lacks_def)

lemma no_balance_doc_sheet: "sheet_doc_incomplete sample_corp_roles no_balance_doc"
  by (simp add: sheet_doc_incomplete_def sheet_rows_lack_def sheet_rows_def no_balance_doc_def
      elem_findall_def)

lemma no_balance_doc_medals: "medals_doc_incomplete no_balance_doc"
  by (simp add: medals_doc_incomplete_def no_balance_doc_def elem_findall_def lacks_def)

text \<open>
  C5, as amended. An extractor raises, and so returns no result at all, whenever a
  rowset it looks up or an attribute it reads from a row is missing: for \<open>wallet_info\<close>
  and \<open>wallet_balance\<close> the first rowset, its first row or one of that row's three
  attributes; for \<open>standings\<close> (in whatever order \<open>_name_map\<close> is iterated) the
  \<open>characterNPCStandings\<close> element, the name of one of its rowsets, one of the three
  named rowsets or an attribute of one of their rows; for \<open>character_sheet\<close> the name of
  a rowset, one of the rowsets it looks up by name or an attribute of one of their
  elements; for the operations that loop over the rows of the first rowset, that rowset
  or an attribute of one of its rows. \<open>medals\<close> raises when a rowset that it finds has no
  name or a row lacks an attribute. The operations that leave the reading to
  \<open>api.elem_getters\<close> or to a parser raise, with the same error, whenever that raises.
\<close>

theorem extractors_fail_on_missing_parts:
  "(wallet_doc_incomplete (result api_res) \<longrightarrow>
      (\<exists>e. wallet_info flt api_res = Inl e) \<and> (\<exists>e. wallet_balance flt api_res = Inl e)) \<and>
   (set items = set name_map \<and> standings_doc_incomplete (result api_res) \<longrightarrow>
      (\<exists>e. standings flt items api_res = Inl e)) \<and>
   (sheet_doc_incomplete corp_roles (result api_res) \<longrightarrow>
      (\<exists>e. character_sheet elem_getters corp_roles api_res = Inl e)) \<and>
   (rows_doc_incomplete [''notificationID'', ''typeID'', ''senderID'', ''sentDate'', ''read'']
      (result api_res) \<longrightarrow> (\<exists>e. notifications parse_ts api_res = Inl e)) \<and>
   (rows_doc_incomplete [''notificationID''] (result api_res) \<longrightarrow>
      (\<exists>e. notification_texts parse_keyval_data notification_ids api_res = Inl e)) \<and>
   (rows_doc_incomplete [''agentID'', ''skillTypeID'', ''researchStartDate'', ''pointsPerDay'',
      ''remainderPoints''] (result api_res) \<longrightarrow>
      (\<exists>e. research flt parse_ts api_res = Inl e)) \<and>
   (rows_doc_incomplete [''queuePosition'', ''typeID'', ''level'', ''startSP'', ''endSP'',
      ''startTime'', ''endTime''] (result api_res) \<longrightarrow>
      (\<exists>e. skill_queue parse_ts api_res = Inl e)) \<and>
   (rows_doc_incomplete [''messageID'', ''senderID'', ''sentDate'', ''title'',
      ''toCorpOrAllianceID'', ''toCharacterIDs'', ''toListID''] (result api_res) \<longrightarrow>
      (\<exists>e. messages parse_ts api_res = Inl e)) \<and>
   (rows_doc_incomplete [''messageID''] (result api_res) \<longrightarrow>
      (\<exists>e. message_bodies message_ids api_res = Inl e)) \<and>
   (rows_doc_incomplete [''displayName'', ''listID''] (result api_res) \<longrightarrow>
      (\<exists>e. mailing_lists api_res = Inl e)) \<and>
   (rows_doc_incomplete [''eventID'', ''ownerID'', ''ownerName'', ''eventDate'', ''eventTitle'',
      ''duration'', ''importance'', ''eventText'', ''response''] (result api_res) \<longrightarrow>
      (\<exists>e. calendar_events parse_ts api_res = Inl e)) \<and>
   (rows_doc_incomplete [''characterID'', ''characterName'', ''response'', ''eventID'']
      (result api_res) \<longrightarrow>
      (\<exists>e. calendar_attendees event_ids api_res = Inl e) \<and>
      (\<exists>e. event_attendees event_id api_res = Inl e)) \<and>
   (rows_doc_incomplete [''notificationID'', ''senderID'', ''senderName'', ''sentDate'',
      ''messageData''] (result api_res) \<longrightarrow>
      (\<exists>e. contact_notifications parse_ts parse_keyval_data api_res = Inl e)) \<and>
   (rows_doc_incomplete [''itemName'', ''itemID'', ''x'', ''y'', ''z''] (result api_res) \<longrightarrow>
      (\<exists>e. locations flt location_list api_res = Inl e)) \<and>
   (medals_doc_incomplete (result api_res) \<longrightarrow> (\<exists>e. medals api_res = Inl e)) \<and>
   ((\<exists>q \<in> set [(AsTs, ''trainingStartTime''), (AsTs, ''trainingEndTime''),
                 (AsInt, ''trainingTypeID''), (AsInt, ''trainingStartSP''),
                 (AsInt, ''trainingDestinationSP''), (AsTs, ''currentTQTime''),
                 (AsInt, ''trainingToLevel''), (AsBool, ''skillInTraining'')].
        \<not> answers (elem_getters (result api_res)) q) \<longrightarrow>
      (\<exists>e. current_training elem_getters api_res = Inl e)) \<and>
   ((\<exists>q \<in> set [(AsInt, ''factionID''), (AsStr, ''factionName''), (AsTs, ''enlisted''),
                 (AsInt, ''currentRank''), (AsInt, ''highestRank''),
                 (AsInt, ''killsYesterday''), (AsInt, ''killsLastWeek''),
                 (AsInt, ''killsTotal''), (AsInt, ''victoryPointsYesterday''),
                 (AsInt, ''victoryPointsLastWeek''), (AsInt, ''victoryPointsTotal'')].
        \<not> answers (elem_getters (result api_res)) q) \<longrightarrow>
      (\<exists>e. faction_warfare_stats elem_getters api_res = Inl e)) \<and>
   (\<forall>e. parse (result api_res) = Inl e \<longrightarrow>
      contract_bids parse api_res = Inl e \<and>
      contract_items parse contract_id api_res = Inl e \<and>
      contracts parse api_res = Inl e \<and>
      wallet_journal parse before_id limit api_res = Inl e \<and>
      wallet_transactions parse before_id limit api_res = Inl e \<and>
      industry_jobs parse api_res = Inl e \<and>
      kills parse before_kill api_res = Inl e \<and>
      contacts parse api_res = Inl e \<and>
      orders parse api_res = Inl e)"
proof (intro conjI impI allI)
qed (erule wallet_info_fails wallet_balance_fails notifications_fails notification_texts_fails
    research_fails skill_queue_fails messages_fails message_bodies_fails mailing_lists_fails
    calendar_events_fails calendar_attendees_fails event_attendees_fails
    contact_notifications_fails locations_fails medals_fails character_sheet_fails
    current_training_fails faction_warfare_stats_fails wrappers_fail
    | (elim conjE, erule (1) standings_fails))+

text \<open>
  The response \<open>no_balance_doc\<close> has one rowset, named \<open>accounts\<close>, whose only row has an
  \<open>accountID\<close> and an \<open>accountKey\<close> and nothing else. It is incomplete for every one of
  the extractors, and each of them raises on it.
\<close>

theorem extractors_fail_witness:
  "wallet_doc_incomplete no_balance_doc \<and> standings_doc_incomplete no_balance_doc \<and>
   sheet_doc_incomplete sample_corp_roles no_balance_doc \<and>
   medals_doc_incomplete no_balance_doc \<and>
   rows_doc_incomplete [''notificationID'', ''typeID'', ''senderID'', ''sentDate'', ''read'']
     no_balance_doc \<and>
   (\<exists>e. wallet_info py_int (envelope no_balance_doc) = Inl e) \<and>
   (\<exists>e. wallet_balance py_int (envelope no_balance_doc) = Inl e) \<and>
   (\<exists>e. standings py_int name_map (envelope no_balance_doc) = Inl e) \<and>
   (\<exists>e. character_sheet sample_getters sample_corp_roles (envelope no_balance_doc) = Inl e) \<and>
   (\<exists>e. notifications Inr (envelope no_balance_doc) = Inl e) \<and>
   (\<exists>e. research py_int Inr (envelope no_balance_doc) = Inl e) \<and>
   (\<exists>e. skill_queue Inr (envelope no_balance_doc) = Inl e) \<and>
   (\<exists>e. messages Inr (envelope no_balance_doc) = Inl e) \<and>
   (\<exists>e. message_bodies [] (envelope no_balance_doc) = Inl e) \<and>
   (\<exists>e. mailing_lists (envelope no_balance_doc) = Inl e) \<and>
   (\<exists>e. calendar_events Inr (envelope no_balance_doc) = Inl e) \<and>
   (\<exists>e. calendar_attendees [] (envelope no_balance_doc) = Inl e) \<and>
   (\<exists>e. event_attendees (IntKey 1) (envelope no_balance_doc) = Inl e) \<and>
   (\<exists>e. locations py_int [] (envelope no_balance_doc) = Inl e) \<and>
   (\<exists>e. medals (envelope no_balance_doc) = Inl e)"
proof -
  have r: "result (envelope no_balance_doc) = no_balance_doc" by (simp add: envelope_def)
  note inst = extractors_fail_on_missing_parts [where api_res = "envelope no_balance_doc"
      and flt = py_int and items = name_map and parse_ts = Inr
      and elem_getters = sample_getters and corp_roles = sample_corp_roles
      and message_ids = "[]" and event_ids = "[]" and event_id = "IntKey 1"
      and location_list = "[]", unfolded r]
  note rows = no_balance_doc_rows
  note c2 = conjunct2
  have a: "\<exists>e. wallet_info py_int (envelope no_balance_doc) = Inl e"
    "\<exists>e. wallet_balance py_int (envelope no_balance_doc) = Inl e"
    using inst [THEN conjunct1] no_balance_doc_wallet by simp_all
  have b: "\<exists>e. standings py_int name_map (envelope no_balance_doc) = Inl e"
    using inst [THEN c2, THEN conjunct1] no_balance_doc_standings by simp
  have c: "\<exists>e. character_sheet sample_getters sample_corp_roles (envelope no_balance_doc) = Inl e"
    using inst [THEN c2, THEN c2, THEN conjunct1] no_balance_doc_sheet by simp
  have d: "\<exists>e. notifications Inr (envelope no_balance_doc) = Inl e"
    using inst [THEN c2, THEN c2, THEN c2, THEN conjunct1] by (simp add: rows)
  have e: "\<exists>e. research py_int Inr (envelope no_balance_doc) = Inl e"
    using inst [THEN c2, THEN c2, THEN c2, THEN c2, THEN c2, THEN conjunct1]
    by (simp add: rows)
  have f: "\<exists>e. skill_queue Inr (envelope no_balance_doc) = Inl e"
    using inst [THEN c2, THEN c2, THEN c2, THEN c2, THEN c2, THEN c2, THEN conjunct1]
    by (simp add: rows)
  have g: "\<exists>e. messages Inr (envelope no_balance_doc) = Inl e"
    using inst [THEN c2, THEN c2, THEN c2, THEN c2, THEN c2, THEN c2, THEN c2, THEN conjunct1]
    by (simp add: rows)
  have h: "\<exists>e. message_bodies [] (envelope no_balance_doc) = Inl e"
    using inst [THEN c2, THEN c2, THEN c2, THEN c2, THEN c2, THEN c2, THEN c2, THEN c2,
        THEN conjunct1]
    by (simp add: rows)
  have i: "\<exists>e. mailing_lists (envelope no_balance_doc) = Inl e"
    using inst [THEN c2, THEN c2, THEN c2, THEN c2, THEN c2, THEN c2, THEN c2, THEN c2,
        THEN c2, THEN conjunct1]
    by (simp add: rows)
  have j: "\<exists>e. calendar_events Inr (envelope no_balance_doc) = Inl e"
    using inst [THEN c2, THEN c2, THEN c2, THEN c2, THEN c2, THEN c2, THEN c2, THEN c2,
        THEN c2, THEN c2, THEN conjunct1]
    by (simp add: rows)
  have k: "\<exists>e. calendar_attendees [] (envelope no_balance_doc) = Inl e"
    "\<exists>e. event_attendees (IntKey 1) (envelope no_balance_doc) = Inl e"
    using inst [THEN c2, THEN c2, THEN c2, THEN c2, THEN c2, THEN c2, THEN c2, THEN c2,
        THEN c2, THEN c2, THEN c2, THEN conjunct1]
    by (simp_all add: rows)
  have l: "\<exists>e. locations py_int [] (envelope no_balance_doc) = Inl e"
    using inst [THEN c2, THEN c2, THEN c2, THEN c2, THEN c2, THEN c2, THEN c2, THEN c2,
        THEN c2, THEN c2, THEN c2, THEN c2, THEN c2, THEN conjunct1]
    by (simp add: rows)
  have m: "\<exists>e. medals (envelope no_balance_doc) = Inl e"
    using inst [THEN c2, THEN c2, THEN c2, THEN c2, THEN c2, THEN c2, THEN c2, THEN c2,
        THEN c2, THEN c2, THEN c2, THEN c2, THEN c2, THEN c2, THEN conjunct1]
      no_balance_doc_medals
    by simp
  have n: "rows_doc_incomplete [''notificationID'', ''typeID'', ''senderID'', ''sentDate'',
      ''read''] no_balance_doc"
    by (simp add: rows)
  show ?thesis
    by (intro conjI no_balance_doc_wallet no_balance_doc_standings no_balance_doc_sheet
        no_balance_doc_medals n a b c d e f g h i j k l m)
qed

text \<open>
  C5 as stated fails at \<open>medals\<close>, which loops over whatever rowsets are present instead
  of looking its two rowsets up: on a response with no rowset at all it returns its two
  groups, both empty.
\<close>

theorem medals_returns_without_rowsets:
  "medals (envelope empty_doc) =
     Inr \<lparr>result = [''current'' \<mapsto> Map.empty, ''other'' \<mapsto> Map.empty],
          timestamp = 1000, expires = 2000\<rparr>"
  by (simp add: medals_def envelope_def empty_doc_def elem_findall_def bindE_simps APIResult_def)

end
